theory Spec2Isabelle
  imports Complex_Main "HOL-Library.Word" "HOL-Library.Monad_Syntax"
begin

unbundle bit_operations_syntax

section \<open>Terrain synthesis and chunk streaming: a shallow embedding\<close>

text \<open>
  The theory follows the TypeScript sources of the world module: \<^verbatim>\<open>types.ts\<close>,
  \<^verbatim>\<open>ChunkManager.ts\<close>, \<^verbatim>\<open>WorldManager.tsx\<close>, \<^verbatim>\<open>TerrainChunk.tsx\<close>,
  \<^verbatim>\<open>sampleTerrainHeightAt.ts\<close> and \<^verbatim>\<open>WorldGenerator.ts\<close>.

  Numbers. A JavaScript number is modelled as a real number. Rounding to binary64 is
  modelled where a property depends on it, in the grid coordinates of \<open>generateChunk\<close>;
  elsewhere operations are exact, and overflow to an infinity is not modelled. A number
  that may be NaN is a \<open>real option\<close> with \<open>None\<close> for NaN. Chunk coordinates, \<open>meshResolution\<close> and
  \<open>renderDistance\<close> are integers, as the user interface and \<open>Math.floor\<close> produce them.
\<close>

subsection \<open>Data model (types.ts)\<close>

record ChunkCoordinate =
  coord_x :: int
  coord_z :: int

record Vector3 =
  vec_x :: real
  vec_y :: real
  vec_z :: real

text \<open>Of a three.js mesh only \<open>geometry.boundingBox?.max.x\<close> is ever read; \<open>None\<close> is a
  bounding box that has not been computed.\<close>

record Mesh =
  mesh_id :: nat
  boundingBox_max_x :: "real option"

record WorldChunk =
  coordinate :: ChunkCoordinate
  position :: Vector3
  isLoaded :: bool
  isVisible :: bool
  mesh :: "Mesh option"
  needsUpdate :: bool

record WorldGenerationSettings =
  seed :: string
  chunkSize :: real
  meshResolution :: int
  waterLevel :: real
  continentScale :: real
  continentAmplitude :: real
  mountainScale :: real
  mountainAmplitude :: real
  mountainSharpness :: real
  detailScale :: real
  detailAmplitude :: real
  warpScale :: real
  warpStrength :: real
  renderDistance :: int

type_synonym number = "real option"

record Cube =
  cube_x :: real
  cube_y :: real
  cube_z :: real
  cube_size :: real

record Ball =
  ball_x :: real
  ball_y :: real
  ball_z :: real
  ball_radius :: real

record TerrainData =
  heights :: "number list"
  normals :: "number list"
  vertices :: "number list"
  indices :: "int list"
  cubes :: "Cube list"
  balls :: "Ball list"

subsection \<open>Template-literal keys\<close>

text \<open>\<^verbatim>\<open>`${coord.x},${coord.z}`\<close> prints both integers in decimal, a minus sign before a
  negative one. (Beyond \<open>10^21\<close> JavaScript switches to exponent notation; such
  coordinates are out of reach of a world position.)\<close>

definition digit_char :: "nat \<Rightarrow> char" where
  "digit_char d = char_of (48 + d)"

fun nat_to_string :: "nat \<Rightarrow> string" where
  "nat_to_string n =
     (if n < 10 then [digit_char n] else nat_to_string (n div 10) @ [digit_char (n mod 10)])"

declare nat_to_string.simps [simp del]

definition int_to_string :: "int \<Rightarrow> string" where
  "int_to_string i =
     (if i < 0 then CHR ''-'' # nat_to_string (nat (- i)) else nat_to_string (nat i))"

definition coordKey :: "int \<Rightarrow> int \<Rightarrow> string" where
  "coordKey a b = int_to_string a @ CHR '','' # int_to_string b"

subsection \<open>JavaScript Map with string keys, in insertion order\<close>

type_synonym 'v jsmap = "(string \<times> 'v) list"

definition map_has :: "'v jsmap \<Rightarrow> string \<Rightarrow> bool" where
  "map_has m k = (k \<in> fst ` set m)"

definition map_get :: "'v jsmap \<Rightarrow> string \<Rightarrow> 'v option" where
  "map_get m k = map_of m k"

fun map_set :: "'v jsmap \<Rightarrow> string \<Rightarrow> 'v \<Rightarrow> 'v jsmap" where
  "map_set [] k v = [(k, v)]"
| "map_set ((k', v') # m) k v = (if k' = k then (k, v) # m else (k', v') # map_set m k v)"

definition map_delete :: "'v jsmap \<Rightarrow> string \<Rightarrow> 'v jsmap" where
  "map_delete m k = filter (\<lambda>kv. fst kv \<noteq> k) m"

definition map_keys :: "'v jsmap \<Rightarrow> string list" where
  "map_keys m = map fst m"

subsection \<open>ChunkManager (ChunkManager.ts)\<close>

text \<open>Chunk objects live in a store and the resident table holds references to them, so
  that a mutation through any alias is visible through the table.\<close>

type_synonym ref = nat

record Store =
  objs :: "ref \<Rightarrow> WorldChunk option"
  nextRef :: ref

record ChunkManager =
  cm_settings :: WorldGenerationSettings
  playerChunk :: ChunkCoordinate
  loadedChunks :: "ref jsmap"
  visibleChunks :: "string set"

definition new_ChunkManager :: "WorldGenerationSettings \<Rightarrow> ChunkManager" where
  "new_ChunkManager st =
     \<lparr>cm_settings = st, playerChunk = \<lparr>coord_x = 0, coord_z = 0\<rparr>,
      loadedChunks = [], visibleChunks = {}\<rparr>"

definition chunkKey :: "ChunkCoordinate \<Rightarrow> string" where
  "chunkKey coord = coordKey (coord_x coord) (coord_z coord)"

text \<open>\<open>worldToChunk\<close> divides by \<open>chunkSize\<close>. For \<open>chunkSize = 0\<close> the quotient is NaN or
  an infinity and no integer chunk coordinate exists: the result is \<open>None\<close>.\<close>

definition worldToChunk :: "ChunkManager \<Rightarrow> Vector3 \<Rightarrow> ChunkCoordinate option" where
  "worldToChunk cm worldPos =
     (if chunkSize (cm_settings cm) = 0 then None
      else Some \<lparr>coord_x = \<lfloor>vec_x worldPos / chunkSize (cm_settings cm)\<rfloor>,
                 coord_z = \<lfloor>vec_z worldPos / chunkSize (cm_settings cm)\<rfloor>\<rparr>)"

definition chunkToWorld :: "ChunkManager \<Rightarrow> ChunkCoordinate \<Rightarrow> Vector3" where
  "chunkToWorld cm coord =
     \<lparr>vec_x = real_of_int (coord_x coord) * chunkSize (cm_settings cm),
      vec_y = 0,
      vec_z = real_of_int (coord_z coord) * chunkSize (cm_settings cm)\<rparr>"

definition getRequiredChunks :: "ChunkManager \<Rightarrow> ChunkCoordinate \<Rightarrow> ChunkCoordinate list" where
  "getRequiredChunks cm pc =
     (let radius = renderDistance (cm_settings cm) div 2
      in concat (map (\<lambda>a. map (\<lambda>b. \<lparr>coord_x = a, coord_z = b\<rparr>)
                               [coord_z pc - radius .. coord_z pc + radius])
                     [coord_x pc - radius .. coord_x pc + radius]))"

record UpdateResult =
  chunksToLoad :: "ChunkCoordinate list"
  chunksToUnload :: "string list"
  playerChunkChanged :: bool

definition updatePlayerPosition ::
  "ChunkManager \<Rightarrow> Vector3 \<Rightarrow> (UpdateResult \<times> ChunkManager) option" where
  "updatePlayerPosition cm worldPosition =
     (case worldToChunk cm worldPosition of
        None \<Rightarrow> None
      | Some newPlayerChunk \<Rightarrow>
          (let changed = (coord_x newPlayerChunk \<noteq> coord_x (playerChunk cm)
                          \<or> coord_z newPlayerChunk \<noteq> coord_z (playerChunk cm));
               cm1 = (if changed then cm\<lparr>playerChunk := newPlayerChunk\<rparr> else cm);
               requiredChunks = getRequiredChunks cm1 newPlayerChunk;
               requiredKeys = set (map chunkKey requiredChunks);
               toLoad = filter (\<lambda>coord. \<not> map_has (loadedChunks cm1) (chunkKey coord))
                               requiredChunks;
               toUnload = filter (\<lambda>key. key \<notin> requiredKeys) (map_keys (loadedChunks cm1))
           in Some (\<lparr>chunksToLoad = toLoad, chunksToUnload = toUnload,
                      playerChunkChanged = changed\<rparr>,
                    cm1\<lparr>visibleChunks := requiredKeys\<rparr>)))"

definition cm_generateChunk ::
  "ChunkManager \<Rightarrow> Store \<Rightarrow> ChunkCoordinate \<Rightarrow> ref \<times> ChunkManager \<times> Store" where
  "cm_generateChunk cm sto coord =
     (let chunk = \<lparr>coordinate = coord, position = chunkToWorld cm coord, isLoaded = False,
                   isVisible = True, mesh = None, needsUpdate = True\<rparr>;
          r = nextRef sto
      in (r,
          cm\<lparr>loadedChunks := map_set (loadedChunks cm) (chunkKey coord) r\<rparr>,
          sto\<lparr>objs := (objs sto)(r := Some chunk), nextRef := Suc r\<rparr>))"

definition getChunk :: "ChunkManager \<Rightarrow> ChunkCoordinate \<Rightarrow> ref option" where
  "getChunk cm coord = map_get (loadedChunks cm) (chunkKey coord)"

definition unloadChunk :: "ChunkManager \<Rightarrow> string \<Rightarrow> ChunkManager" where
  "unloadChunk cm key = cm\<lparr>loadedChunks := map_delete (loadedChunks cm) key\<rparr>"

definition getLoadedChunks :: "ChunkManager \<Rightarrow> ref list" where
  "getLoadedChunks cm = map snd (loadedChunks cm)"

text \<open>The square of chunk coordinates within \<open>radius\<close> of the player's chunk on both axes.\<close>

definition squareAround :: "ChunkCoordinate \<Rightarrow> int \<Rightarrow> ChunkCoordinate set" where
  "squareAround pc radius =
     {c. \<bar>coord_x c - coord_x pc\<bar> \<le> radius \<and> \<bar>coord_z c - coord_z pc\<bar> \<le> radius}"

text \<open>Reading a decimal string back, used to show that keys determine coordinates.\<close>

definition digit_val :: "char \<Rightarrow> nat" where
  "digit_val c = of_char c - 48"

definition string_to_nat :: "string \<Rightarrow> nat" where
  "string_to_nat s = foldl (\<lambda>acc c. 10 * acc + digit_val c) 0 s"

subsection \<open>TerrainChunk mount effect (TerrainChunk.tsx)\<close>

text \<open>\<^verbatim>\<open>if (meshRef.current && onLoaded && !chunk.isLoaded) { chunk.isLoaded = true;
  chunk.mesh = meshRef.current; onLoaded(chunk) }\<close>. The chunk is the object the resident
  table refers to. The result says whether \<open>onLoaded\<close> was called.\<close>

definition TerrainChunk_effect :: "Store \<Rightarrow> ref \<Rightarrow> Mesh option \<Rightarrow> bool \<Rightarrow> Store \<times> bool" where
  "TerrainChunk_effect sto chunk meshRef onLoaded =
     (case objs sto chunk of
        None \<Rightarrow> (sto, False)
      | Some ch \<Rightarrow>
          (if meshRef \<noteq> None \<and> onLoaded \<and> \<not> isLoaded ch
           then (sto\<lparr>objs := (objs sto)(chunk := Some (ch\<lparr>isLoaded := True, mesh := meshRef\<rparr>))\<rparr>,
                 True)
           else (sto, False)))"

subsection \<open>The streaming coordinator (WorldManager.tsx)\<close>

text \<open>The refs and state of the component. \<open>requested\<close> logs every call of
  \<open>requestChunk\<close>; each logged coordinate stands for a promise whose continuation is
  \<open>onTerrainData\<close>.\<close>

record WorldManager =
  chunkManagerRef :: "ChunkManager option"
  isInitialized :: bool
  wm_store :: Store
  chunkTerrainData :: "TerrainData jsmap"
  loadingChunks :: "string set"
  loadedChunkCoords :: "string set"
  loadedChunksState :: "ref list"
  requested :: "ChunkCoordinate list"

definition requestIfNeeded :: "WorldManager \<Rightarrow> ChunkCoordinate \<Rightarrow> WorldManager" where
  "requestIfNeeded wm coord =
     (let key = coordKey (coord_x coord) (coord_z coord)
      in if \<not> map_has (chunkTerrainData wm) key \<and> key \<notin> loadingChunks wm
         then wm\<lparr>loadingChunks := insert key (loadingChunks wm),
                 requested := requested wm @ [coord]\<rparr>
         else wm)"

definition unloadKey :: "WorldManager \<Rightarrow> string \<Rightarrow> WorldManager" where
  "unloadKey wm key =
     wm\<lparr>chunkManagerRef := map_option (\<lambda>cm. unloadChunk cm key) (chunkManagerRef wm),
        chunkTerrainData := map_delete (chunkTerrainData wm) key,
        loadingChunks := loadingChunks wm - {key},
        loadedChunkCoords := loadedChunkCoords wm - {key}\<rparr>"

text \<open>One pass of the frame callback. \<open>playerRef\<close> is \<open>playerRef.current\<close>'s position.
  The result is \<open>None\<close> where \<open>updatePlayerPosition\<close> has none.\<close>

definition useFrame :: "WorldManager \<Rightarrow> Vector3 option \<Rightarrow> WorldManager option" where
  "useFrame wm playerRef =
     (case (chunkManagerRef wm, playerRef) of
        (Some cm, Some playerPosition) \<Rightarrow>
          (if \<not> isInitialized wm then Some wm
           else case updatePlayerPosition cm playerPosition of
                  None \<Rightarrow> None
                | Some (updateResult, cm') \<Rightarrow>
                    (let wm1 = wm\<lparr>chunkManagerRef := Some cm'\<rparr>;
                         wm2 = foldl requestIfNeeded wm1 (chunksToLoad updateResult);
                         wm3 = foldl unloadKey wm2 (chunksToUnload updateResult)
                     in Some (wm3\<lparr>loadedChunksState :=
                                      (case chunkManagerRef wm3 of
                                         Some cm3 \<Rightarrow> getLoadedChunks cm3 | None \<Rightarrow> [])\<rparr>)))
      | _ \<Rightarrow> Some wm)"

text \<open>The continuation of \<open>requestChunk(coord)\<close>, run when the terrain data arrives.
  \<open>chunkManagerRef.current!\<close> fails on a missing manager: \<open>None\<close>.\<close>

definition onTerrainData ::
  "WorldManager \<Rightarrow> ChunkCoordinate \<Rightarrow> TerrainData \<Rightarrow> WorldManager option" where
  "onTerrainData wm coord terrainData =
     (let key = coordKey (coord_x coord) (coord_z coord);
          wm1 = wm\<lparr>chunkTerrainData := map_set (chunkTerrainData wm) key terrainData,
                    loadingChunks := loadingChunks wm - {key}\<rparr>
      in case chunkManagerRef wm1 of
           None \<Rightarrow> None
         | Some cm \<Rightarrow>
             (case cm_generateChunk cm (wm_store wm1) coord of
                (r, cm', sto') \<Rightarrow>
                  Some (wm1\<lparr>chunkManagerRef := Some cm', wm_store := sto',
                             loadedChunksState := getLoadedChunks cm'\<rparr>)))"

text \<open>The mount effect of the component: a fresh manager and empty bookkeeping.\<close>

definition initWorldManager :: "WorldGenerationSettings \<Rightarrow> WorldManager" where
  "initWorldManager st =
     \<lparr>chunkManagerRef = Some (new_ChunkManager st), isInitialized = True,
      wm_store = \<lparr>objs = (\<lambda>_. None), nextRef = 0\<rparr>,
      chunkTerrainData = [], loadingChunks = {}, loadedChunkCoords = {},
      loadedChunksState = [], requested = []\<rparr>"

datatype event = Frame "Vector3 option" | Arrive ChunkCoordinate TerrainData

fun wm_step :: "WorldManager \<Rightarrow> event \<Rightarrow> WorldManager option" where
  "wm_step wm (Frame p) = useFrame wm p"
| "wm_step wm (Arrive coord td) = onTerrainData wm coord td"

fun run :: "WorldManager \<Rightarrow> event list \<Rightarrow> WorldManager option" where
  "run wm [] = Some wm"
| "run wm (e # es) = (case wm_step wm e of None \<Rightarrow> None | Some wm' \<Rightarrow> run wm' es)"

subsection \<open>Height sampling (sampleTerrainHeightAt.ts)\<close>

text \<open>\<open>Math.round\<close> rounds to the nearest integer, a tie towards \<open>+\<infinity>\<close>: it is \<open>round\<close>.
  The result \<open>None\<close> is \<open>null\<close>; \<open>Some None\<close> is a stored NaN.\<close>

definition sample_res :: "TerrainData \<Rightarrow> int" where
  "sample_res terrainData = round (sqrt (real (length (vertices terrainData)) / 3))"

text \<open>\<open>chunk.mesh ? (chunk.mesh.geometry.boundingBox?.max.x ?? 1) / gridSize : 1\<close>, read
  only for \<open>gridSize \<ge> 1\<close>.\<close>

definition sample_step :: "WorldChunk \<Rightarrow> int \<Rightarrow> real" where
  "sample_step chunk gridSize =
     (case mesh chunk of
        None \<Rightarrow> 1
      | Some m \<Rightarrow> (case boundingBox_max_x m of None \<Rightarrow> 1 | Some mx \<Rightarrow> mx) / real_of_int gridSize)"

text \<open>\<open>Math.max(0, Math.min(gridSize, Math.round((local / (step * gridSize)) * gridSize)))\<close>.
  A NaN coordinate stays NaN through \<open>round\<close>, \<open>min\<close> and \<open>max\<close>. For \<open>step * gridSize = 0\<close>
  the quotient is NaN when \<open>local = 0\<close>, and otherwise an infinity with the sign of \<open>local\<close>,
  which \<open>min\<close> and \<open>max\<close> clamp to \<open>gridSize\<close> or to \<open>0\<close>.\<close>

definition gridIndex :: "number \<Rightarrow> real \<Rightarrow> int \<Rightarrow> int option" where
  "gridIndex local step gridSize =
     (case local of
        None \<Rightarrow> None
      | Some l \<Rightarrow>
          (if step * real_of_int gridSize = 0
           then (if l = 0 then None
                 else if 0 < l then Some (max 0 gridSize)
                 else Some 0)
           else Some (max 0 (min gridSize
                   (round ((l / (step * real_of_int gridSize)) * real_of_int gridSize))))))"

definition sampleTerrainHeightAt ::
  "WorldChunk \<Rightarrow> TerrainData \<Rightarrow> number \<Rightarrow> number \<Rightarrow> number option" where
  "sampleTerrainHeightAt chunk terrainData worldX worldZ =
     (let res = sample_res terrainData
      in if res < 2 then None
         else
           (let localX = map_option (\<lambda>w. w - vec_x (position chunk)) worldX;
                localZ = map_option (\<lambda>w. w - vec_z (position chunk)) worldZ;
                gridSize = res - 1;
                step = sample_step chunk gridSize
            in case (gridIndex localX step gridSize, gridIndex localZ step gridSize) of
                 (Some normX, Some normZ) \<Rightarrow>
                   (let idx = normZ * res + normX
                    in if idx * 3 + 1 < int (length (vertices terrainData))
                       then Some (vertices terrainData ! nat (idx * 3 + 1))
                       else None)
               | _ \<Rightarrow> None))"

text \<open>The two clamped grid indices of a query, as the function computes them.\<close>

definition sample_normX :: "WorldChunk \<Rightarrow> TerrainData \<Rightarrow> number \<Rightarrow> int option" where
  "sample_normX chunk terrainData worldX =
     gridIndex (map_option (\<lambda>w. w - vec_x (position chunk)) worldX)
       (sample_step chunk (sample_res terrainData - 1)) (sample_res terrainData - 1)"

definition sample_normZ :: "WorldChunk \<Rightarrow> TerrainData \<Rightarrow> number \<Rightarrow> int option" where
  "sample_normZ chunk terrainData worldZ =
     gridIndex (map_option (\<lambda>w. w - vec_z (position chunk)) worldZ)
       (sample_step chunk (sample_res terrainData - 1)) (sample_res terrainData - 1)"




subsection \<open>WorldGenerator (WorldGenerator.ts)\<close>

text \<open>
  The noise functions come from the libraries simplex-noise and alea, which are not part
  of the repository: \<open>createNoise2D (alea s)\<close> is a parameter \<open>mk s\<close> of the model. A noise
  function takes two numbers, which may be NaN, and returns a number.

  In this part \<open>None\<close> is a value that is not a finite number. It is NaN wherever it can
  arise from finite settings: in \<open>fractal\<close> as \<open>0 / 0\<close> (with a positive persistence the
  accumulated amplitude is zero only when every term is), in \<open>js_pow\<close> for a negative
  base and a fractional exponent. A quotient by \<open>chunkSize = 0\<close> in \<open>generateChunk\<close> is
  NaN or an infinity, and \<open>None\<close> stands for both: either way the scatter loop finds no
  row of the height map under it.
\<close>

type_synonym noise2D = "number \<Rightarrow> number \<Rightarrow> real"

record WorldGenerator =
  wg_settings :: WorldGenerationSettings
  continentNoise :: noise2D
  mountainNoise :: noise2D
  hillNoise :: noise2D
  detailNoise :: noise2D
  warpNoiseX :: noise2D
  warpNoiseZ :: noise2D
  ridgeNoise :: noise2D
  valleyNoise :: noise2D
  erosionNoise :: noise2D
  underwaterNoise :: noise2D
  plainsNoise :: noise2D
  gentleNoise :: noise2D

definition new_WorldGenerator ::
  "(string \<Rightarrow> noise2D) \<Rightarrow> WorldGenerationSettings \<Rightarrow> WorldGenerator" where
  "new_WorldGenerator mk st =
     \<lparr>wg_settings = st,
      continentNoise = mk (seed st @ ''_continent''),
      mountainNoise = mk (seed st @ ''_mountain''),
      hillNoise = mk (seed st @ ''_hill''),
      detailNoise = mk (seed st @ ''_detail''),
      warpNoiseX = mk (seed st @ ''_warpX''),
      warpNoiseZ = mk (seed st @ ''_warpZ''),
      ridgeNoise = mk (seed st @ ''_ridge''),
      valleyNoise = mk (seed st @ ''_valley''),
      erosionNoise = mk (seed st @ ''_erosion''),
      underwaterNoise = mk (seed st @ ''_underwater''),
      plainsNoise = mk (seed st @ ''_plains''),
      gentleNoise = mk (seed st @ ''_gentle'')\<rparr>"


definition scaled :: "number \<Rightarrow> real \<Rightarrow> number" where
  "scaled x k = map_option (\<lambda>v. v * k) x"

definition shifted :: "number \<Rightarrow> real \<Rightarrow> number" where
  "shifted x d = map_option (\<lambda>v. v + d) x"

text \<open>The loop of \<open>fractal\<close>; the result is the pair \<open>(value, maxValue)\<close>.\<close>

fun fractal_loop ::
  "noise2D \<Rightarrow> number \<Rightarrow> number \<Rightarrow> real \<Rightarrow> real \<Rightarrow> nat \<Rightarrow> real \<Rightarrow> real \<Rightarrow> real \<Rightarrow> real
   \<Rightarrow> real \<times> real" where
  "fractal_loop noiseFunc x z persistence lacunarity 0 val currentAmplitude currentScale maxValue
     = (val, maxValue)"
| "fractal_loop noiseFunc x z persistence lacunarity (Suc n) val currentAmplitude currentScale
     maxValue
     = fractal_loop noiseFunc x z persistence lacunarity n
         (val + noiseFunc (scaled x currentScale) (scaled z currentScale) * currentAmplitude)
         (currentAmplitude * persistence) (currentScale * lacunarity)
         (maxValue + currentAmplitude)"

definition fractal ::
  "number \<Rightarrow> number \<Rightarrow> noise2D \<Rightarrow> nat \<Rightarrow> real \<Rightarrow> real \<Rightarrow> real \<Rightarrow> real \<Rightarrow> number" where
  "fractal x z noiseFunc octaves scale amplitude persistence lacunarity =
     (case fractal_loop noiseFunc x z persistence lacunarity octaves 0 amplitude scale 0 of
        (val, maxValue) \<Rightarrow> if maxValue = 0 then None else Some (val / maxValue))"

text \<open>\<open>Math.pow\<close> on finite arguments.\<close>

definition js_pow :: "real \<Rightarrow> real \<Rightarrow> number" where
  "js_pow b e =
     (if e = 0 then Some 1
      else if 0 < b then Some (b powr e)
      else if b = 0 then (if 0 < e then Some 0 else None)
      else if e = real_of_int \<lfloor>e\<rfloor>
           then Some ((if even \<lfloor>e\<rfloor> then 1 else - 1) * (\<bar>b\<bar> powr e))
           else None)"

definition ridged :: "number \<Rightarrow> number \<Rightarrow> noise2D \<Rightarrow> real \<Rightarrow> real \<Rightarrow> real \<Rightarrow> number" where
  "ridged x z noiseFunc scale amplitude sharpness =
     (let n = noiseFunc (scaled x scale) (scaled z scale);
          r = 1 - \<bar>n\<bar>
      in map_option (\<lambda>p. p * amplitude) (js_pow r sharpness))"

definition billow :: "number \<Rightarrow> number \<Rightarrow> noise2D \<Rightarrow> real \<Rightarrow> real \<Rightarrow> real" where
  "billow x z noiseFunc scale amplitude =
     (let n = noiseFunc (scaled x scale) (scaled z scale) in \<bar>n\<bar> * amplitude)"

definition warp :: "WorldGenerator \<Rightarrow> number \<Rightarrow> number \<Rightarrow> number \<times> number" where
  "warp g x z =
     (let warpStrength = warpStrength (wg_settings g);
          warpScale = warpScale (wg_settings g);
          offsetX = fractal x z (warpNoiseX g) 3 warpScale (warpStrength * 0.8) 0.5 2.1;
          offsetZ = fractal x z (warpNoiseZ g) 3 warpScale (warpStrength * 0.8) 0.5 2.1
      in (case (x, offsetX) of (Some a, Some b) \<Rightarrow> Some (a + b) | _ \<Rightarrow> None,
          case (z, offsetZ) of (Some a, Some b) \<Rightarrow> Some (a + b) | _ \<Rightarrow> None))"

definition smootherstep :: "real \<Rightarrow> real \<Rightarrow> real \<Rightarrow> number" where
  "smootherstep a b t =
     (if b - a = 0 then None
      else (let x = max 0 (min 1 ((t - a) / (b - a)))
            in Some (x * x * x * (x * (x * 6 - 15) + 10))))"

text \<open>NaN is absorbing in every operation between a layer and the final sum, so the
  layers are bound in the order of the source and the first NaN is the result.\<close>

definition getHeightAt :: "WorldGenerator \<Rightarrow> number \<Rightarrow> number \<Rightarrow> number" where
  "getHeightAt g worldX worldZ =
     (case warp g worldX worldZ of (wx, wz) \<Rightarrow>
      do {
        let continentScale = continentScale (wg_settings g);
        let continentAmp = continentAmplitude (wg_settings g) * 1.5;
        continent \<leftarrow> fractal wx wz (continentNoise g) 6 continentScale continentAmp 0.55 2.2;

        underwaterBase \<leftarrow> fractal wx wz (underwaterNoise g) 5 0.003 (- 35) 0.6 2.1;
        underwaterRidges \<leftarrow> ridged wx wz (underwaterNoise g) 0.008 (- 20) 1.2;
        underwaterDetail \<leftarrow> fractal wx wz (detailNoise g) 4 0.025 (- 12) 0.5 2.0;
        let underwaterCanyons = billow wx wz (valleyNoise g) 0.004 (- 25);
        let combinedUnderwater =
              underwaterBase + underwaterRidges + underwaterDetail + underwaterCanyons;
        underwaterMask \<leftarrow> smootherstep 0.2 (- 0.5) continent;
        let underwaterTerrain = combinedUnderwater * underwaterMask;

        let mountainScale = mountainScale (wg_settings g);
        let mountainAmp = mountainAmplitude (wg_settings g) * 3.0;
        primaryMountains \<leftarrow> ridged wx wz (mountainNoise g) mountainScale mountainAmp 2.0;
        secondaryRidges \<leftarrow> ridged (shifted wx 100) (shifted wz 50) (ridgeNoise g)
                              (mountainScale * 1.3) (mountainAmp * 0.4) 1.6;
        tertiaryRidges \<leftarrow> ridged (shifted wx (- 50)) (shifted wz 150) (mountainNoise g)
                             (mountainScale * 0.7) (mountainAmp * 0.6) 1.4;
        erosion \<leftarrow> fractal wx wz (erosionNoise g) 5 (mountainScale * 4) 18 0.45 2.1;
        microErosion \<leftarrow> fractal wx wz (detailNoise g) 3 (mountainScale * 8) 8 0.35 2.5;
        let combinedMountains =
              primaryMountains + secondaryRidges + tertiaryRidges - erosion - microErosion;
        mountainMask \<leftarrow> smootherstep (- 0.1) 0.6 continent;

        let distanceFromWater = max 0 (continent + 0.2);
        coastalStep \<leftarrow> smootherstep 0.4 0 distanceFromWater;
        let coastalFlattening = coastalStep * (- 6);

        plainsBase \<leftarrow> fractal wx wz (plainsNoise g) 4 0.004 8 0.6 2.0;
        gentleUndulation \<leftarrow> fractal wx wz (gentleNoise g) 3 0.008 4 0.5 2.2;
        let plainsLayer = (plainsBase + gentleUndulation) * 0.9;

        let valleyBase = billow wx wz (valleyNoise g) 0.006 (- 18);
        let riverValleys = billow (shifted wx 200) (shifted wz (- 100)) (valleyNoise g) 0.015 (- 12);
        let combinedValleys = valleyBase + riverValleys;
        valleyStep1 \<leftarrow> smootherstep (- 0.2) 0.4 continent;
        valleyStep2 \<leftarrow> smootherstep 0 15 \<bar>combinedMountains * mountainMask\<bar>;
        let valleyMask = valleyStep1 * valleyStep2;

        largeHills \<leftarrow> fractal wx wz (hillNoise g) 4 0.006 25 0.5 2.1;
        mediumHills \<leftarrow> fractal (shifted wx 75) (shifted wz (- 25)) (hillNoise g) 3 0.012 15 0.6 2.0;
        rollingHills \<leftarrow> fractal (shifted wx (- 30)) (shifted wz 80) (detailNoise g) 2 0.025 8 0.5 2.2;
        let combinedHills = largeHills + mediumHills + rollingHills;
        hillMask \<leftarrow> smootherstep (- 0.4) 0.3 continent;

        smoothingLayer \<leftarrow> fractal wx wz (gentleNoise g) 6 0.02 3.5 0.4 2.1;

        let detailScale = detailScale (wg_settings g);
        let detailAmp = detailAmplitude (wg_settings g) * 1.2;
        surfaceDetails \<leftarrow> fractal wx wz (detailNoise g) 5 detailScale detailAmp 0.45 2.4;
        microDetails \<leftarrow> fractal wx wz (detailNoise g) 3 (detailScale * 3) (detailAmp * 0.3) 0.4 2.6;

        plateauBase \<leftarrow> fractal wx wz (continentNoise g) 3 0.004 18 0.7 2.0;
        plateauMask \<leftarrow> smootherstep 0.3 0.7 continent;
        let plateaus = max 0 plateauBase * plateauMask;

        Some (waterLevel (wg_settings g)
              + continent
              + underwaterTerrain
              + coastalFlattening
              + combinedMountains * mountainMask
              + combinedValleys * valleyMask
              + combinedHills * hillMask
              + plainsLayer
              + plateaus
              + smoothingLayer
              + (surfaceDetails + microDetails))
      })"

subsection \<open>generateChunk\<close>

datatype error = TypeError

definition js_div :: "real \<Rightarrow> real \<Rightarrow> number" where
  "js_div a b = (if b = 0 then None else Some (a / b))"

definition num_sub :: "number \<Rightarrow> number \<Rightarrow> number" where
  "num_sub a b = (case (a, b) of (Some u, Some v) \<Rightarrow> Some (u - v) | _ \<Rightarrow> None)"

definition num_div :: "number \<Rightarrow> number \<Rightarrow> number" where
  "num_div a b = (case (a, b) of (Some u, Some v) \<Rightarrow> js_div u v | _ \<Rightarrow> None)"

text \<open>
  The grid coordinates are computed in binary64, and whether two chunks sample their
  common edge at the same world coordinate depends on the rounding of each operation.
  \<open>fl\<close> rounds a real number to the nearest number with a significand of 53 bits, a tie
  to the even significand (\<open>rne\<close>); the exponent is \<open>\<lfloor>log 2 \<bar>x\<bar>\<rfloor>\<close>. The range of the exponent is
  not modelled: a coordinate neither overflows nor is subnormal. The height function
  itself is evaluated on these coordinates in the real numbers.
\<close>

definition rne :: "real \<Rightarrow> int" where
  "rne x = (let f = \<lfloor>x\<rfloor>; d = x - real_of_int f
            in if d < 1 / 2 then f else if 1 / 2 < d then f + 1
               else if even f then f else f + 1)"

definition pow2 :: "int \<Rightarrow> real" where
  "pow2 e = (if 0 \<le> e then 2 ^ nat e else 1 / 2 ^ nat (- e))"

definition fl_exp :: "real \<Rightarrow> int" where
  "fl_exp x = \<lfloor>log 2 \<bar>x\<bar>\<rfloor>"

definition fl :: "real \<Rightarrow> real" where
  "fl x = (if x = 0 then 0
           else real_of_int (rne (x * pow2 (52 - fl_exp x))) * pow2 (fl_exp x - 52))"

definition fl_div :: "real \<Rightarrow> real \<Rightarrow> number" where
  "fl_div a b = (if b = 0 then None else Some (fl (a / b)))"

text \<open>\<open>coordinate.x * chunkSize\<close>, the world coordinate of the chunk's origin.\<close>

definition chunkOrigin :: "WorldGenerationSettings \<Rightarrow> int \<Rightarrow> real" where
  "chunkOrigin st c = fl (real_of_int c * chunkSize st)"

text \<open>\<open>(i / meshResolution) * chunkSize\<close>, the local coordinate of grid line \<open>i\<close>, and
  \<open>origin + (i / meshResolution) * chunkSize\<close>, its world coordinate.\<close>

definition localCoord :: "WorldGenerationSettings \<Rightarrow> int \<Rightarrow> number" where
  "localCoord st i =
     map_option (\<lambda>q. fl (q * chunkSize st))
       (fl_div (real_of_int i) (real_of_int (meshResolution st)))"

definition gridCoord :: "WorldGenerationSettings \<Rightarrow> real \<Rightarrow> int \<Rightarrow> number" where
  "gridCoord st origin i = map_option (\<lambda>p. fl (origin + p)) (localCoord st i)"

text \<open>The height sample of grid position \<open>(x, z)\<close> of a chunk, taken in world space.\<close>

definition sampleHeight :: "WorldGenerator \<Rightarrow> ChunkCoordinate \<Rightarrow> int \<Rightarrow> int \<Rightarrow> number" where
  "sampleHeight g coord z x =
     (let st = wg_settings g;
          worldX = chunkOrigin st (coord_x coord);
          worldZ = chunkOrigin st (coord_z coord)
      in getHeightAt g (gridCoord st worldX x) (gridCoord st worldZ z))"

text \<open>The height map with its border of 2: row \<open>z + 2\<close>, column \<open>x + 2\<close> holds the sample
  of \<open>(x, z)\<close>, for \<open>- 2 \<le> x, z < resolution + 2\<close>.\<close>

definition heightMapOf :: "WorldGenerator \<Rightarrow> ChunkCoordinate \<Rightarrow> number list list" where
  "heightMapOf g coord =
     (let resolution = meshResolution (wg_settings g) + 1
      in map (\<lambda>z. map (\<lambda>x. sampleHeight g coord z x) [- 2 .. resolution + 2 - 1])
             [- 2 .. resolution + 2 - 1])"

text \<open>\<open>heightMap[i][j]\<close> in the loops over the grid, which stay inside the map (lemma
  \<open>hm_num_heightMapOf\<close>); a missing element would read as \<open>undefined\<close>, that is NaN.\<close>

definition hm_num :: "number list list \<Rightarrow> int \<Rightarrow> int \<Rightarrow> number" where
  "hm_num hm i j =
     (if 0 \<le> i \<and> nat i < length hm \<and> 0 \<le> j \<and> nat j < length (hm ! nat i)
      then hm ! nat i ! nat j else None)"

text \<open>\<open>heightMap[i][j]\<close> where the indices are computed from random draws: a missing row
  is a TypeError, a missing element is \<open>undefined\<close> (the inner \<open>None\<close>). An index that is
  not a number selects nothing.\<close>

definition hm_read :: "number list list \<Rightarrow> int option \<Rightarrow> int option \<Rightarrow> error + number option" where
  "hm_read hm i j =
     (case i of
        None \<Rightarrow> Inl TypeError
      | Some i' \<Rightarrow>
          (if 0 \<le> i' \<and> nat i' < length hm
           then Inr (case j of
                       None \<Rightarrow> None
                     | Some j' \<Rightarrow> (if 0 \<le> j' \<and> nat j' < length (hm ! nat i')
                                  then Some (hm ! nat i' ! nat j') else None))
           else Inl TypeError))"

definition vertexOf :: "WorldGenerationSettings \<Rightarrow> number list list \<Rightarrow> int \<Rightarrow> int \<Rightarrow> number list" where
  "vertexOf st hm z x = [localCoord st x, hm_num hm (z + 2) (x + 2), localCoord st z]"

definition normalOf :: "WorldGenerationSettings \<Rightarrow> number list list \<Rightarrow> int \<Rightarrow> int \<Rightarrow> number list" where
  "normalOf st hm z x =
     (let stepSize = js_div (chunkSize st) (real_of_int (meshResolution st));
          hL = hm_num hm (z + 2) (x + 2 - 1);
          hR = hm_num hm (z + 2) (x + 2 + 1);
          hD = hm_num hm (z + 2 - 1) (x + 2);
          hU = hm_num hm (z + 2 + 1) (x + 2);
          nx = num_div (num_sub hL hR) (map_option (\<lambda>s. 2 * s) stepSize);
          nz = num_div (num_sub hD hU) (map_option (\<lambda>s. 2 * s) stepSize)
      in case (nx, nz) of
           (Some a, Some b) \<Rightarrow>
             (let len = sqrt (a * a + 1 * 1 + b * b)
              in [js_div a len, js_div 1 len, js_div b len])
         | _ \<Rightarrow> [None, None, None])"

definition quadIndices :: "int \<Rightarrow> int \<Rightarrow> int \<Rightarrow> int list" where
  "quadIndices resolution z x =
     (let topLeft = z * resolution + x;
          topRight = topLeft + 1;
          bottomLeft = (z + 1) * resolution + x;
          bottomRight = bottomLeft + 1
      in [topLeft, bottomLeft, topRight, topRight, bottomLeft, bottomRight])"

text \<open>\<open>seededRandom\<close>: the fractional part of \<open>sin seed * 10000\<close>.\<close>

definition seededRandom :: "real \<Rightarrow> real" where
  "seededRandom s = (let x = sin s * 10000 in x - real_of_int \<lfloor>x\<rfloor>)"

text \<open>\<open>coordinate.x * 73856093 ^ coordinate.z * 19349663\<close>: both products are converted
  to 32-bit integers and combined by exclusive or; the result is a signed 32-bit integer.
  (The products are taken exactly; binary64 rounds them beyond \<open>2^53\<close>.)\<close>

definition prngSeed :: "ChunkCoordinate \<Rightarrow> int" where
  "prngSeed coord =
     sint ((word_of_int (coord_x coord * 73856093) :: 32 word)
           XOR word_of_int (coord_z coord * 19349663))"

text \<open>The position of candidate \<open>i\<close> and the height map entry under it.\<close>

definition candidate_rx :: "WorldGenerationSettings \<Rightarrow> int \<Rightarrow> int \<Rightarrow> int" where
  "candidate_rx st sd i =
     5 + \<lfloor>seededRandom (real_of_int (sd + i * 10)) * (chunkSize st - 10)\<rfloor>"

definition candidate_rz :: "WorldGenerationSettings \<Rightarrow> int \<Rightarrow> int \<Rightarrow> int" where
  "candidate_rz st sd i =
     5 + \<lfloor>seededRandom (real_of_int (sd + i * 10 + 1)) * (chunkSize st - 10)\<rfloor>"

definition gridOf :: "WorldGenerationSettings \<Rightarrow> int \<Rightarrow> int option" where
  "gridOf st r =
     map_option (\<lambda>q. \<lfloor>q * real_of_int (meshResolution st)\<rfloor>)
       (js_div (real_of_int r) (chunkSize st))"

definition candidate_height ::
  "WorldGenerationSettings \<Rightarrow> number list list \<Rightarrow> int \<Rightarrow> int \<Rightarrow> error + number option" where
  "candidate_height st hm sd i =
     hm_read hm (map_option (\<lambda>gz. gz + 2) (gridOf st (candidate_rz st sd i)))
                (map_option (\<lambda>gx. gx + 2) (gridOf st (candidate_rx st sd i)))"

text \<open>One iteration of the scatter loop. \<open>terrainHeight > waterLevel + 3\<close> is false for
  \<open>undefined\<close> and for NaN.\<close>

definition scatterCandidate ::
  "WorldGenerationSettings \<Rightarrow> number list list \<Rightarrow> int \<Rightarrow> int \<Rightarrow> Cube list \<times> Ball list
   \<Rightarrow> error + Cube list \<times> Ball list" where
  "scatterCandidate st hm sd i acc =
     (let rx = candidate_rx st sd i;
          rz = candidate_rz st sd i
      in case candidate_height st hm sd i of
           Inl e \<Rightarrow> Inl e
         | Inr (Some (Some terrainHeight)) \<Rightarrow>
             (if terrainHeight > waterLevel st + 3
              then (let objectRandom = seededRandom (real_of_int (sd + i * 10 + 2))
                    in if objectRandom > 0.5
                       then (let size = 0.6 + seededRandom (real_of_int (sd + i * 10 + 3)) * 2.8
                             in Inr (fst acc @ [\<lparr>cube_x = real_of_int rx,
                                                 cube_y = terrainHeight + size * 0.5,
                                                 cube_z = real_of_int rz, cube_size = size\<rparr>],
                                     snd acc))
                       else if objectRandom > 0.3
                       then (let radius = 0.3 + seededRandom (real_of_int (sd + i * 10 + 4)) * 0.8
                             in Inr (fst acc,
                                     snd acc @ [\<lparr>ball_x = real_of_int rx,
                                                 ball_y = terrainHeight + radius + 0.5,
                                                 ball_z = real_of_int rz, ball_radius = radius\<rparr>]))
                       else Inr acc)
              else Inr acc)
         | Inr _ \<Rightarrow> Inr acc)"

fun scatterLoop ::
  "WorldGenerationSettings \<Rightarrow> number list list \<Rightarrow> int \<Rightarrow> int list \<Rightarrow> Cube list \<times> Ball list
   \<Rightarrow> error + Cube list \<times> Ball list" where
  "scatterLoop st hm sd [] acc = Inr acc"
| "scatterLoop st hm sd (i # is) acc =
     (case scatterCandidate st hm sd i acc of
        Inl e \<Rightarrow> Inl e
      | Inr acc' \<Rightarrow> scatterLoop st hm sd is acc')"

definition generateObjects ::
  "WorldGenerationSettings \<Rightarrow> ChunkCoordinate \<Rightarrow> number list list \<Rightarrow> error + Cube list \<times> Ball list"
  where
  "generateObjects st coord hm = scatterLoop st hm (prngSeed coord) [0, 1, 2, 3, 4, 5, 6, 7] ([], [])"

text \<open>For \<open>meshResolution = 0\<close> every grid coordinate is NaN or an infinity, which this
  model of numbers does not cover: the result is \<open>None\<close>. Otherwise the result is the
  TerrainData, or the TypeError of the scatter loop. The arrays hold the numbers that the
  loops push; their conversion to \<open>Float32Array\<close> and \<open>Uint32Array\<close> on return is not
  modelled.\<close>

definition generateChunk :: "WorldGenerator \<Rightarrow> ChunkCoordinate \<Rightarrow> (error + TerrainData) option"
  where
  "generateChunk g coord =
     (let st = wg_settings g;
          resolution = meshResolution st + 1;
          heightMap = heightMapOf g coord;
          hs = concat (map (\<lambda>z. map (\<lambda>x. hm_num heightMap (z + 2) (x + 2)) [0 .. resolution - 1])
                           [0 .. resolution - 1]);
          vs = concat (map (\<lambda>z. concat (map (\<lambda>x. vertexOf st heightMap z x) [0 .. resolution - 1]))
                           [0 .. resolution - 1]);
          ns = concat (map (\<lambda>z. concat (map (\<lambda>x. normalOf st heightMap z x) [0 .. resolution - 1]))
                           [0 .. resolution - 1]);
          is = concat (map (\<lambda>z. concat (map (\<lambda>x. quadIndices resolution z x)
                                              [0 .. meshResolution st - 1]))
                           [0 .. meshResolution st - 1])
      in if meshResolution st = 0 then None
         else Some (case generateObjects st coord heightMap of
                      Inl e \<Rightarrow> Inl e
                    | Inr (cs, bs) \<Rightarrow>
                        Inr \<lparr>heights = hs, normals = ns, vertices = vs, indices = is,
                             cubes = cs, balls = bs\<rparr>))"

subsection \<open>The background worker (terrainWorker.ts)\<close>




text \<open>Predicates used to state properties of the generator: the shape of a height map for
  a mesh resolution, the objects a candidate can place, and the consistency of the
  worker's cache.\<close>

definition hm_shape :: "number list list \<Rightarrow> int \<Rightarrow> bool" where
  "hm_shape hm mr = (length hm = nat (mr + 5) \<and> (\<forall>row \<in> set hm. length row = nat (mr + 5)))"

definition cube_ok :: "WorldGenerationSettings \<Rightarrow> Cube \<Rightarrow> bool" where
  "cube_ok st c = (0.6 \<le> cube_size c \<and> cube_size c < 3.4
                   \<and> waterLevel st + 3 < cube_y c - cube_size c * 0.5)"

definition ball_ok :: "WorldGenerationSettings \<Rightarrow> Ball \<Rightarrow> bool" where
  "ball_ok st b = (0.3 \<le> ball_radius b \<and> ball_radius b < 1.1
                   \<and> waterLevel st + 3 < ball_y b - ball_radius b - 0.5)"



subsection \<open>Test points\<close>

text \<open>\<open>defaultSettings\<close> is the constant of that name in WorldManager.tsx.\<close>

definition defaultSettings :: WorldGenerationSettings where
  "defaultSettings =
     \<lparr>seed = ''default_world_seed'', chunkSize = 256, meshResolution = 256, waterLevel = 10,
      continentScale = 0.002, continentAmplitude = 40, mountainScale = 0.02,
      mountainAmplitude = 32, mountainSharpness = 1.2, detailScale = 0.07,
      detailAmplitude = 8, warpScale = 0.06, warpStrength = 30, renderDistance = 5\<rparr>"

definition origin :: Vector3 where
  "origin = \<lparr>vec_x = 0, vec_y = 0, vec_z = 0\<rparr>"

definition coord00 :: ChunkCoordinate where
  "coord00 = \<lparr>coord_x = 0, coord_z = 0\<rparr>"

text \<open>A manager with render distance 3 whose table holds the chunks \<open>0,0\<close> and \<open>7,7\<close>.\<close>

definition cm_example :: ChunkManager where
  "cm_example = (new_ChunkManager (defaultSettings\<lparr>renderDistance := 3\<rparr>))
         \<lparr>loadedChunks := [(''0,0'', 3), (''7,7'', 5)]\<rparr>"

definition square3 :: "ChunkCoordinate list" where
  "square3 = [\<lparr>coord_x = -1, coord_z = -1\<rparr>, \<lparr>coord_x = -1, coord_z = 0\<rparr>,
              \<lparr>coord_x = -1, coord_z = 1\<rparr>, \<lparr>coord_x = 0, coord_z = -1\<rparr>,
              \<lparr>coord_x = 0, coord_z = 0\<rparr>, \<lparr>coord_x = 0, coord_z = 1\<rparr>,
              \<lparr>coord_x = 1, coord_z = -1\<rparr>, \<lparr>coord_x = 1, coord_z = 0\<rparr>,
              \<lparr>coord_x = 1, coord_z = 1\<rparr>]"

definition res_example :: UpdateResult where
  "res_example =
     \<lparr>chunksToLoad =
        [\<lparr>coord_x = -1, coord_z = -1\<rparr>, \<lparr>coord_x = -1, coord_z = 0\<rparr>,
         \<lparr>coord_x = -1, coord_z = 1\<rparr>, \<lparr>coord_x = 0, coord_z = -1\<rparr>,
         \<lparr>coord_x = 0, coord_z = 1\<rparr>, \<lparr>coord_x = 1, coord_z = -1\<rparr>,
         \<lparr>coord_x = 1, coord_z = 0\<rparr>, \<lparr>coord_x = 1, coord_z = 1\<rparr>],
      chunksToUnload = [''7,7''], playerChunkChanged = False\<rparr>"

definition cm_example' :: ChunkManager where
  "cm_example' = cm_example
     \<lparr>visibleChunks := {''-1,-1'', ''-1,0'', ''-1,1'', ''0,-1'', ''0,0'', ''0,1'',
                        ''1,-1'', ''1,0'', ''1,1''}\<rparr>"

text \<open>Render distance 4, an empty table.\<close>

definition cm_even :: ChunkManager where
  "cm_even = new_ChunkManager (defaultSettings\<lparr>renderDistance := 4\<rparr>)"

text \<open>Render distance 1; the one required chunk \<open>0,0\<close> has been requested and is loading.\<close>

definition settings1 :: WorldGenerationSettings where
  "settings1 = defaultSettings\<lparr>renderDistance := 1\<rparr>"

definition wm_loading :: WorldManager where
  "wm_loading = (initWorldManager settings1)
     \<lparr>chunkManagerRef := Some ((new_ChunkManager settings1)\<lparr>visibleChunks := {''0,0''}\<rparr>),
      loadingChunks := {''0,0''}, requested := [coord00]\<rparr>"

text \<open>The observer walks from chunk \<open>0,0\<close> to chunk \<open>3,3\<close> while the request for
  \<open>0,0\<close> is in flight; then the terrain data of \<open>0,0\<close> arrives.\<close>

definition away :: Vector3 where
  "away = \<lparr>vec_x = 1000, vec_y = 0, vec_z = 1000\<rparr>"

definition coord33 :: ChunkCoordinate where
  "coord33 = \<lparr>coord_x = 3, coord_z = 3\<rparr>"

definition td0 :: TerrainData where
  "td0 = \<lparr>heights = [], normals = [], vertices = [], indices = [], cubes = [], balls = []\<rparr>"

definition wm_away :: WorldManager where
  "wm_away = wm_loading
     \<lparr>chunkManagerRef :=
        Some ((new_ChunkManager settings1)\<lparr>playerChunk := coord33, visibleChunks := {''3,3''}\<rparr>),
      loadingChunks := {''3,3'', ''0,0''}, requested := [coord00, coord33]\<rparr>"

definition orphan_trace :: "event list" where
  "orphan_trace = [Frame (Some origin), Frame (Some away), Arrive coord00 td0]"

text \<open>A store holding the chunk that \<open>generateChunk\<close> registers for \<open>0,0\<close>, and a mesh.\<close>

definition empty_store :: Store where
  "empty_store = \<lparr>objs = (\<lambda>_. None), nextRef = 0\<rparr>"

definition chunk00 :: WorldChunk where
  "chunk00 = \<lparr>coordinate = coord00, position = origin, isLoaded = False, isVisible = True,
              mesh = None, needsUpdate = True\<rparr>"

definition mesh0 :: Mesh where
  "mesh0 = \<lparr>mesh_id = 7, boundingBox_max_x = Some 256\<rparr>"

definition wm_orphan :: WorldManager where
  "wm_orphan = the (onTerrainData wm_away coord00 td0)"

definition wm_evicted :: WorldManager where
  "wm_evicted = the (useFrame wm_orphan (Some away))"

text \<open>A 2 x 2 grid of vertices over a chunk of edge 256, heights 5, 6, 7 and 8.\<close>

definition td_grid2 :: TerrainData where
  "td_grid2 = td0\<lparr>vertices := [Some 0, Some 5, Some 0, Some 256, Some 6, Some 0,
                                 Some 0, Some 7, Some 256, Some 256, Some 8, Some 256]\<rparr>"

definition chunk_meshed :: WorldChunk where
  "chunk_meshed = chunk00\<lparr>isLoaded := True, mesh := Some mesh0\<rparr>"


text \<open>The settings of the specification's scenario, a silent noise library, and a height
  map of a plateau at height 100 for mesh resolution 4 (9 rows of 9 samples).\<close>

definition settings_scn :: WorldGenerationSettings where
  "settings_scn = defaultSettings\<lparr>seed := ''test'', chunkSize := 128, meshResolution := 4,
                                  waterLevel := 10, renderDistance := 3\<rparr>"

definition mk_silent :: "string \<Rightarrow> noise2D" where
  "mk_silent s = (\<lambda>a b. 0)"

definition hm_plateau :: "number list list" where
  "hm_plateau = replicate 9 (replicate 9 (Some 100))"

definition coord10 :: ChunkCoordinate where
  "coord10 = \<lparr>coord_x = 1, coord_z = 0\<rparr>"


definition g_scn :: WorldGenerator where
  "g_scn = new_WorldGenerator mk_silent settings_scn"

definition objects_plateau :: "Cube list \<times> Ball list" where
  "objects_plateau = projr (generateObjects settings_scn coord00 hm_plateau)"

text \<open>Noise libraries for the seed \<open>test\<close>: every layer silent but one. In \<open>mk_plains\<close> the
  plains layer is a ramp in its first argument, within \<open>[-1, 1]\<close>; in \<open>mk_continent\<close> the
  continent layer is the constant 1. \<open>mk_other\<close> agrees with \<open>mk_plains\<close> on the twelve
  seeds derived from \<open>test\<close> and differs everywhere else.\<close>

definition ramp :: noise2D where
  "ramp a b = (case a of None \<Rightarrow> 0 | Some x \<Rightarrow> max (- 1) (min 1 (x / 1000)))"

definition mk_plains :: "string \<Rightarrow> noise2D" where
  "mk_plains s = (if s = ''test_plains'' then ramp else (\<lambda>a b. 0))"

definition mk_continent :: "string \<Rightarrow> noise2D" where
  "mk_continent s = (if s = ''test_continent'' then (\<lambda>a b. 1) else (\<lambda>a b. 0))"


text \<open>The scenario with a chunk size that is not an integer: the binary64 number nearest
  to 64.7, which is \<open>4552857748294861 / 2^46\<close>, and with the mountain scale 1. In
  \<open>mk_cliff\<close> the mountain layer has a cliff at \<open>6829286622442292 / 2^44\<close>, the binary64
  number \<open>388.20000000000005\<close>; the other layers are silent.\<close>

definition settings_647 :: WorldGenerationSettings where
  "settings_647 = settings_scn\<lparr>chunkSize := 4552857748294861 / 70368744177664,
                               mountainScale := 1\<rparr>"

definition cliff :: noise2D where
  "cliff a b = (case a of None \<Rightarrow> 0
                | Some x \<Rightarrow> if 6829286622442292 / 17592186044416 \<le> x then 1 else 0)"

definition mk_cliff :: "string \<Rightarrow> noise2D" where
  "mk_cliff s = (if s = ''test_mountain'' then cliff else (\<lambda>a b. 0))"

definition coord50 :: ChunkCoordinate where
  "coord50 = \<lparr>coord_x = 5, coord_z = 0\<rparr>"

definition coord60 :: ChunkCoordinate where
  "coord60 = \<lparr>coord_x = 6, coord_z = 0\<rparr>"

definition g_647 :: WorldGenerator where
  "g_647 = new_WorldGenerator mk_cliff settings_647"

definition td_647a :: TerrainData where
  "td_647a = projr (the (generateChunk g_647 coord50))"

definition td_647b :: TerrainData where
  "td_647b = projr (the (generateChunk g_647 coord60))"

definition g_plains :: WorldGenerator where
  "g_plains = new_WorldGenerator mk_plains settings_scn"

definition g_continent :: WorldGenerator where
  "g_continent = new_WorldGenerator mk_continent settings_scn"

definition td_plains00 :: TerrainData where
  "td_plains00 = projr (the (generateChunk g_plains coord00))"

definition td_plains10 :: TerrainData where
  "td_plains10 = projr (the (generateChunk g_plains coord10))"




section \<open>Proofs\<close>

section \<open>Keys determine coordinates\<close>

lemma digit_val_digit_char: "d < 10 \<Longrightarrow> digit_val (digit_char d) = d"
  by (simp add: digit_val_def digit_char_def)

lemma string_to_nat_snoc: "string_to_nat (s @ [c]) = 10 * string_to_nat s + digit_val c"
  by (simp add: string_to_nat_def)

lemma string_to_nat_nat_to_string: "string_to_nat (nat_to_string n) = n"
proof (induction n rule: nat_to_string.induct)
  case (1 n)
  show ?case
  proof (cases "n < 10")
    case True
    then show ?thesis
      by (simp add: nat_to_string.simps [of n] string_to_nat_def digit_val_digit_char)
  next
    case False
    with 1 show ?thesis
      by (simp add: nat_to_string.simps [of n] string_to_nat_snoc digit_val_digit_char)
  qed
qed

lemma nat_to_string_inj: "nat_to_string a = nat_to_string b \<Longrightarrow> a = b"
  by (metis string_to_nat_nat_to_string)

lemma of_char_digit_char: "d < 10 \<Longrightarrow> of_char (digit_char d) = (48 + d :: nat)"
  by (simp add: digit_char_def)

lemma digit_char_not_sep:
  "d < 10 \<Longrightarrow> digit_char d \<noteq> CHR '','' \<and> digit_char d \<noteq> CHR ''-''"
proof -
  assume d: "d < 10"
  have "(of_char (digit_char d) :: nat) \<noteq> of_char (CHR '','')"
    and "(of_char (digit_char d) :: nat) \<noteq> of_char (CHR ''-'')"
    using d by (simp_all add: of_char_digit_char)
  then show ?thesis by auto
qed

lemma nat_to_string_chars:
  "c \<in> set (nat_to_string n) \<Longrightarrow> c \<noteq> CHR '','' \<and> c \<noteq> CHR ''-''"
proof (induction n rule: nat_to_string.induct)
  case (1 n)
  show ?case
  proof (cases "n < 10")
    case True
    with 1(2) show ?thesis
      using digit_char_not_sep [of n] by (simp add: nat_to_string.simps [of n])
  next
    case False
    with 1 show ?thesis
      using digit_char_not_sep [of "n mod 10"] by (auto simp add: nat_to_string.simps [of n])
  qed
qed

lemma nat_to_string_nonempty: "nat_to_string n \<noteq> []"
  by (simp add: nat_to_string.simps [of n])

lemma int_to_string_inj: "int_to_string a = int_to_string b \<Longrightarrow> a = b"
proof -
  assume eq: "int_to_string a = int_to_string b"
  have hd_nonneg: "\<And>n. hd (nat_to_string n) \<noteq> CHR ''-''"
    using nat_to_string_chars nat_to_string_nonempty by (metis hd_in_set)
  show ?thesis
  proof (cases "a < 0")
    case a: True
    show ?thesis
    proof (cases "b < 0")
      case True
      with a eq have "nat (- a) = nat (- b)"
        by (simp add: int_to_string_def nat_to_string_inj)
      with a True show ?thesis by simp
    next
      case False
      with a eq have "CHR ''-'' # nat_to_string (nat (- a)) = nat_to_string (nat b)"
        by (simp add: int_to_string_def)
      then have "hd (nat_to_string (nat b)) = CHR ''-''" by (metis list.sel(1))
      with hd_nonneg show ?thesis by blast
    qed
  next
    case a: False
    show ?thesis
    proof (cases "b < 0")
      case True
      with a eq have "nat_to_string (nat a) = CHR ''-'' # nat_to_string (nat (- b))"
        by (simp add: int_to_string_def)
      then have "hd (nat_to_string (nat a)) = CHR ''-''" by (metis list.sel(1))
      with hd_nonneg show ?thesis by blast
    next
      case False
      with a eq have "nat a = nat b"
        by (simp add: int_to_string_def nat_to_string_inj)
      with a False show ?thesis by simp
    qed
  qed
qed

lemma int_to_string_no_comma: "CHR '','' \<notin> set (int_to_string a)"
  using nat_to_string_chars by (auto simp: int_to_string_def)

lemma split_at_sep:
  "c \<notin> set a \<Longrightarrow> c \<notin> set a' \<Longrightarrow> a @ c # b = a' @ c # b' \<Longrightarrow> a = a' \<and> b = b'"
proof (induction a arbitrary: a')
  case Nil
  then show ?case by (cases a') auto
next
  case (Cons h t)
  then show ?case by (cases a') auto
qed

lemma coordKey_inj: "coordKey a b = coordKey a' b' \<Longrightarrow> a = a' \<and> b = b'"
  unfolding coordKey_def
  using split_at_sep [OF int_to_string_no_comma int_to_string_no_comma] int_to_string_inj
  by blast

lemma chunkKey_inj: "chunkKey c = chunkKey d \<Longrightarrow> c = d"
  by (cases c, cases d) (auto simp: chunkKey_def dest: coordKey_inj)

lemma chunkKey_coordKey: "coordKey (coord_x c) (coord_z c) = chunkKey c"
  by (simp add: chunkKey_def)

lemma key_coord00: "chunkKey coord00 = ''0,0''"
  by code_simp

section \<open>The required set\<close>

lemma mem_grid:
  "\<lparr>coord_x = a, coord_z = b\<rparr>
     \<in> set (concat (map (\<lambda>a. map (\<lambda>b. \<lparr>coord_x = a, coord_z = b\<rparr>) zs) xs))
   \<longleftrightarrow> a \<in> set xs \<and> b \<in> set zs"
  by (induction xs) auto

lemma distinct_grid:
  "distinct xs \<Longrightarrow> distinct zs \<Longrightarrow>
   distinct (concat (map (\<lambda>a. map (\<lambda>b. \<lparr>coord_x = a, coord_z = b\<rparr>) zs) xs))"
proof (induction xs)
  case Nil
  then show ?case by simp
next
  case (Cons h t)
  have "distinct (map (\<lambda>b. \<lparr>coord_x = h, coord_z = b\<rparr>) zs)"
    using Cons.prems(2) by (simp add: distinct_map inj_on_def)
  moreover have "set (map (\<lambda>b. \<lparr>coord_x = h, coord_z = b\<rparr>) zs)
      \<inter> set (concat (map (\<lambda>a. map (\<lambda>b. \<lparr>coord_x = a, coord_z = b\<rparr>) zs) t)) = {}"
    using Cons.prems(1) by auto
  ultimately show ?case using Cons by simp
qed

lemma set_getRequiredChunks:
  "set (getRequiredChunks cm pc) = squareAround pc (renderDistance (cm_settings cm) div 2)"
proof -
  have "c \<in> set (getRequiredChunks cm pc)
        \<longleftrightarrow> c \<in> squareAround pc (renderDistance (cm_settings cm) div 2)" for c
  proof -
    obtain a b where c: "c = \<lparr>coord_x = a, coord_z = b\<rparr>" by (cases c) auto
    show ?thesis
      unfolding getRequiredChunks_def squareAround_def Let_def c mem_grid
      by (auto simp: abs_le_iff)
  qed
  then show ?thesis by blast
qed

lemma distinct_getRequiredChunks: "distinct (getRequiredChunks cm pc)"
  unfolding getRequiredChunks_def Let_def by (rule distinct_grid) simp_all

lemma length_concat_const:
  "(\<And>x. x \<in> set xs \<Longrightarrow> length (f x) = n) \<Longrightarrow> length (concat (map f xs)) = length xs * n"
  by (induction xs) auto

lemma length_getRequiredChunks:
  "0 \<le> renderDistance (cm_settings cm) \<Longrightarrow>
   length (getRequiredChunks cm pc) =
     nat (2 * (renderDistance (cm_settings cm) div 2) + 1)
     * nat (2 * (renderDistance (cm_settings cm) div 2) + 1)"
  unfolding getRequiredChunks_def Let_def
  by (subst length_concat_const [where n = "nat (2 * (renderDistance (cm_settings cm) div 2) + 1)"])
     (auto)

lemma card_squareAround:
  "0 \<le> R \<Longrightarrow> card (squareAround pc (R div 2)) = nat ((2 * (R div 2) + 1) * (2 * (R div 2) + 1))"
proof -
  assume R: "0 \<le> R"
  define cm where "cm = new_ChunkManager (defaultSettings\<lparr>renderDistance := R\<rparr>)"
  have rd: "renderDistance (cm_settings cm) = R" by (simp add: cm_def new_ChunkManager_def)
  have "card (set (getRequiredChunks cm pc)) = length (getRequiredChunks cm pc)"
    by (rule distinct_card) (rule distinct_getRequiredChunks)
  then show ?thesis
    using length_getRequiredChunks [of cm pc] R
    by (simp add: set_getRequiredChunks rd nat_mult_distrib)
qed

lemma getRequiredChunks_settings:
  "cm_settings cm1 = cm_settings cm \<Longrightarrow> getRequiredChunks cm1 pc = getRequiredChunks cm pc"
  by (simp add: getRequiredChunks_def)

lemma map_has_keys: "map_has m k \<longleftrightarrow> k \<in> set (map_keys m)"
  by (simp add: map_has_def map_keys_def)

lemma updatePlayerPosition_fields:
  assumes upd: "updatePlayerPosition cm pos = Some (res, cm')"
  shows "cm_settings cm' = cm_settings cm" "loadedChunks cm' = loadedChunks cm"
    "\<exists>pc. worldToChunk cm pos = Some pc
        \<and> chunksToLoad res = filter (\<lambda>c. \<not> map_has (loadedChunks cm) (chunkKey c))
                                (getRequiredChunks cm pc)
        \<and> chunksToUnload res = filter (\<lambda>k. k \<notin> chunkKey ` set (getRequiredChunks cm pc))
                                  (map_keys (loadedChunks cm))
        \<and> visibleChunks cm' = chunkKey ` set (getRequiredChunks cm pc)"
proof -
  from upd obtain pc where pc: "worldToChunk cm pos = Some pc"
    by (cases "worldToChunk cm pos") (simp_all add: updatePlayerPosition_def)
  define cm1 where "cm1 = (if coord_x pc \<noteq> coord_x (playerChunk cm)
                          \<or> coord_z pc \<noteq> coord_z (playerChunk cm)
                           then cm\<lparr>playerChunk := pc\<rparr> else cm)"
  have cm1_set: "cm_settings cm1 = cm_settings cm" and cm1_lc: "loadedChunks cm1 = loadedChunks cm"
    by (simp_all add: cm1_def)
  from upd have eq: "Some (res, cm') =
     Some (\<lparr>chunksToLoad = filter (\<lambda>coord. \<not> map_has (loadedChunks cm1) (chunkKey coord))
                               (getRequiredChunks cm1 pc),
             chunksToUnload = filter (\<lambda>key. key \<notin> set (map chunkKey (getRequiredChunks cm1 pc)))
                               (map_keys (loadedChunks cm1)),
             playerChunkChanged = (coord_x pc \<noteq> coord_x (playerChunk cm)
                          \<or> coord_z pc \<noteq> coord_z (playerChunk cm))\<rparr>,
           cm1\<lparr>visibleChunks := set (map chunkKey (getRequiredChunks cm1 pc))\<rparr>)"
    unfolding updatePlayerPosition_def pc option.case Let_def cm1_def by simp
  then have res: "res = \<lparr>chunksToLoad = filter (\<lambda>coord. \<not> map_has (loadedChunks cm1) (chunkKey coord))
                               (getRequiredChunks cm1 pc),
             chunksToUnload = filter (\<lambda>key. key \<notin> set (map chunkKey (getRequiredChunks cm1 pc)))
                               (map_keys (loadedChunks cm1)),
             playerChunkChanged = (coord_x pc \<noteq> coord_x (playerChunk cm)
                          \<or> coord_z pc \<noteq> coord_z (playerChunk cm))\<rparr>"
    and cm': "cm' = cm1\<lparr>visibleChunks := set (map chunkKey (getRequiredChunks cm1 pc))\<rparr>"
    by simp_all
  show "cm_settings cm' = cm_settings cm" by (simp add: cm' cm1_set)
  show "loadedChunks cm' = loadedChunks cm" by (simp add: cm' cm1_lc)
  have "chunksToLoad res = filter (\<lambda>c. \<not> map_has (loadedChunks cm) (chunkKey c))
                                (getRequiredChunks cm pc)"
    by (simp add: res cm1_lc getRequiredChunks_settings [OF cm1_set])
  moreover have "chunksToUnload res = filter (\<lambda>k. k \<notin> chunkKey ` set (getRequiredChunks cm pc))
                                  (map_keys (loadedChunks cm))"
    by (simp add: res cm1_lc getRequiredChunks_settings [OF cm1_set])
  moreover have "visibleChunks cm' = chunkKey ` set (getRequiredChunks cm pc)"
    by (simp add: cm' getRequiredChunks_settings [OF cm1_set])
  ultimately show "\<exists>pc. worldToChunk cm pos = Some pc
        \<and> chunksToLoad res = filter (\<lambda>c. \<not> map_has (loadedChunks cm) (chunkKey c))
                                (getRequiredChunks cm pc)
        \<and> chunksToUnload res = filter (\<lambda>k. k \<notin> chunkKey ` set (getRequiredChunks cm pc))
                                  (map_keys (loadedChunks cm))
        \<and> visibleChunks cm' = chunkKey ` set (getRequiredChunks cm pc)"
    using pc by blast
qed

lemma worldToChunk_origin:
  "chunkSize (cm_settings cm) = 256 \<Longrightarrow> worldToChunk cm origin = Some coord00"
  by (simp add: worldToChunk_def origin_def coord00_def)

lemma updatePlayerPosition_eval:
  assumes pc: "worldToChunk cm pos = Some (playerChunk cm)"
  shows "updatePlayerPosition cm pos =
     Some (\<lparr>chunksToLoad = filter (\<lambda>coord. \<not> map_has (loadedChunks cm) (chunkKey coord))
                               (getRequiredChunks cm (playerChunk cm)),
             chunksToUnload =
               filter (\<lambda>key. key \<notin> set (map chunkKey (getRequiredChunks cm (playerChunk cm))))
                      (map_keys (loadedChunks cm)),
             playerChunkChanged = False\<rparr>,
           cm\<lparr>visibleChunks := set (map chunkKey (getRequiredChunks cm (playerChunk cm)))\<rparr>)"
  unfolding updatePlayerPosition_def pc option.case Let_def by simp

lemma cm_example_fields:
  "chunkSize (cm_settings cm_example) = 256" "playerChunk cm_example = coord00"
  "loadedChunks cm_example = [(''0,0'', 3), (''7,7'', 5)]"
  by (simp_all add: cm_example_def new_ChunkManager_def defaultSettings_def coord00_def)

lemma getRequiredChunks_example: "getRequiredChunks cm_example coord00 = square3"
  by (simp add: getRequiredChunks_def new_ChunkManager_def defaultSettings_def upto.simps
      cm_example_def square3_def coord00_def)

lemma keys_square3:
  "map chunkKey square3
   = [''-1,-1'', ''-1,0'', ''-1,1'', ''0,-1'', ''0,0'', ''0,1'', ''1,-1'', ''1,0'', ''1,1'']"
  by code_simp

lemma toLoad_example:
  "filter (\<lambda>coord. \<not> map_has [(''0,0'', 3::nat), (''7,7'', 5)] (chunkKey coord)) square3
     = chunksToLoad res_example"
  unfolding square3_def res_example_def by code_simp

lemma updatePlayerPosition_example:
  "updatePlayerPosition cm_example origin = Some (res_example, cm_example')"
proof -
  have pc: "worldToChunk cm_example origin = Some (playerChunk cm_example)"
    by (simp add: worldToChunk_origin cm_example_fields)
  show ?thesis
    unfolding updatePlayerPosition_eval [OF pc]
    by (simp add: cm_example_fields getRequiredChunks_example keys_square3 toLoad_example
        map_keys_def res_example_def cm_example'_def)
qed

text \<open>
  C3 (amended). \<open>getRequiredChunks\<close> walks both axes from \<open>player - radius\<close> to
  \<open>player + radius\<close> with \<open>radius = floor (renderDistance / 2)\<close>. The required set of
  \<open>updatePlayerPosition\<close> is exactly that centred square, of side \<open>2 * radius + 1\<close>: it is
  the \<open>R \<times> R\<close> square when \<open>R\<close> is odd. \<open>chunksToLoad\<close> is exactly the required
  coordinates without an entry in the resident table, each once; every resident key whose
  coordinate lies outside the square is in \<open>chunksToUnload\<close>, and nothing else is.
\<close>

theorem updatePlayerPosition_required_square:
  assumes upd: "updatePlayerPosition cm pos = Some (res, cm')"
  shows "\<exists>pc. worldToChunk cm pos = Some pc
    \<and> visibleChunks cm' = chunkKey ` squareAround pc (renderDistance (cm_settings cm) div 2)
    \<and> distinct (chunksToLoad res)
    \<and> set (chunksToLoad res) =
        {c \<in> squareAround pc (renderDistance (cm_settings cm) div 2).
           \<not> map_has (loadedChunks cm) (chunkKey c)}
    \<and> (\<forall>c. map_has (loadedChunks cm) (chunkKey c)
            \<and> c \<notin> squareAround pc (renderDistance (cm_settings cm) div 2)
          \<longrightarrow> chunkKey c \<in> set (chunksToUnload res))
    \<and> (\<forall>k \<in> set (chunksToUnload res).
           map_has (loadedChunks cm) k
           \<and> k \<notin> chunkKey ` squareAround pc (renderDistance (cm_settings cm) div 2))
    \<and> (0 \<le> renderDistance (cm_settings cm) \<longrightarrow>
         card (squareAround pc (renderDistance (cm_settings cm) div 2))
           = nat ((2 * (renderDistance (cm_settings cm) div 2) + 1)
                  * (2 * (renderDistance (cm_settings cm) div 2) + 1)))
    \<and> (0 \<le> renderDistance (cm_settings cm) \<and> odd (renderDistance (cm_settings cm)) \<longrightarrow>
         card (squareAround pc (renderDistance (cm_settings cm) div 2))
           = nat (renderDistance (cm_settings cm) * renderDistance (cm_settings cm)))"
proof -
  let ?R = "renderDistance (cm_settings cm)"
  from updatePlayerPosition_fields(3) [OF upd] obtain pc where pc: "worldToChunk cm pos = Some pc"
    and res: "chunksToLoad res = filter (\<lambda>c. \<not> map_has (loadedChunks cm) (chunkKey c))
                                (getRequiredChunks cm pc)"
    and unl: "chunksToUnload res = filter (\<lambda>k. k \<notin> chunkKey ` set (getRequiredChunks cm pc))
                                  (map_keys (loadedChunks cm))"
    and vis: "visibleChunks cm' = chunkKey ` set (getRequiredChunks cm pc)"
    by blast
  have req: "set (getRequiredChunks cm pc) = squareAround pc (?R div 2)"
    by (simp add: set_getRequiredChunks)
  have A: "visibleChunks cm' = chunkKey ` squareAround pc (?R div 2)"
    using vis req by simp
  have B: "distinct (chunksToLoad res)"
    unfolding res using distinct_getRequiredChunks by (rule distinct_filter)
  have C: "set (chunksToLoad res) =
        {c \<in> squareAround pc (?R div 2). \<not> map_has (loadedChunks cm) (chunkKey c)}"
    unfolding res using req by auto
  have D: "\<forall>c. map_has (loadedChunks cm) (chunkKey c) \<and> c \<notin> squareAround pc (?R div 2)
          \<longrightarrow> chunkKey c \<in> set (chunksToUnload res)"
  proof (intro allI impI)
    fix c assume c: "map_has (loadedChunks cm) (chunkKey c) \<and> c \<notin> squareAround pc (?R div 2)"
    have "chunkKey c \<notin> chunkKey ` squareAround pc (?R div 2)"
    proof
      assume "chunkKey c \<in> chunkKey ` squareAround pc (?R div 2)"
      then obtain d where "d \<in> squareAround pc (?R div 2)" "chunkKey c = chunkKey d" by blast
      with chunkKey_inj have "c \<in> squareAround pc (?R div 2)" by blast
      with c show False by simp
    qed
    with c show "chunkKey c \<in> set (chunksToUnload res)"
      unfolding unl req by (simp add: map_has_keys)
  qed
  have E: "\<forall>k \<in> set (chunksToUnload res).
           map_has (loadedChunks cm) k \<and> k \<notin> chunkKey ` squareAround pc (?R div 2)"
    unfolding unl req by (simp add: map_has_keys)
  have F: "0 \<le> ?R \<longrightarrow> card (squareAround pc (?R div 2))
           = nat ((2 * (?R div 2) + 1) * (2 * (?R div 2) + 1))"
    using card_squareAround by blast
  have G: "0 \<le> ?R \<and> odd ?R \<longrightarrow> card (squareAround pc (?R div 2)) = nat (?R * ?R)"
  proof (intro impI)
    assume h: "0 \<le> ?R \<and> odd ?R"
    then have "2 * (?R div 2) + 1 = ?R" by presburger
    with F h show "card (squareAround pc (?R div 2)) = nat (?R * ?R)" by simp
  qed
  from pc A B C D E F G show ?thesis by blast
qed

theorem updatePlayerPosition_required_square_witness:
  "updatePlayerPosition cm_example origin = Some (res_example, cm_example')
   \<and> (\<exists>pc. worldToChunk cm_example origin = Some pc
    \<and> visibleChunks cm_example'
        = chunkKey ` squareAround pc (renderDistance (cm_settings cm_example) div 2)
    \<and> distinct (chunksToLoad res_example)
    \<and> set (chunksToLoad res_example) =
        {c \<in> squareAround pc (renderDistance (cm_settings cm_example) div 2).
           \<not> map_has (loadedChunks cm_example) (chunkKey c)}
    \<and> (\<forall>c. map_has (loadedChunks cm_example) (chunkKey c)
            \<and> c \<notin> squareAround pc (renderDistance (cm_settings cm_example) div 2)
          \<longrightarrow> chunkKey c \<in> set (chunksToUnload res_example))
    \<and> (\<forall>k \<in> set (chunksToUnload res_example).
           map_has (loadedChunks cm_example) k
           \<and> k \<notin> chunkKey ` squareAround pc (renderDistance (cm_settings cm_example) div 2))
    \<and> (0 \<le> renderDistance (cm_settings cm_example) \<longrightarrow>
         card (squareAround pc (renderDistance (cm_settings cm_example) div 2))
           = nat ((2 * (renderDistance (cm_settings cm_example) div 2) + 1)
                  * (2 * (renderDistance (cm_settings cm_example) div 2) + 1)))
    \<and> (0 \<le> renderDistance (cm_settings cm_example)
          \<and> odd (renderDistance (cm_settings cm_example)) \<longrightarrow>
         card (squareAround pc (renderDistance (cm_settings cm_example) div 2))
           = nat (renderDistance (cm_settings cm_example)
                  * renderDistance (cm_settings cm_example))))"
  using updatePlayerPosition_example
    updatePlayerPosition_required_square [OF updatePlayerPosition_example]
  by (rule conjI)

text \<open>With render distance 4 and an empty table the player at the origin requires 25
  chunks, the square of side 5, and not the 16 of a square of side 4.\<close>

theorem required_square_even_counterexample:
  "map_option (length \<circ> chunksToLoad \<circ> fst) (updatePlayerPosition cm_even origin) = Some 25"
proof -
  have f: "chunkSize (cm_settings cm_even) = 256" "playerChunk cm_even = coord00"
    "loadedChunks cm_even = []" "renderDistance (cm_settings cm_even) = 4"
    by (simp_all add: cm_even_def new_ChunkManager_def defaultSettings_def coord00_def)
  have pc: "worldToChunk cm_even origin = Some (playerChunk cm_even)"
    by (simp add: worldToChunk_origin f)
  have "length (getRequiredChunks cm_even coord00) = 25"
    using length_getRequiredChunks [of cm_even coord00] by (simp add: f)
  then show ?thesis
    unfolding updatePlayerPosition_eval [OF pc] by (simp add: f map_has_def)
qed

section \<open>The frame loop: requests and unloads\<close>

lemma map_has_delete: "map_has (map_delete m k) k' \<longleftrightarrow> map_has m k' \<and> k' \<noteq> k"
  by (auto simp: map_has_def map_delete_def)

lemma map_keys_map_set:
  "map_keys (map_set m k v) = (if k \<in> set (map_keys m) then map_keys m else map_keys m @ [k])"
  unfolding map_keys_def by (induction m) (force split: if_splits)+

lemma keys_map_set: "set (map_keys (map_set m k v)) = insert k (set (map_keys m))"
  by (auto simp: map_keys_map_set)

lemma map_has_set: "map_has (map_set m k v) k' \<longleftrightarrow> map_has m k' \<or> k' = k"
  by (auto simp: map_has_keys keys_map_set)

lemma map_get_set: "map_get (map_set m k v) k = Some v"
  by (induction m) (auto simp: map_get_def)

lemma map_get_None: "map_get m k = None \<longleftrightarrow> \<not> map_has m k"
  by (simp add: map_get_def map_has_def map_of_eq_None_iff)

subsection \<open>The request pass\<close>

lemma requestIfNeeded_frame:
  "chunkManagerRef (requestIfNeeded wm c) = chunkManagerRef wm"
  "wm_store (requestIfNeeded wm c) = wm_store wm"
  "chunkTerrainData (requestIfNeeded wm c) = chunkTerrainData wm"
  "isInitialized (requestIfNeeded wm c) = isInitialized wm"
  by (simp_all add: requestIfNeeded_def Let_def)

lemma foldl_requestIfNeeded_frame:
  "chunkManagerRef (foldl requestIfNeeded wm cs) = chunkManagerRef wm"
  "wm_store (foldl requestIfNeeded wm cs) = wm_store wm"
  "chunkTerrainData (foldl requestIfNeeded wm cs) = chunkTerrainData wm"
  "isInitialized (foldl requestIfNeeded wm cs) = isInitialized wm"
  by (induction cs arbitrary: wm) (simp_all add: requestIfNeeded_frame)

lemma foldl_requestIfNeeded_log:
  "\<exists>new. requested (foldl requestIfNeeded wm cs) = requested wm @ new
     \<and> set new \<subseteq> set cs
     \<and> distinct (map chunkKey new)
     \<and> (\<forall>c \<in> set new. chunkKey c \<notin> loadingChunks wm
                     \<and> \<not> map_has (chunkTerrainData wm) (chunkKey c))
     \<and> loadingChunks (foldl requestIfNeeded wm cs) = loadingChunks wm \<union> chunkKey ` set new"
proof (induction cs arbitrary: wm)
  case Nil
  show ?case by simp
next
  case (Cons c cs)
  let ?wm' = "requestIfNeeded wm c"
  from Cons.IH [of ?wm'] obtain new where new:
    "requested (foldl requestIfNeeded ?wm' cs) = requested ?wm' @ new"
    "set new \<subseteq> set cs" "distinct (map chunkKey new)"
    "\<forall>c \<in> set new. chunkKey c \<notin> loadingChunks ?wm'
                     \<and> \<not> map_has (chunkTerrainData ?wm') (chunkKey c)"
    "loadingChunks (foldl requestIfNeeded ?wm' cs) = loadingChunks ?wm' \<union> chunkKey ` set new"
    by blast
  show ?case
  proof (cases "\<not> map_has (chunkTerrainData wm) (chunkKey c) \<and> chunkKey c \<notin> loadingChunks wm")
    case True
    then have wm': "requested ?wm' = requested wm @ [c]"
      "loadingChunks ?wm' = insert (chunkKey c) (loadingChunks wm)"
      "chunkTerrainData ?wm' = chunkTerrainData wm"
      by (simp_all add: requestIfNeeded_def Let_def chunkKey_coordKey)
    have "requested (foldl requestIfNeeded wm (c # cs)) = requested wm @ (c # new)"
      using new(1) wm'(1) by simp
    moreover have "set (c # new) \<subseteq> set (c # cs)" using new(2) by auto
    moreover have "distinct (map chunkKey (c # new))"
      using new(3,4) wm'(2) by auto
    moreover have "\<forall>d \<in> set (c # new). chunkKey d \<notin> loadingChunks wm
                     \<and> \<not> map_has (chunkTerrainData wm) (chunkKey d)"
      using new(4) wm'(2,3) True by auto
    moreover have "loadingChunks (foldl requestIfNeeded wm (c # cs))
        = loadingChunks wm \<union> chunkKey ` set (c # new)"
      using new(5) wm'(2) by auto
    ultimately show ?thesis by blast
  next
    case False
    then have wm': "?wm' = wm"
      by (auto simp add: requestIfNeeded_def Let_def chunkKey_coordKey)
    have "set new \<subseteq> set (c # cs)" using new(2) by auto
    with new wm' show ?thesis by auto
  qed
qed

lemma foldl_requestIfNeeded_covers:
  "c \<in> set cs \<Longrightarrow>
   chunkKey c \<in> loadingChunks (foldl requestIfNeeded wm cs)
   \<or> map_has (chunkTerrainData wm) (chunkKey c)"
proof (induction cs arbitrary: wm)
  case Nil
  then show ?case by simp
next
  case (Cons d cs)
  have mono: "loadingChunks (requestIfNeeded wm d)
      \<subseteq> loadingChunks (foldl requestIfNeeded wm (d # cs))"
    using foldl_requestIfNeeded_log [of "requestIfNeeded wm d" cs] by auto
  show ?case
  proof (cases "c = d")
    case True
    have "chunkKey d \<in> loadingChunks (requestIfNeeded wm d)
          \<or> map_has (chunkTerrainData wm) (chunkKey d)"
      by (auto simp add: requestIfNeeded_def Let_def chunkKey_coordKey)
    with mono True show ?thesis by auto
  next
    case False
    with Cons.prems have "c \<in> set cs" by simp
    from Cons.IH [OF this, of "requestIfNeeded wm d"] show ?thesis
      by (simp add: requestIfNeeded_frame)
  qed
qed

lemma foldl_requestIfNeeded_idle:
  "(\<And>c. c \<in> set cs \<Longrightarrow> chunkKey c \<in> loadingChunks wm
                          \<or> map_has (chunkTerrainData wm) (chunkKey c))
   \<Longrightarrow> foldl requestIfNeeded wm cs = wm"
proof (induction cs)
  case Nil
  show ?case by simp
next
  case (Cons d cs)
  have "requestIfNeeded wm d = wm"
    using Cons.prems [of d] by (auto simp add: requestIfNeeded_def Let_def chunkKey_coordKey)
  with Cons show ?case by simp
qed

subsection \<open>The unload pass\<close>

lemma unloadKey_fields:
  "requested (unloadKey wm k) = requested wm"
  "wm_store (unloadKey wm k) = wm_store wm"
  "isInitialized (unloadKey wm k) = isInitialized wm"
  "loadingChunks (unloadKey wm k) = loadingChunks wm - {k}"
  "chunkTerrainData (unloadKey wm k) = filter (\<lambda>kv. fst kv \<noteq> k) (chunkTerrainData wm)"
  "chunkManagerRef (unloadKey wm k)
     = map_option (\<lambda>cm. cm\<lparr>loadedChunks := filter (\<lambda>kv. fst kv \<noteq> k) (loadedChunks cm)\<rparr>)
         (chunkManagerRef wm)"
  by (simp_all add: unloadKey_def unloadChunk_def map_delete_def)

lemma foldl_unloadKey_requested: "requested (foldl unloadKey wm ks) = requested wm"
  by (induction ks arbitrary: wm) (simp_all add: unloadKey_fields)

lemma foldl_unloadKey_store: "wm_store (foldl unloadKey wm ks) = wm_store wm"
  by (induction ks arbitrary: wm) (simp_all add: unloadKey_fields)

lemma foldl_unloadKey_init: "isInitialized (foldl unloadKey wm ks) = isInitialized wm"
  by (induction ks arbitrary: wm) (simp_all add: unloadKey_fields)

lemma foldl_unloadKey_loading:
  "loadingChunks (foldl unloadKey wm ks) = loadingChunks wm - set ks"
  by (induction ks arbitrary: wm) (auto simp add: unloadKey_fields)

lemma foldl_unloadKey_terrain:
  "chunkTerrainData (foldl unloadKey wm ks)
     = filter (\<lambda>kv. fst kv \<notin> set ks) (chunkTerrainData wm)"
  by (induction ks arbitrary: wm) (simp_all add: unloadKey_fields conj_commute)

lemma foldl_unloadKey_manager:
  "chunkManagerRef (foldl unloadKey wm ks)
     = map_option (\<lambda>cm. cm\<lparr>loadedChunks := filter (\<lambda>kv. fst kv \<notin> set ks) (loadedChunks cm)\<rparr>)
         (chunkManagerRef wm)"
proof (induction ks arbitrary: wm)
  case Nil
  show ?case by (cases "chunkManagerRef wm") simp_all
next
  case (Cons k ks)
  show ?case
    by (cases "chunkManagerRef wm") (simp_all add: Cons.IH unloadKey_fields conj_commute)
qed

subsection \<open>One pass\<close>

lemma useFrame_active:
  assumes "chunkManagerRef wm = Some cm" "isInitialized wm"
    and "updatePlayerPosition cm pos = Some (res, cm')"
    and "useFrame wm (Some pos) = Some wm1"
  shows "requested wm1
           = requested (foldl requestIfNeeded (wm\<lparr>chunkManagerRef := Some cm'\<rparr>) (chunksToLoad res))"
    "loadingChunks wm1
           = loadingChunks (foldl requestIfNeeded (wm\<lparr>chunkManagerRef := Some cm'\<rparr>)
                              (chunksToLoad res)) - set (chunksToUnload res)"
    "chunkTerrainData wm1
           = filter (\<lambda>kv. fst kv \<notin> set (chunksToUnload res)) (chunkTerrainData wm)"
    "chunkManagerRef wm1
           = Some (cm'\<lparr>loadedChunks :=
                     filter (\<lambda>kv. fst kv \<notin> set (chunksToUnload res)) (loadedChunks cm')\<rparr>)"
    "isInitialized wm1" "wm_store wm1 = wm_store wm"
proof -
  let ?wm2 = "foldl requestIfNeeded (wm\<lparr>chunkManagerRef := Some cm'\<rparr>) (chunksToLoad res)"
  let ?wm3 = "foldl unloadKey ?wm2 (chunksToUnload res)"
  from assms have wm1: "wm1 = ?wm3\<lparr>loadedChunksState :=
        (case chunkManagerRef ?wm3 of Some cm3 \<Rightarrow> getLoadedChunks cm3 | None \<Rightarrow> [])\<rparr>"
    by (simp add: useFrame_def Let_def)
  show "requested wm1 = requested ?wm2"
    by (simp add: wm1 foldl_unloadKey_requested)
  show "loadingChunks wm1 = loadingChunks ?wm2 - set (chunksToUnload res)"
    by (simp add: wm1 foldl_unloadKey_loading)
  show "chunkTerrainData wm1
           = filter (\<lambda>kv. fst kv \<notin> set (chunksToUnload res)) (chunkTerrainData wm)"
    by (simp add: wm1 foldl_unloadKey_terrain foldl_requestIfNeeded_frame)
  show "chunkManagerRef wm1
           = Some (cm'\<lparr>loadedChunks :=
                     filter (\<lambda>kv. fst kv \<notin> set (chunksToUnload res)) (loadedChunks cm')\<rparr>)"
    by (simp add: wm1 foldl_unloadKey_manager foldl_requestIfNeeded_frame)
  show "isInitialized wm1"
    using assms(2) by (simp add: wm1 foldl_unloadKey_init foldl_requestIfNeeded_frame)
  show "wm_store wm1 = wm_store wm"
    by (simp add: wm1 foldl_unloadKey_store foldl_requestIfNeeded_frame)
qed

lemma useFrame_idle:
  "chunkManagerRef wm = None \<or> p = None \<or> \<not> isInitialized wm \<Longrightarrow> useFrame wm p = Some wm"
  by (auto simp: useFrame_def split: option.splits)

lemma useFrame_wm_loading: "useFrame wm_loading (Some origin) = Some wm_loading"
proof -
  define cm where "cm = (new_ChunkManager settings1)\<lparr>visibleChunks := {''0,0''}\<rparr>"
  have f: "chunkSize (cm_settings cm) = 256" "playerChunk cm = coord00"
    "loadedChunks cm = []" "renderDistance (cm_settings cm) = 1" "visibleChunks cm = {''0,0''}"
    by (simp_all add: cm_def settings1_def new_ChunkManager_def defaultSettings_def coord00_def)
  have pc: "worldToChunk cm origin = Some (playerChunk cm)"
    by (simp add: worldToChunk_origin f)
  have req: "getRequiredChunks cm coord00 = [coord00]"
    by (simp add: getRequiredChunks_def f coord00_def)
  have upd: "updatePlayerPosition cm origin
      = Some (\<lparr>chunksToLoad = [coord00], chunksToUnload = [], playerChunkChanged = False\<rparr>, cm)"
    unfolding updatePlayerPosition_eval [OF pc]
    using f(5) by (simp add: f(1-4) req key_coord00 map_has_def map_keys_def)
  have wm: "chunkManagerRef wm_loading = Some cm" "isInitialized wm_loading"
    "loadingChunks wm_loading = {''0,0''}" "loadedChunksState wm_loading = []"
    by (simp_all add: wm_loading_def cm_def initWorldManager_def)
  have rq: "requestIfNeeded wm_loading coord00 = wm_loading"
    using key_coord00 by (simp add: requestIfNeeded_def Let_def wm chunkKey_def)
  have same: "wm_loading\<lparr>chunkManagerRef := Some cm\<rparr> = wm_loading"
    by (simp add: wm_loading_def cm_def)
  have state: "wm_loading\<lparr>loadedChunksState := getLoadedChunks cm\<rparr> = wm_loading"
    by (simp add: wm_loading_def initWorldManager_def getLoadedChunks_def f)
  show ?thesis
    by (simp add: useFrame_def wm upd same rq state)
qed

lemma useFrame_init: "useFrame (initWorldManager settings1) (Some origin) = Some wm_loading"
proof -
  define cm where "cm = new_ChunkManager settings1"
  have f: "chunkSize (cm_settings cm) = 256" "playerChunk cm = coord00"
    "loadedChunks cm = []" "renderDistance (cm_settings cm) = 1"
    by (simp_all add: cm_def settings1_def new_ChunkManager_def defaultSettings_def coord00_def)
  have pc: "worldToChunk cm origin = Some (playerChunk cm)"
    by (simp add: worldToChunk_origin f)
  have req: "getRequiredChunks cm coord00 = [coord00]"
    by (simp add: getRequiredChunks_def f coord00_def)
  have upd: "updatePlayerPosition cm origin
      = Some (\<lparr>chunksToLoad = [coord00], chunksToUnload = [], playerChunkChanged = False\<rparr>,
              cm\<lparr>visibleChunks := {''0,0''}\<rparr>)"
    unfolding updatePlayerPosition_eval [OF pc]
    by (simp add: f req key_coord00 map_has_def map_keys_def)
  have wm: "chunkManagerRef (initWorldManager settings1) = Some cm"
    "isInitialized (initWorldManager settings1)"
    by (simp_all add: cm_def initWorldManager_def)
  have rq: "requestIfNeeded
       ((initWorldManager settings1)\<lparr>chunkManagerRef := Some (cm\<lparr>visibleChunks := {''0,0''}\<rparr>)\<rparr>)
       coord00
     = wm_loading"
    using key_coord00
    by (simp add: requestIfNeeded_def Let_def chunkKey_def wm_loading_def initWorldManager_def
        cm_def map_has_def)
  have state: "wm_loading\<lparr>loadedChunksState := getLoadedChunks (cm\<lparr>visibleChunks := {''0,0''}\<rparr>)\<rparr>
      = wm_loading"
    by (simp add: wm_loading_def initWorldManager_def getLoadedChunks_def f)
  have cmr: "chunkManagerRef wm_loading = Some (cm\<lparr>visibleChunks := {''0,0''}\<rparr>)"
    by (simp add: wm_loading_def cm_def)
  show ?thesis
    by (simp add: useFrame_def wm upd rq cmr state)
qed

text \<open>
  C5. One pass of the frame callback calls \<open>requestChunk\<close> only for coordinates whose
  key was neither in the loading set nor in the terrain-data map when the pass began, and
  for no key twice; a second pass with the same observer position calls it for nothing.
\<close>

theorem useFrame_no_duplicate_request:
  assumes f1: "useFrame wm p = Some wm1"
  shows "(\<exists>new. requested wm1 = requested wm @ new
            \<and> distinct (map chunkKey new)
            \<and> (\<forall>c \<in> set new. chunkKey c \<notin> loadingChunks wm
                    \<and> \<not> map_has (chunkTerrainData wm) (chunkKey c)))
       \<and> (\<forall>wm2. useFrame wm1 p = Some wm2 \<longrightarrow> requested wm2 = requested wm1)"
proof (cases "chunkManagerRef wm = None \<or> p = None \<or> \<not> isInitialized wm")
  case True
  with f1 have "wm1 = wm" by (simp add: useFrame_idle)
  with True show ?thesis by (auto simp: useFrame_idle)
next
  case False
  then obtain cm pos where cm: "chunkManagerRef wm = Some cm" and p: "p = Some pos"
    and init: "isInitialized wm" by auto
  from f1 cm p init obtain res cm' where upd: "updatePlayerPosition cm pos = Some (res, cm')"
    by (auto simp: useFrame_def split: option.splits)
  note act = useFrame_active [OF cm init upd f1 [unfolded p]]
  let ?wm0 = "wm\<lparr>chunkManagerRef := Some cm'\<rparr>"
  from foldl_requestIfNeeded_log [of ?wm0 "chunksToLoad res"] obtain new where new:
    "requested (foldl requestIfNeeded ?wm0 (chunksToLoad res)) = requested ?wm0 @ new"
    "distinct (map chunkKey new)"
    "\<forall>c \<in> set new. chunkKey c \<notin> loadingChunks ?wm0
                     \<and> \<not> map_has (chunkTerrainData ?wm0) (chunkKey c)"
    by blast
  have part1: "\<exists>new. requested wm1 = requested wm @ new
            \<and> distinct (map chunkKey new)
            \<and> (\<forall>c \<in> set new. chunkKey c \<notin> loadingChunks wm
                    \<and> \<not> map_has (chunkTerrainData wm) (chunkKey c))"
    using new act(1) by auto
  have part2: "requested wm2 = requested wm1" if f2: "useFrame wm1 p = Some wm2" for wm2
  proof -
    from updatePlayerPosition_fields [OF upd] obtain pc where
      set': "cm_settings cm' = cm_settings cm" and lc': "loadedChunks cm' = loadedChunks cm"
      and pc: "worldToChunk cm pos = Some pc"
      and load: "chunksToLoad res = filter (\<lambda>c. \<not> map_has (loadedChunks cm) (chunkKey c))
                                (getRequiredChunks cm pc)"
      and unload: "chunksToUnload res = filter (\<lambda>k. k \<notin> chunkKey ` set (getRequiredChunks cm pc))
                                  (map_keys (loadedChunks cm))"
      by blast
    define cm1 where "cm1 = cm'\<lparr>loadedChunks :=
                     filter (\<lambda>kv. fst kv \<notin> set (chunksToUnload res)) (loadedChunks cm')\<rparr>"
    have cm1: "chunkManagerRef wm1 = Some cm1" using act(4) by (simp add: cm1_def)
    have set1: "cm_settings cm1 = cm_settings cm" by (simp add: cm1_def set')
    from f2 cm1 act(5) p obtain res2 cm2 where upd2: "updatePlayerPosition cm1 pos = Some (res2, cm2)"
      by (auto simp: useFrame_def split: option.splits)
    have pc1: "worldToChunk cm1 pos = Some pc"
      using pc unfolding worldToChunk_def set1 .
    have req1: "getRequiredChunks cm1 pc = getRequiredChunks cm pc"
      by (simp add: getRequiredChunks_def set1)
    from updatePlayerPosition_fields(3) [OF upd2] pc1 req1
    have load2: "chunksToLoad res2 = filter (\<lambda>c. \<not> map_has (loadedChunks cm1) (chunkKey c))
                                (getRequiredChunks cm pc)"
      by auto
    note act2 = useFrame_active [OF cm1 act(5) upd2 f2 [unfolded p]]
    have idle: "chunkKey c \<in> loadingChunks wm1 \<or> map_has (chunkTerrainData wm1) (chunkKey c)"
      if c: "c \<in> set (chunksToLoad res2)" for c
    proof -
      from c load2 have creq: "c \<in> set (getRequiredChunks cm pc)"
        and notres: "\<not> map_has (loadedChunks cm1) (chunkKey c)" by auto
      have notunl: "chunkKey c \<notin> set (chunksToUnload res)"
        using creq unload by auto
      have "\<not> map_has (loadedChunks cm) (chunkKey c)"
      proof
        assume "map_has (loadedChunks cm) (chunkKey c)"
        with notunl have "map_has (loadedChunks cm1) (chunkKey c)"
          by (force simp: cm1_def lc' map_has_def)
        with notres show False by simp
      qed
      with creq load have "c \<in> set (chunksToLoad res)" by simp
      from foldl_requestIfNeeded_covers [OF this, of ?wm0]
      have "chunkKey c \<in> loadingChunks (foldl requestIfNeeded ?wm0 (chunksToLoad res))
            \<or> map_has (chunkTerrainData wm) (chunkKey c)" by simp
      with notunl show ?thesis
        unfolding act(2) act(3) by (force simp: map_has_def)
    qed
    let ?wm1' = "wm1\<lparr>chunkManagerRef := Some cm2\<rparr>"
    have "foldl requestIfNeeded ?wm1' (chunksToLoad res2) = ?wm1'"
      by (rule foldl_requestIfNeeded_idle) (use idle in simp)
    with act2(1) show ?thesis by simp
  qed
  from part1 part2 show ?thesis by blast
qed

theorem useFrame_no_duplicate_request_witness:
  "useFrame (initWorldManager settings1) (Some origin) = Some wm_loading
   \<and> (\<exists>new. requested wm_loading = requested (initWorldManager settings1) @ new
            \<and> distinct (map chunkKey new)
            \<and> (\<forall>c \<in> set new. chunkKey c \<notin> loadingChunks (initWorldManager settings1)
                    \<and> \<not> map_has (chunkTerrainData (initWorldManager settings1)) (chunkKey c)))
   \<and> useFrame wm_loading (Some origin) = Some wm_loading
   \<and> requested wm_loading = [coord00]"
proof -
  note inst = useFrame_no_duplicate_request [OF useFrame_init]
  have "requested wm_loading = [coord00]"
    by (simp add: wm_loading_def)
  with useFrame_init useFrame_wm_loading inst show ?thesis by blast
qed

section \<open>Results that arrive for a coordinate no longer required\<close>

lemma onTerrainData_installs:
  assumes arr: "onTerrainData wm coord td = Some wm'"
  shows "\<exists>cm. chunkManagerRef wm = Some cm
     \<and> chunkManagerRef wm'
         = Some (cm\<lparr>loadedChunks := map_set (loadedChunks cm) (chunkKey coord) (nextRef (wm_store wm))\<rparr>)"
    "chunkTerrainData wm' = map_set (chunkTerrainData wm) (chunkKey coord) td"
    "loadingChunks wm' = loadingChunks wm - {chunkKey coord}"
    "isInitialized wm' = isInitialized wm"
    "requested wm' = requested wm"
    "nextRef (wm_store wm') = Suc (nextRef (wm_store wm))"
    "objs (wm_store wm') = (objs (wm_store wm))
        (nextRef (wm_store wm) :=
           Some \<lparr>coordinate = coord, position = chunkToWorld (the (chunkManagerRef wm)) coord,
                 isLoaded = False, isVisible = True, mesh = None, needsUpdate = True\<rparr>)"
proof -
  from arr obtain cm where cm: "chunkManagerRef wm = Some cm"
    by (cases "chunkManagerRef wm") (simp_all add: onTerrainData_def Let_def)
  from arr cm have wm': "wm' = wm
      \<lparr>chunkTerrainData := map_set (chunkTerrainData wm) (chunkKey coord) td,
       loadingChunks := loadingChunks wm - {chunkKey coord},
       chunkManagerRef := Some (fst (snd (cm_generateChunk cm (wm_store wm) coord))),
       wm_store := snd (snd (cm_generateChunk cm (wm_store wm) coord)),
       loadedChunksState := getLoadedChunks (fst (snd (cm_generateChunk cm (wm_store wm) coord)))\<rparr>"
    by (simp add: onTerrainData_def Let_def chunkKey_coordKey split: prod.splits)
  show "\<exists>cm. chunkManagerRef wm = Some cm
     \<and> chunkManagerRef wm'
         = Some (cm\<lparr>loadedChunks := map_set (loadedChunks cm) (chunkKey coord) (nextRef (wm_store wm))\<rparr>)"
    using cm by (simp add: wm' cm_generateChunk_def Let_def)
  show "chunkTerrainData wm' = map_set (chunkTerrainData wm) (chunkKey coord) td"
    by (simp add: wm')
  show "loadingChunks wm' = loadingChunks wm - {chunkKey coord}"
    by (simp add: wm')
  show "isInitialized wm' = isInitialized wm" by (simp add: wm')
  show "requested wm' = requested wm" by (simp add: wm')
  show "nextRef (wm_store wm') = Suc (nextRef (wm_store wm))"
    by (simp add: wm' cm_generateChunk_def Let_def)
  show "objs (wm_store wm') = (objs (wm_store wm))
        (nextRef (wm_store wm) :=
           Some \<lparr>coordinate = coord, position = chunkToWorld (the (chunkManagerRef wm)) coord,
                 isLoaded = False, isVisible = True, mesh = None, needsUpdate = True\<rparr>)"
    by (simp add: wm' cm cm_generateChunk_def Let_def)
qed

lemma map_get_filter_None: "k \<in> S \<Longrightarrow> map_get (filter (\<lambda>kv. fst kv \<notin> S) m) k = None"
  by (auto simp: map_get_None map_has_def)

lemma onTerrainData_Some:
  "chunkManagerRef wm = Some cm \<Longrightarrow> \<exists>wm'. onTerrainData wm coord td = Some wm'"
  by (simp add: onTerrainData_def Let_def split: prod.splits)

lemma useFrame_Some:
  "(\<And>cm. chunkManagerRef wm = Some cm \<Longrightarrow> chunkSize (cm_settings cm) \<noteq> 0)
   \<Longrightarrow> \<exists>wm'. useFrame wm p = Some wm'"
  by (auto simp: useFrame_def updatePlayerPosition_def worldToChunk_def Let_def
      split: option.splits)

lemma key_coord33: "chunkKey coord33 = ''3,3''"
  by code_simp

lemma useFrame_away: "useFrame wm_loading (Some away) = Some wm_away"
proof -
  define cm where "cm = (new_ChunkManager settings1)\<lparr>visibleChunks := {''0,0''}\<rparr>"
  define cm' where "cm' = (new_ChunkManager settings1)\<lparr>playerChunk := coord33, visibleChunks := {''3,3''}\<rparr>"
  have f: "chunkSize (cm_settings cm) = 256" "playerChunk cm = coord00"
    "loadedChunks cm = []" "renderDistance (cm_settings cm) = 1"
    by (simp_all add: cm_def settings1_def new_ChunkManager_def defaultSettings_def coord00_def)
  have pc: "worldToChunk cm away = Some coord33"
    by (simp add: worldToChunk_def f away_def coord33_def)
  have req: "getRequiredChunks (cm\<lparr>playerChunk := coord33\<rparr>) coord33 = [coord33]"
    by (simp add: getRequiredChunks_def f coord33_def)
  have ch: "coord_x coord33 \<noteq> coord_x (playerChunk cm) \<or> coord_z coord33 \<noteq> coord_z (playerChunk cm)"
    by (simp add: f coord33_def coord00_def)
  have lc: "loadedChunks (cm\<lparr>playerChunk := coord33\<rparr>) = []" by (simp add: f)
  have fin: "cm\<lparr>playerChunk := coord33, visibleChunks := {''3,3''}\<rparr> = cm'"
    by (simp add: cm_def cm'_def)
  have upd: "updatePlayerPosition cm away
      = Some (\<lparr>chunksToLoad = [coord33], chunksToUnload = [], playerChunkChanged = True\<rparr>, cm')"
    unfolding updatePlayerPosition_def pc option.case Let_def if_P [OF ch] req lc
    using ch by (simp add: key_coord33 map_has_def map_keys_def fin)
  have wm: "chunkManagerRef wm_loading = Some cm" "isInitialized wm_loading"
    by (simp_all add: wm_loading_def cm_def initWorldManager_def)
  have rq: "requestIfNeeded (wm_loading\<lparr>chunkManagerRef := Some cm'\<rparr>) coord33 = wm_away"
    using key_coord33
    by (simp add: requestIfNeeded_def Let_def chunkKey_def wm_loading_def wm_away_def
        initWorldManager_def cm'_def map_has_def)
  have state: "wm_away\<lparr>loadedChunksState := getLoadedChunks cm'\<rparr> = wm_away"
    by (simp add: wm_away_def wm_loading_def initWorldManager_def getLoadedChunks_def cm'_def
        new_ChunkManager_def)
  have cmr: "chunkManagerRef wm_away = Some cm'"
    by (simp add: wm_away_def cm'_def)
  show ?thesis
    by (simp add: useFrame_def wm upd rq cmr state)
qed

lemma wm_away_fields:
  "chunkManagerRef wm_away
     = Some ((new_ChunkManager settings1)\<lparr>playerChunk := coord33, visibleChunks := {''3,3''}\<rparr>)"
  "isInitialized wm_away" "nextRef (wm_store wm_away) = 0"
  by (simp_all add: wm_away_def wm_loading_def initWorldManager_def)

lemma arrive_orphan: "onTerrainData wm_away coord00 td0 = Some wm_orphan"
  using onTerrainData_Some [OF wm_away_fields(1), of coord00 td0]
  by (auto simp: wm_orphan_def)

lemma run_orphan_trace: "run (initWorldManager settings1) orphan_trace = Some wm_orphan"
  by (simp add: orphan_trace_def useFrame_init useFrame_away arrive_orphan)

text \<open>
  C4 (amended). The continuation of \<open>requestChunk\<close> has no guard: when the terrain data of
  a coordinate arrives it is stored in the terrain-data map and a WorldChunk is registered
  in the resident table, whether or not the coordinate is still required. (A request in
  flight has no resident entry, so leaving the required set unloads nothing.) If the
  coordinate is outside the required square at the next pass of the frame callback, that
  pass unloads it: the terrain data and the resident entry are both removed.
\<close>

theorem orphaned_result_installed_then_evicted:
  assumes arr: "onTerrainData wm coord td = Some wm'"
  shows "map_get (chunkTerrainData wm') (chunkKey coord) = Some td
     \<and> (\<exists>cm'. chunkManagerRef wm' = Some cm'
            \<and> getChunk cm' coord = Some (nextRef (wm_store wm)))
     \<and> (\<forall>pos wm'' cm' pc.
           useFrame wm' (Some pos) = Some wm'' \<and> isInitialized wm'
           \<and> chunkManagerRef wm' = Some cm' \<and> worldToChunk cm' pos = Some pc
           \<and> coord \<notin> squareAround pc (renderDistance (cm_settings cm') div 2)
         \<longrightarrow> map_get (chunkTerrainData wm'') (chunkKey coord) = None
             \<and> (\<exists>cm''. chunkManagerRef wm'' = Some cm'' \<and> getChunk cm'' coord = None))"
proof -
  from onTerrainData_installs(1) [OF arr] obtain cm where cm: "chunkManagerRef wm = Some cm"
    and cm': "chunkManagerRef wm'
         = Some (cm\<lparr>loadedChunks := map_set (loadedChunks cm) (chunkKey coord) (nextRef (wm_store wm))\<rparr>)"
    by blast
  have A: "map_get (chunkTerrainData wm') (chunkKey coord) = Some td"
    by (simp add: onTerrainData_installs(2) [OF arr] map_get_set)
  have B: "\<exists>cm'. chunkManagerRef wm' = Some cm'
            \<and> getChunk cm' coord = Some (nextRef (wm_store wm))"
    using cm' by (simp add: getChunk_def map_get_set)
  have C: "map_get (chunkTerrainData wm'') (chunkKey coord) = None
             \<and> (\<exists>cm''. chunkManagerRef wm'' = Some cm'' \<and> getChunk cm'' coord = None)"
    if h: "useFrame wm' (Some pos) = Some wm'' \<and> isInitialized wm'
           \<and> chunkManagerRef wm' = Some cm1 \<and> worldToChunk cm1 pos = Some pc
           \<and> coord \<notin> squareAround pc (renderDistance (cm_settings cm1) div 2)"
    for pos wm'' cm1 pc
  proof -
    from h have f: "useFrame wm' (Some pos) = Some wm''" and init: "isInitialized wm'"
      and cm1: "chunkManagerRef wm' = Some cm1" and pc: "worldToChunk cm1 pos = Some pc"
      and out: "coord \<notin> squareAround pc (renderDistance (cm_settings cm1) div 2)" by auto
    from f cm1 init obtain res cm2 where upd: "updatePlayerPosition cm1 pos = Some (res, cm2)"
      by (auto simp: useFrame_def split: option.splits)
    note act = useFrame_active [OF cm1 init upd f]
    from updatePlayerPosition_fields(3) [OF upd] pc
    have unl: "chunksToUnload res = filter (\<lambda>k. k \<notin> chunkKey ` set (getRequiredChunks cm1 pc))
                                  (map_keys (loadedChunks cm1))"
      by auto
    have resident: "chunkKey coord \<in> set (map_keys (loadedChunks cm1))"
      using cm1 cm' by (auto simp: keys_map_set)
    have "chunkKey coord \<notin> chunkKey ` set (getRequiredChunks cm1 pc)"
    proof
      assume "chunkKey coord \<in> chunkKey ` set (getRequiredChunks cm1 pc)"
      then obtain d where "d \<in> set (getRequiredChunks cm1 pc)" "chunkKey coord = chunkKey d"
        by blast
      with chunkKey_inj have "coord \<in> set (getRequiredChunks cm1 pc)" by blast
      with out show False by (simp add: set_getRequiredChunks)
    qed
    with resident have inl: "chunkKey coord \<in> set (chunksToUnload res)"
      by (simp add: unl)
    have "map_get (chunkTerrainData wm'') (chunkKey coord) = None"
      unfolding act(3) using inl by (rule map_get_filter_None)
    moreover have "getChunk (cm2\<lparr>loadedChunks :=
                     filter (\<lambda>kv. fst kv \<notin> set (chunksToUnload res)) (loadedChunks cm2)\<rparr>) coord = None"
      using inl by (simp add: getChunk_def map_get_filter_None)
    ultimately show ?thesis using act(4) by blast
  qed
  from A B C show ?thesis by blast
qed


theorem orphaned_result_installed_then_evicted_witness:
  "onTerrainData wm_away coord00 td0 = Some wm_orphan
   \<and> map_get (chunkTerrainData wm_orphan) (chunkKey coord00) = Some td0
   \<and> (\<exists>cm'. chunkManagerRef wm_orphan = Some cm'
          \<and> getChunk cm' coord00 = Some (nextRef (wm_store wm_away)))
   \<and> useFrame wm_orphan (Some away) = Some wm_evicted
   \<and> map_get (chunkTerrainData wm_evicted) (chunkKey coord00) = None
   \<and> (\<exists>cm''. chunkManagerRef wm_evicted = Some cm'' \<and> getChunk cm'' coord00 = None)"
proof -
  note inst = orphaned_result_installed_then_evicted [OF arrive_orphan]
  note ins = onTerrainData_installs [OF arrive_orphan]
  define cm where "cm = (new_ChunkManager settings1)
               \<lparr>playerChunk := coord33, visibleChunks := {''3,3''},
                loadedChunks := map_set [] (chunkKey coord00) 0\<rparr>"
  from ins(1) have cm: "chunkManagerRef wm_orphan = Some cm"
    by (simp add: wm_away_fields new_ChunkManager_def cm_def)
  have f: "chunkSize (cm_settings cm) = 256" "renderDistance (cm_settings cm) = 1"
    by (simp_all add: cm_def settings1_def new_ChunkManager_def defaultSettings_def)
  have init: "isInitialized wm_orphan" by (simp add: ins(4) wm_away_fields)
  have pc: "worldToChunk cm away = Some coord33"
    by (simp add: worldToChunk_def f away_def coord33_def)
  have out: "coord00 \<notin> squareAround coord33 (renderDistance (cm_settings cm) div 2)"
    by (simp add: squareAround_def f coord00_def coord33_def)
  have uf: "useFrame wm_orphan (Some away) = Some wm_evicted"
    using useFrame_Some [of wm_orphan "Some away"] cm f(1) by (auto simp: wm_evicted_def)
  from inst uf init cm pc out
  have "map_get (chunkTerrainData wm_evicted) (chunkKey coord00) = None
        \<and> (\<exists>cm''. chunkManagerRef wm_evicted = Some cm'' \<and> getChunk cm'' coord00 = None)"
    by blast
  with inst arrive_orphan uf show ?thesis by blast
qed

text \<open>The observer leaves chunk \<open>0,0\<close> while its request is in flight; the data that
  arrives afterwards is installed although \<open>0,0\<close> is not required any more.\<close>

theorem orphaned_result_counterexample:
  "run (initWorldManager settings1) orphan_trace = Some wm_orphan
   \<and> chunkKey coord00 \<notin> visibleChunks (the (chunkManagerRef wm_orphan))
   \<and> map_get (chunkTerrainData wm_orphan) (chunkKey coord00) = Some td0
   \<and> getChunk (the (chunkManagerRef wm_orphan)) coord00 = Some 0"
proof -
  note ins = onTerrainData_installs [OF arrive_orphan]
  from ins(1) have cm: "chunkManagerRef wm_orphan
     = Some ((new_ChunkManager settings1)
               \<lparr>playerChunk := coord33, visibleChunks := {''3,3''},
                loadedChunks := map_set [] (chunkKey coord00) 0\<rparr>)"
    by (simp add: wm_away_fields new_ChunkManager_def)
  have "chunkKey coord00 \<notin> visibleChunks (the (chunkManagerRef wm_orphan))"
    by (simp add: cm key_coord00)
  moreover have "map_get (chunkTerrainData wm_orphan) (chunkKey coord00) = Some td0"
    by (simp add: ins(2) map_get_set)
  moreover have "getChunk (the (chunkManagerRef wm_orphan)) coord00 = Some 0"
    by (simp add: cm getChunk_def map_get_def)
  ultimately show ?thesis using run_orphan_trace by blast
qed


section \<open>Who changes a registered chunk\<close>

lemma cm_generateChunk_fresh:
  assumes "cm_generateChunk cm sto coord = (r, cm', sto')"
  shows "r = nextRef sto" "nextRef sto' = Suc (nextRef sto)"
    "objs sto' = (objs sto)(nextRef sto :=
        Some \<lparr>coordinate = coord, position = chunkToWorld cm coord, isLoaded = False,
              isVisible = True, mesh = None, needsUpdate = True\<rparr>)"
    "loadedChunks cm' = map_set (loadedChunks cm) (chunkKey coord) (nextRef sto)"
  using assms by (auto simp: cm_generateChunk_def Let_def)

lemma TerrainChunk_effect_cases:
  assumes "TerrainChunk_effect sto a meshRef onLoaded = (sto1, called)"
  shows "(sto1 = sto \<and> \<not> called)
     \<or> (\<exists>ch m. objs sto a = Some ch \<and> \<not> isLoaded ch \<and> meshRef = Some m \<and> onLoaded \<and> called
            \<and> sto1 = sto\<lparr>objs := (objs sto)(a := Some (ch\<lparr>isLoaded := True, mesh := Some m\<rparr>))\<rparr>)"
  using assms
  by (cases "objs sto a"; cases meshRef) (auto simp: TerrainChunk_effect_def split: if_splits)

lemma generate00:
  "cm_generateChunk (new_ChunkManager settings1) empty_store coord00
     = (0, (new_ChunkManager settings1)\<lparr>loadedChunks := [(''0,0'', 0)]\<rparr>,
        \<lparr>objs = (\<lambda>_. None)(0 := Some chunk00), nextRef = Suc 0\<rparr>)"
  using key_coord00
  by (simp add: cm_generateChunk_def Let_def empty_store_def chunk00_def
      chunkToWorld_def coord00_def origin_def new_ChunkManager_def)

text \<open>
  C9 (amended). No operation of ChunkManager changes a field of a chunk object once it
  exists: \<open>generateChunk\<close> allocates a new object and registers it, \<open>unloadChunk\<close> and the
  frame pass only remove table entries, and the arrival of terrain data only registers a
  new object. The one mutation of a registered chunk is the mount effect of TerrainChunk:
  for a chunk that is not loaded yet it sets \<open>isLoaded\<close> to true and \<open>mesh\<close> to the mesh;
  \<open>coordinate\<close>, \<open>position\<close>, \<open>isVisible\<close> and \<open>needsUpdate\<close>, and every other chunk, stay
  as they are.
\<close>

theorem chunk_fields_frame:
  "(\<forall>r cm' sto'. cm_generateChunk cm sto coord = (r, cm', sto')
        \<longrightarrow> (\<forall>a. a < nextRef sto \<longrightarrow> objs sto' a = objs sto a))
   \<and> (\<forall>wm'. useFrame wm p = Some wm' \<longrightarrow> wm_store wm' = wm_store wm)
   \<and> (\<forall>wm'. onTerrainData wm coord td = Some wm'
        \<longrightarrow> (\<forall>a. a < nextRef (wm_store wm) \<longrightarrow> objs (wm_store wm') a = objs (wm_store wm) a))
   \<and> (\<forall>sto1 called. TerrainChunk_effect sto b meshRef onLoaded = (sto1, called)
        \<longrightarrow> nextRef sto1 = nextRef sto
          \<and> (\<forall>a. a \<noteq> b \<longrightarrow> objs sto1 a = objs sto a)
          \<and> (objs sto1 b = objs sto b
              \<or> (\<exists>ch m. objs sto b = Some ch \<and> \<not> isLoaded ch \<and> meshRef = Some m \<and> onLoaded
                    \<and> objs sto1 b = Some (ch\<lparr>isLoaded := True, mesh := Some m\<rparr>))))"
proof -
  have A: "\<forall>r cm' sto'. cm_generateChunk cm sto coord = (r, cm', sto')
        \<longrightarrow> (\<forall>a. a < nextRef sto \<longrightarrow> objs sto' a = objs sto a)"
    by (auto simp: cm_generateChunk_fresh(3))
  have B: "\<forall>wm'. useFrame wm p = Some wm' \<longrightarrow> wm_store wm' = wm_store wm"
  proof (intro allI impI)
    fix wm' assume f: "useFrame wm p = Some wm'"
    show "wm_store wm' = wm_store wm"
    proof (cases "chunkManagerRef wm = None \<or> p = None \<or> \<not> isInitialized wm")
      case True
      with f show ?thesis by (simp add: useFrame_idle)
    next
      case False
      then obtain cm0 pos where cm0: "chunkManagerRef wm = Some cm0" and p: "p = Some pos"
        and init: "isInitialized wm" by auto
      from f cm0 p init obtain res cm1 where upd: "updatePlayerPosition cm0 pos = Some (res, cm1)"
        by (auto simp: useFrame_def split: option.splits)
      from useFrame_active(6) [OF cm0 init upd f [unfolded p]] show ?thesis .
    qed
  qed
  have C: "\<forall>wm'. onTerrainData wm coord td = Some wm'
        \<longrightarrow> (\<forall>a. a < nextRef (wm_store wm) \<longrightarrow> objs (wm_store wm') a = objs (wm_store wm) a)"
    by (auto simp: onTerrainData_installs(7))
  have D: "\<forall>sto1 called. TerrainChunk_effect sto b meshRef onLoaded = (sto1, called)
        \<longrightarrow> nextRef sto1 = nextRef sto
          \<and> (\<forall>a. a \<noteq> b \<longrightarrow> objs sto1 a = objs sto a)
          \<and> (objs sto1 b = objs sto b
              \<or> (\<exists>ch m. objs sto b = Some ch \<and> \<not> isLoaded ch \<and> meshRef = Some m \<and> onLoaded
                    \<and> objs sto1 b = Some (ch\<lparr>isLoaded := True, mesh := Some m\<rparr>)))"
  proof (intro allI impI)
    fix sto1 called assume e: "TerrainChunk_effect sto b meshRef onLoaded = (sto1, called)"
    from TerrainChunk_effect_cases [OF e]
    show "nextRef sto1 = nextRef sto
          \<and> (\<forall>a. a \<noteq> b \<longrightarrow> objs sto1 a = objs sto a)
          \<and> (objs sto1 b = objs sto b
              \<or> (\<exists>ch m. objs sto b = Some ch \<and> \<not> isLoaded ch \<and> meshRef = Some m \<and> onLoaded
                    \<and> objs sto1 b = Some (ch\<lparr>isLoaded := True, mesh := Some m\<rparr>)))"
      by auto
  qed
  from A B C D show ?thesis by blast
qed

theorem chunk_fields_frame_witness:
  "cm_generateChunk (new_ChunkManager settings1)
      \<lparr>objs = (\<lambda>_. None)(0 := Some chunk00), nextRef = Suc 0\<rparr> coord33
     = (Suc 0, fst (snd (cm_generateChunk (new_ChunkManager settings1)
                       \<lparr>objs = (\<lambda>_. None)(0 := Some chunk00), nextRef = Suc 0\<rparr> coord33)),
        snd (snd (cm_generateChunk (new_ChunkManager settings1)
                       \<lparr>objs = (\<lambda>_. None)(0 := Some chunk00), nextRef = Suc 0\<rparr> coord33)))
   \<and> objs (snd (snd (cm_generateChunk (new_ChunkManager settings1)
                       \<lparr>objs = (\<lambda>_. None)(0 := Some chunk00), nextRef = Suc 0\<rparr> coord33))) 0
       = Some chunk00
   \<and> useFrame wm_loading (Some origin) = Some wm_loading
   \<and> wm_store wm_loading = wm_store wm_loading
   \<and> onTerrainData wm_away coord00 td0 = Some wm_orphan
   \<and> TerrainChunk_effect \<lparr>objs = (\<lambda>_. None)(0 := Some chunk00), nextRef = Suc 0\<rparr>
         0 (Some mesh0) True
       = (\<lparr>objs = (\<lambda>_. None)(0 := Some (chunk00\<lparr>isLoaded := True, mesh := Some mesh0\<rparr>)),
           nextRef = Suc 0\<rparr>, True)
   \<and> (objs \<lparr>objs = (\<lambda>_. None)(0 := Some (chunk00\<lparr>isLoaded := True, mesh := Some mesh0\<rparr>)),
              nextRef = Suc 0\<rparr> 0
        = objs \<lparr>objs = (\<lambda>_. None)(0 := Some chunk00), nextRef = Suc 0\<rparr> 0
      \<or> (\<exists>ch m. objs \<lparr>objs = (\<lambda>_. None)(0 := Some chunk00), nextRef = Suc 0\<rparr> 0 = Some ch
            \<and> \<not> isLoaded ch \<and> Some mesh0 = Some m \<and> True
            \<and> objs \<lparr>objs = (\<lambda>_. None)(0 := Some (chunk00\<lparr>isLoaded := True, mesh := Some mesh0\<rparr>)),
                     nextRef = Suc 0\<rparr> 0
               = Some (ch\<lparr>isLoaded := True, mesh := Some m\<rparr>)))"
proof -
  let ?sto = "\<lparr>objs = (\<lambda>_. None)(0 := Some chunk00), nextRef = Suc 0\<rparr>"
  note inst = chunk_fields_frame [of "new_ChunkManager settings1" ?sto coord33
      wm_loading "Some origin" td0 0 "Some mesh0" True]
  have g: "cm_generateChunk (new_ChunkManager settings1) ?sto coord33
     = (Suc 0, fst (snd (cm_generateChunk (new_ChunkManager settings1) ?sto coord33)),
        snd (snd (cm_generateChunk (new_ChunkManager settings1) ?sto coord33)))"
    by (simp add: cm_generateChunk_def Let_def)
  have e: "TerrainChunk_effect ?sto 0 (Some mesh0) True
       = (\<lparr>objs = (\<lambda>_. None)(0 := Some (chunk00\<lparr>isLoaded := True, mesh := Some mesh0\<rparr>)),
           nextRef = Suc 0\<rparr>, True)"
    by (simp add: TerrainChunk_effect_def chunk00_def)
  from inst g have "objs (snd (snd (cm_generateChunk (new_ChunkManager settings1) ?sto coord33))) 0
       = objs ?sto 0"
    by (metis Store.select_convs(2) zero_less_Suc)
  then have o: "objs (snd (snd (cm_generateChunk (new_ChunkManager settings1) ?sto coord33))) 0
       = Some chunk00" by simp
  from inst e have d: "(objs \<lparr>objs = (\<lambda>_. None)(0 := Some (chunk00\<lparr>isLoaded := True, mesh := Some mesh0\<rparr>)),
              nextRef = Suc 0\<rparr> 0
        = objs ?sto 0
      \<or> (\<exists>ch m. objs ?sto 0 = Some ch
            \<and> \<not> isLoaded ch \<and> Some mesh0 = Some m \<and> True
            \<and> objs \<lparr>objs = (\<lambda>_. None)(0 := Some (chunk00\<lparr>isLoaded := True, mesh := Some mesh0\<rparr>)),
                     nextRef = Suc 0\<rparr> 0
               = Some (ch\<lparr>isLoaded := True, mesh := Some m\<rparr>)))"
    by blast
  from g o useFrame_wm_loading arrive_orphan e d show ?thesis by blast
qed

text \<open>The chunk registered for \<open>0,0\<close> is changed by the mount effect of TerrainChunk,
  outside ChunkManager.\<close>

theorem registered_chunk_mutated_counterexample:
  "cm_generateChunk (new_ChunkManager settings1) empty_store coord00
     = (0, (new_ChunkManager settings1)\<lparr>loadedChunks := [(''0,0'', 0)]\<rparr>,
        \<lparr>objs = (\<lambda>_. None)(0 := Some chunk00), nextRef = Suc 0\<rparr>)
   \<and> getChunk ((new_ChunkManager settings1)\<lparr>loadedChunks := [(''0,0'', 0)]\<rparr>) coord00 = Some 0
   \<and> objs (fst (TerrainChunk_effect \<lparr>objs = (\<lambda>_. None)(0 := Some chunk00), nextRef = Suc 0\<rparr>
                   0 (Some mesh0) True)) 0
       = Some (chunk00\<lparr>isLoaded := True, mesh := Some mesh0\<rparr>)
   \<and> chunk00\<lparr>isLoaded := True, mesh := Some mesh0\<rparr> \<noteq> chunk00"
proof -
  have "getChunk ((new_ChunkManager settings1)\<lparr>loadedChunks := [(''0,0'', 0)]\<rparr>) coord00 = Some 0"
    by (simp add: getChunk_def map_get_def key_coord00)
  moreover have "objs (fst (TerrainChunk_effect \<lparr>objs = (\<lambda>_. None)(0 := Some chunk00), nextRef = Suc 0\<rparr>
                   0 (Some mesh0) True)) 0
       = Some (chunk00\<lparr>isLoaded := True, mesh := Some mesh0\<rparr>)"
    by (simp add: TerrainChunk_effect_def chunk00_def)
  moreover have "chunk00\<lparr>isLoaded := True, mesh := Some mesh0\<rparr> \<noteq> chunk00"
    by (simp add: chunk00_def)
  ultimately show ?thesis using generate00 by blast
qed


section \<open>Height sampling\<close>







lemma sampleTerrainHeightAt_unfold:
  "sampleTerrainHeightAt chunk td wx wz =
     (if sample_res td < 2 then None
      else case (sample_normX chunk td wx, sample_normZ chunk td wz) of
             (Some nx, Some nz) \<Rightarrow>
               (if (nz * sample_res td + nx) * 3 + 1 < int (length (vertices td))
                then Some (vertices td ! nat ((nz * sample_res td + nx) * 3 + 1))
                else None)
           | _ \<Rightarrow> None)"
  by (simp add: sampleTerrainHeightAt_def sample_normX_def sample_normZ_def Let_def
      split: option.splits)

lemma sample_res_square:
  assumes "length (vertices td) = 3 * r * r"
  shows "sample_res td = int r"
proof -
  have "real (length (vertices td)) / 3 = (real r)\<^sup>2"
    using assms by (simp add: power2_eq_square)
  then have "sqrt (real (length (vertices td)) / 3) = real r"
    by simp
  then show ?thesis by (simp add: sample_res_def)
qed

lemma td_grid2_length: "length (vertices td_grid2) = 3 * 2 * 2"
  by (simp add: td_grid2_def)

lemma td_grid2_res: "sample_res td_grid2 = 2"
  using sample_res_square [OF td_grid2_length] by simp

lemma sample_meshed:
  "sampleTerrainHeightAt chunk_meshed td_grid2 (Some 200) (Some 30) = Some (Some 6)"
proof -
  have st: "sample_step chunk_meshed 1 = 256"
    by (simp add: sample_step_def chunk_meshed_def mesh0_def)
  have pos: "vec_x (position chunk_meshed) = 0" "vec_z (position chunk_meshed) = 0"
    by (simp_all add: chunk_meshed_def chunk00_def origin_def)
  have r1: "round (25 / 32 :: real) = 1" and r0: "round (15 / 128 :: real) = 0"
    unfolding round_def by linarith+
  have nx: "sample_normX chunk_meshed td_grid2 (Some 200) = Some 1"
    by (simp add: sample_normX_def td_grid2_res st pos gridIndex_def r1)
  have nz: "sample_normZ chunk_meshed td_grid2 (Some 30) = Some 0"
    by (simp add: sample_normZ_def td_grid2_res st pos gridIndex_def r0)
  show ?thesis
    unfolding sampleTerrainHeightAt_unfold
    by (simp add: td_grid2_res nx nz) (simp add: td_grid2_def)
qed
























section \<open>The scatter loop\<close>

lemma seededRandom_range: "0 \<le> seededRandom s \<and> seededRandom s < 1"
  unfolding seededRandom_def Let_def by linarith

lemma candidate_range:
  assumes cs: "10 < chunkSize st" and u: "0 \<le> u" "u < 1"
  shows "5 \<le> 5 + \<lfloor>u * (chunkSize st - 10)\<rfloor>"
    and "real_of_int (5 + \<lfloor>u * (chunkSize st - 10)\<rfloor>) < chunkSize st - 5"
proof -
  define v where "v = u * (chunkSize st - 10)"
  have nn: "0 \<le> v" unfolding v_def using cs u by simp
  have "u * (chunkSize st - 10) < 1 * (chunkSize st - 10)"
    using cs u by (intro mult_strict_right_mono) auto
  then have lt: "v < chunkSize st - 10" by (simp add: v_def)
  have fl: "real_of_int \<lfloor>v\<rfloor> \<le> v" by linarith
  show "5 \<le> 5 + \<lfloor>u * (chunkSize st - 10)\<rfloor>"
    using nn by (simp add: v_def)
  from lt fl have "real_of_int \<lfloor>v\<rfloor> < chunkSize st - 10" by linarith
  then have "real_of_int (5 + \<lfloor>v\<rfloor>) < chunkSize st - 5" by simp
  then show "real_of_int (5 + \<lfloor>u * (chunkSize st - 10)\<rfloor>) < chunkSize st - 5"
    by (simp add: v_def)
qed

lemma gridOf_range:
  assumes cs: "10 < chunkSize st" and mr: "0 < meshResolution st"
    and r: "5 \<le> r" "real_of_int r < chunkSize st - 5"
  shows "\<exists>k. gridOf st r = Some k \<and> 0 \<le> k \<and> k < meshResolution st"
proof -
  have pos: "0 < chunkSize st" using cs by simp
  have q: "0 \<le> real_of_int r / chunkSize st" "real_of_int r / chunkSize st < 1"
    using r pos by (simp_all add: field_simps)
  have lo: "0 \<le> real_of_int r / chunkSize st * real_of_int (meshResolution st)"
    using q(1) mr by (intro mult_nonneg_nonneg) auto
  have hi: "real_of_int r / chunkSize st * real_of_int (meshResolution st)
           < 1 * real_of_int (meshResolution st)"
    using q(2) mr by (intro mult_strict_right_mono) auto
  have "gridOf st r = Some \<lfloor>real_of_int r / chunkSize st * real_of_int (meshResolution st)\<rfloor>"
    using pos by (simp add: gridOf_def js_div_def)
  moreover have "0 \<le> \<lfloor>real_of_int r / chunkSize st * real_of_int (meshResolution st)\<rfloor>"
    using lo by simp
  moreover have "\<lfloor>real_of_int r / chunkSize st * real_of_int (meshResolution st)\<rfloor>
      < meshResolution st"
    using hi by (simp add: floor_less_iff)
  ultimately show ?thesis by blast
qed

lemma candidate_grid:
  assumes cs: "10 < chunkSize st" and mr: "0 < meshResolution st"
  shows "\<exists>k. gridOf st (candidate_rx st sd i) = Some k \<and> 0 \<le> k \<and> k < meshResolution st"
    and "\<exists>k. gridOf st (candidate_rz st sd i) = Some k \<and> 0 \<le> k \<and> k < meshResolution st"
  unfolding candidate_rx_def candidate_rz_def
  using gridOf_range [OF cs mr candidate_range [OF cs]] seededRandom_range by blast+

lemma candidate_height_Inr:
  assumes cs: "10 < chunkSize st" and mr: "0 < meshResolution st"
    and sh: "hm_shape hm (meshResolution st)"
  shows "\<exists>gz gx. 0 \<le> gz \<and> gz < meshResolution st \<and> 0 \<le> gx \<and> gx < meshResolution st
      \<and> candidate_height st hm sd i = Inr (Some (hm ! nat (gz + 2) ! nat (gx + 2)))"
proof -
  from candidate_grid [OF cs mr, of sd i] obtain gx gz where
    gx: "gridOf st (candidate_rx st sd i) = Some gx" "0 \<le> gx" "gx < meshResolution st"
    and gz: "gridOf st (candidate_rz st sd i) = Some gz" "0 \<le> gz" "gz < meshResolution st"
    by blast
  have rows: "nat (gz + 2) < length hm" using sh gz by (simp add: hm_shape_def)
  then have "hm ! nat (gz + 2) \<in> set hm" by simp
  then have cols: "nat (gx + 2) < length (hm ! nat (gz + 2))"
    using sh gx by (simp add: hm_shape_def)
  have "candidate_height st hm sd i = Inr (Some (hm ! nat (gz + 2) ! nat (gx + 2)))"
    using gx gz rows cols by (simp add: candidate_height_def hm_read_def)
  with gx gz show ?thesis by blast
qed

lemma scatterCandidate_cases:
  assumes "scatterCandidate st hm sd i (cs, bs) = Inr (cs', bs')"
  shows "(case candidate_height st hm sd i of
            Inr (Some (Some h)) \<Rightarrow>
              (if h > waterLevel st + 3
               then (if seededRandom (real_of_int (sd + i * 10 + 2)) > 0.5
                     then bs' = bs
                       \<and> cs' = cs @ [\<lparr>cube_x = real_of_int (candidate_rx st sd i),
                                      cube_y = h + (0.6 + seededRandom (real_of_int (sd + i * 10 + 3)) * 2.8) * 0.5,
                                      cube_z = real_of_int (candidate_rz st sd i),
                                      cube_size = 0.6 + seededRandom (real_of_int (sd + i * 10 + 3)) * 2.8\<rparr>]
                     else if seededRandom (real_of_int (sd + i * 10 + 2)) > 0.3
                     then cs' = cs
                       \<and> bs' = bs @ [\<lparr>ball_x = real_of_int (candidate_rx st sd i),
                                      ball_y = h + (0.3 + seededRandom (real_of_int (sd + i * 10 + 4)) * 0.8) + 0.5,
                                      ball_z = real_of_int (candidate_rz st sd i),
                                      ball_radius = 0.3 + seededRandom (real_of_int (sd + i * 10 + 4)) * 0.8\<rparr>]
                     else cs' = cs \<and> bs' = bs)
               else cs' = cs \<and> bs' = bs)
          | _ \<Rightarrow> cs' = cs \<and> bs' = bs)"
  using assms
  by (auto simp: scatterCandidate_def Let_def split: sum.splits option.splits if_splits)


lemma scatterCandidate_total:
  assumes "candidate_height st hm sd i = Inr v"
  shows "\<exists>cs' bs'. scatterCandidate st hm sd i (cs, bs) = Inr (cs', bs')"
  using assms
  by (auto simp: scatterCandidate_def Let_def split: sum.splits option.splits if_splits)

lemma scatterCandidate_step:
  assumes "scatterCandidate st hm sd i (cs, bs) = Inr (cs', bs')"
  shows "length cs' + length bs' \<le> length cs + length bs + 1"
    and "(\<forall>c \<in> set cs. cube_ok st c) \<Longrightarrow> (\<forall>c \<in> set cs'. cube_ok st c)"
    and "(\<forall>b \<in> set bs. ball_ok st b) \<Longrightarrow> (\<forall>b \<in> set bs'. ball_ok st b)"
proof -
  note c = scatterCandidate_cases [OF assms]
  have r3: "0 \<le> seededRandom (real_of_int (sd + i * 10 + 3))"
      "seededRandom (real_of_int (sd + i * 10 + 3)) < 1"
    and r4: "0 \<le> seededRandom (real_of_int (sd + i * 10 + 4))"
      "seededRandom (real_of_int (sd + i * 10 + 4)) < 1"
    using seededRandom_range by blast+
  show "length cs' + length bs' \<le> length cs + length bs + 1"
    using c by (auto split: sum.splits option.splits if_splits)
  show "(\<forall>c \<in> set cs. cube_ok st c) \<Longrightarrow> (\<forall>c \<in> set cs'. cube_ok st c)"
    using c r3 by (auto simp: cube_ok_def split: sum.splits option.splits if_splits)
  show "(\<forall>b \<in> set bs. ball_ok st b) \<Longrightarrow> (\<forall>b \<in> set bs'. ball_ok st b)"
    using c r4 by (auto simp: ball_ok_def split: sum.splits option.splits if_splits)
qed

lemma scatterLoop_inv:
  assumes "scatterLoop st hm sd js (cs, bs) = Inr (cs', bs')"
  shows "length cs' + length bs' \<le> length cs + length bs + length js
     \<and> ((\<forall>c \<in> set cs. cube_ok st c) \<longrightarrow> (\<forall>c \<in> set cs'. cube_ok st c))
     \<and> ((\<forall>b \<in> set bs. ball_ok st b) \<longrightarrow> (\<forall>b \<in> set bs'. ball_ok st b))"
  using assms
proof (induction js arbitrary: cs bs)
  case Nil
  then show ?case by simp
next
  case (Cons j js)
  from Cons.prems obtain cs1 bs1 where
    one: "scatterCandidate st hm sd j (cs, bs) = Inr (cs1, bs1)"
    and rest: "scatterLoop st hm sd js (cs1, bs1) = Inr (cs', bs')"
    by (cases "scatterCandidate st hm sd j (cs, bs)") auto
  from Cons.IH [OF rest] scatterCandidate_step [OF one]
  show ?case by auto
qed

lemma scatterLoop_total:
  assumes "\<And>i. \<exists>v. candidate_height st hm sd i = Inr v"
  shows "\<exists>cs' bs'. scatterLoop st hm sd js (cs, bs) = Inr (cs', bs')"
proof (induction js arbitrary: cs bs)
  case Nil
  show ?case by simp
next
  case (Cons j js)
  from assms [of j] obtain v where "candidate_height st hm sd j = Inr v" by blast
  from scatterCandidate_total [OF this] obtain cs1 bs1 where
    "scatterCandidate st hm sd j (cs, bs) = Inr (cs1, bs1)" by blast
  with Cons.IH [of cs1 bs1] show ?case by simp
qed

lemma generateObjects_total:
  assumes "10 < chunkSize st" "0 < meshResolution st" "hm_shape hm (meshResolution st)"
  shows "\<exists>cs bs. generateObjects st coord hm = Inr (cs, bs)"
  unfolding generateObjects_def
  using candidate_height_Inr [OF assms] by (intro scatterLoop_total) blast

lemma hm_shape_heightMapOf: "hm_shape (heightMapOf g c) (meshResolution (wg_settings g))"
  by (auto simp: hm_shape_def heightMapOf_def Let_def)

lemma generateChunk_total:
  assumes "10 < chunkSize (wg_settings g)" "0 < meshResolution (wg_settings g)"
  shows "\<exists>td. generateChunk g c = Some (Inr td)"
proof -
  from generateObjects_total [OF assms hm_shape_heightMapOf, of c c] obtain cs bs where
    "generateObjects (wg_settings g) c (heightMapOf g c) = Inr (cs, bs)" by blast
  then show ?thesis using assms(2) by (simp add: generateChunk_def Let_def)
qed

subsection \<open>The draw of candidate 1 of chunk (0, 0)\<close>

lemma sin12_sum:
  "(\<Sum>m<44. sin_coeff m * (12::real) ^ m) < - (536571 / 1000000)
   \<and> - (536575 / 1000000) < (\<Sum>m<44. sin_coeff m * (12::real) ^ m)"
  by (simp add: sin_coeff_def lessThan_nat_numeral sum.lessThan_Suc fact_numeral)

lemma sin12: "sin (12::real) < - (53657 / 100000) \<and> - (5366 / 10000) < sin (12::real)"
proof -
  define S where "S = (\<Sum>m<44. sin_coeff m * (12::real) ^ m)"
  define E where "E = inverse (fact 44) * \<bar>12::real\<bar> ^ 44"
  have "\<bar>sin (12::real) - S\<bar> \<le> E"
    unfolding S_def E_def by (rule Maclaurin_sin_bound)
  then have b: "sin 12 - S \<le> E" "- E \<le> sin 12 - S" by linarith+
  have e: "E < 1 / 1000000"
    unfolding E_def by (simp add: fact_numeral field_simps)
  have s: "S < - (536571 / 1000000)" "- (536575 / 1000000) < S"
    using sin12_sum by (simp_all add: S_def)
  from b e s show ?thesis by linarith
qed

lemma seededRandom_12: "0 \<le> seededRandom 12 \<and> seededRandom 12 < 0.3"
proof -
  define x where "x = sin (12::real) * 10000"
  have x: "- 5366 < x" "x < - 5365.7" using sin12 unfolding x_def by linarith+
  then have "\<lfloor>x\<rfloor> = - 5366" by linarith
  with x show ?thesis by (simp add: seededRandom_def x_def [symmetric])
qed

lemma prngSeed_coord00: "prngSeed coord00 = 0"
  by (simp add: prngSeed_def coord00_def)

lemma hm_plateau_shape: "hm_shape hm_plateau (meshResolution settings_scn)"
  by (simp add: hm_shape_def hm_plateau_def settings_scn_def)

lemma settings_scn_fields:
  "chunkSize settings_scn = 128" "meshResolution settings_scn = 4" "waterLevel settings_scn = 10"
  by (simp_all add: settings_scn_def)

lemma candidate_height_plateau:
  "candidate_height settings_scn hm_plateau sd i = Inr (Some (Some 100))"
proof -
  have cs: "10 < chunkSize settings_scn" and mr: "0 < meshResolution settings_scn"
    by (simp_all add: settings_scn_fields)
  from candidate_height_Inr [OF cs mr hm_plateau_shape, of sd i] obtain gz gx where
    g: "0 \<le> gz" "gz < 4" "0 \<le> gx" "gx < 4"
    and h: "candidate_height settings_scn hm_plateau sd i
        = Inr (Some (hm_plateau ! nat (gz + 2) ! nat (gx + 2)))"
    by (auto simp: settings_scn_fields)
  have "nat (gz + 2) < 9" "nat (gx + 2) < 9" using g by linarith+
  then have "hm_plateau ! nat (gz + 2) ! nat (gx + 2) = Some 100"
    by (simp add: hm_plateau_def)
  with h show ?thesis by simp
qed

lemma candidate1_plateau:
  "scatterCandidate settings_scn hm_plateau 0 1 acc = Inr acc"
  using seededRandom_12
  by (simp add: scatterCandidate_def Let_def candidate_height_plateau settings_scn_fields)

lemma generateObjects_plateau: "generateObjects settings_scn coord00 hm_plateau = Inr objects_plateau"
proof -
  have cs: "10 < chunkSize settings_scn" and mr: "0 < meshResolution settings_scn"
    by (simp_all add: settings_scn_fields)
  from generateObjects_total [OF cs mr hm_plateau_shape, of coord00]
  show ?thesis by (auto simp: objects_plateau_def)
qed

text \<open>
  C6 (amended). \<open>generateChunk\<close> draws exactly 8 candidates, seeded from the hash of the
  chunk coordinate alone: the scatter lists do not depend on \<open>settings.seed\<close>. A candidate
  whose terrain height is not above \<open>waterLevel + 3\<close> places nothing. An accepted candidate
  places one cube when the second draw is above 0.5 (size in \<open>[0.6, 3.4)\<close>), one ball when
  the draw is in \<open>(0.3, 0.5]\<close> (radius in \<open>[0.3, 1.1)\<close>), and nothing when the draw is at
  most 0.3. So a chunk holds at most 8 objects, each resting on terrain above
  \<open>waterLevel + 3\<close>.
\<close>

theorem scatter_placement:
  "generateObjects (st\<lparr>seed := s'\<rparr>) coord hm = generateObjects st coord hm
   \<and> generateObjects st coord hm
       = scatterLoop st hm (prngSeed coord) [0, 1, 2, 3, 4, 5, 6, 7] ([], [])
   \<and> (\<forall>cs bs cs' bs'. scatterCandidate st hm sd i (cs, bs) = Inr (cs', bs') \<longrightarrow>
        (case candidate_height st hm sd i of
            Inr (Some (Some h)) \<Rightarrow>
              (if h > waterLevel st + 3
               then (if seededRandom (real_of_int (sd + i * 10 + 2)) > 0.5
                     then bs' = bs
                       \<and> cs' = cs @ [\<lparr>cube_x = real_of_int (candidate_rx st sd i),
                                      cube_y = h + (0.6 + seededRandom (real_of_int (sd + i * 10 + 3)) * 2.8) * 0.5,
                                      cube_z = real_of_int (candidate_rz st sd i),
                                      cube_size = 0.6 + seededRandom (real_of_int (sd + i * 10 + 3)) * 2.8\<rparr>]
                     else if seededRandom (real_of_int (sd + i * 10 + 2)) > 0.3
                     then cs' = cs
                       \<and> bs' = bs @ [\<lparr>ball_x = real_of_int (candidate_rx st sd i),
                                      ball_y = h + (0.3 + seededRandom (real_of_int (sd + i * 10 + 4)) * 0.8) + 0.5,
                                      ball_z = real_of_int (candidate_rz st sd i),
                                      ball_radius = 0.3 + seededRandom (real_of_int (sd + i * 10 + 4)) * 0.8\<rparr>]
                     else cs' = cs \<and> bs' = bs)
               else cs' = cs \<and> bs' = bs)
          | _ \<Rightarrow> cs' = cs \<and> bs' = bs))
   \<and> (\<forall>cs bs. generateObjects st coord hm = Inr (cs, bs) \<longrightarrow>
        length cs + length bs \<le> 8
        \<and> (\<forall>c \<in> set cs. cube_ok st c) \<and> (\<forall>b \<in> set bs. ball_ok st b))"
proof -
  have A: "generateObjects (st\<lparr>seed := s'\<rparr>) coord hm = generateObjects st coord hm"
  proof -
    have ch: "candidate_height (st\<lparr>seed := s'\<rparr>) hm sd' j = candidate_height st hm sd' j" for sd' j
      by (simp add: candidate_height_def gridOf_def candidate_rx_def candidate_rz_def)
    have rx: "candidate_rx (st\<lparr>seed := s'\<rparr>) sd' j = candidate_rx st sd' j"
      and rz: "candidate_rz (st\<lparr>seed := s'\<rparr>) sd' j = candidate_rz st sd' j" for sd' j
      by (simp_all add: candidate_rx_def candidate_rz_def)
    have wl: "waterLevel (st\<lparr>seed := s'\<rparr>) = waterLevel st" by simp
    have one: "scatterCandidate (st\<lparr>seed := s'\<rparr>) hm sd' j acc = scatterCandidate st hm sd' j acc"
      for sd' j acc
      unfolding scatterCandidate_def ch rx rz wl ..
    have "scatterLoop (st\<lparr>seed := s'\<rparr>) hm sd' js acc = scatterLoop st hm sd' js acc" for sd' js acc
      by (induction js arbitrary: acc) (simp_all add: one split: sum.splits)
    then show ?thesis unfolding generateObjects_def .
  qed
  have B: "generateObjects st coord hm
       = scatterLoop st hm (prngSeed coord) [0, 1, 2, 3, 4, 5, 6, 7] ([], [])"
    by (simp add: generateObjects_def)
  have D: "length cs + length bs \<le> 8
        \<and> (\<forall>c \<in> set cs. cube_ok st c) \<and> (\<forall>b \<in> set bs. ball_ok st b)"
    if "generateObjects st coord hm = Inr (cs, bs)" for cs bs
    using scatterLoop_inv [OF that [unfolded generateObjects_def]] by simp
  from A B D scatterCandidate_cases show ?thesis by blast
qed
theorem scatter_placement_witness:
  "generateObjects (settings_scn\<lparr>seed := ''other''\<rparr>) coord00 hm_plateau
     = generateObjects settings_scn coord00 hm_plateau
   \<and> scatterCandidate settings_scn hm_plateau 0 1 ([], []) = Inr ([], [])
   \<and> candidate_height settings_scn hm_plateau 0 1 = Inr (Some (Some 100))
   \<and> generateObjects settings_scn coord00 hm_plateau = Inr objects_plateau
   \<and> length (fst objects_plateau) + length (snd objects_plateau) \<le> 8"
proof -
  note inst = scatter_placement [where st = settings_scn and s' = "''other''" and coord = coord00
      and hm = hm_plateau and sd = 0 and i = 1]
  have "generateObjects settings_scn coord00 hm_plateau
      = Inr (fst objects_plateau, snd objects_plateau)"
    by (simp add: generateObjects_plateau)
  with inst have "length (fst objects_plateau) + length (snd objects_plateau) \<le> 8" by blast
  with inst candidate1_plateau candidate_height_plateau generateObjects_plateau
  show ?thesis by blast
qed


text \<open>Chunk \<open>(0, 0)\<close> on a plateau of height 100 with water level 10: every candidate is
  accepted, and candidate 1 draws \<open>frac (10000 * sin 12) \<approx> 0.27\<close> and places nothing, so
  that 8 accepted candidates leave at most 7 objects.\<close>

theorem accepted_candidate_places_nothing_counterexample:
  "candidate_height settings_scn hm_plateau (prngSeed coord00) 1 = Inr (Some (Some 100))
   \<and> waterLevel settings_scn + 3 < 100
   \<and> scatterCandidate settings_scn hm_plateau (prngSeed coord00) 1 ([], []) = Inr ([], [])
   \<and> generateObjects settings_scn coord00 hm_plateau = Inr objects_plateau
   \<and> length (fst objects_plateau) + length (snd objects_plateau) \<le> 7"
proof -
  have all: "\<exists>v. candidate_height settings_scn hm_plateau 0 i = Inr v" for i
    by (simp add: candidate_height_plateau)
  obtain cs0 bs0 where c0: "scatterCandidate settings_scn hm_plateau 0 0 ([], []) = Inr (cs0, bs0)"
    using scatterCandidate_total [OF candidate_height_plateau, of 0 0 "[]" "[]"] by blast
  have l0: "length cs0 + length bs0 \<le> 1"
    using scatterCandidate_step(1) [OF c0] by simp
  obtain cs' bs' where rest:
    "scatterLoop settings_scn hm_plateau 0 [2, 3, 4, 5, 6, 7] (cs0, bs0) = Inr (cs', bs')"
    using scatterLoop_total [of settings_scn hm_plateau 0 "[2, 3, 4, 5, 6, 7]" cs0 bs0] all by blast
  have l': "length cs' + length bs' \<le> length cs0 + length bs0 + 6"
    using scatterLoop_inv [OF rest] by simp
  have "scatterLoop settings_scn hm_plateau 0 [0, 1, 2, 3, 4, 5, 6, 7] ([], [])
      = scatterLoop settings_scn hm_plateau 0 [2, 3, 4, 5, 6, 7] (cs0, bs0)"
    by (simp only: scatterLoop.simps c0 candidate1_plateau sum.case)
  then have "generateObjects settings_scn coord00 hm_plateau = Inr (cs', bs')"
    by (simp only: generateObjects_def prngSeed_coord00 rest)
  with generateObjects_plateau have op: "objects_plateau = (cs', bs')" by simp
  from l0 l' have "length cs' + length bs' \<le> 7" by linarith
  then have "length (fst objects_plateau) + length (snd objects_plateau) \<le> 7"
    by (simp add: op)
  then show ?thesis
    using generateObjects_plateau
    by (simp add: candidate_height_plateau prngSeed_coord00 candidate1_plateau settings_scn_fields)
qed


section \<open>Generated chunks\<close>

subsection \<open>Worker cache\<close>





lemma nth_concat_uniform:
  "(\<And>xs. xs \<in> set xss \<Longrightarrow> length xs = m) \<Longrightarrow> i < length xss \<Longrightarrow> j < m
   \<Longrightarrow> concat xss ! (i * m + j) = xss ! i ! j"
proof (induction xss arbitrary: i)
  case Nil
  then show ?case by simp
next
  case (Cons xs xss)
  have len: "length xs = m" using Cons.prems(1) by simp
  show ?case
  proof (cases i)
    case 0
    then show ?thesis using Cons.prems(3) len by (simp add: nth_append)
  next
    case (Suc k)
    have "concat xss ! (k * m + j) = xss ! k ! j"
      using Cons.prems Suc by (intro Cons.IH) auto
    then show ?thesis using Suc len by (simp add: nth_append add.assoc)
  qed
qed

lemma length_concat_uniform:
  "(\<And>xs. xs \<in> set xss \<Longrightarrow> length xs = m) \<Longrightarrow> length (concat xss) = length xss * m"
  by (induction xss) auto

lemma upto_nth0: "0 \<le> k \<Longrightarrow> k \<le> n \<Longrightarrow> [0 .. n] ! nat k = k"
  by (simp add: nth_upto)

lemma grid_nth:
  fixes f :: "int \<Rightarrow> int \<Rightarrow> 'a"
  assumes "0 \<le> z" "z < n" "0 \<le> x" "x < n"
  shows "concat (map (\<lambda>z. map (\<lambda>x. f z x) [0 .. n - 1]) [0 .. n - 1]) ! nat (z * n + x) = f z x"
proof -
  let ?xss = "map (\<lambda>z. map (\<lambda>x. f z x) [0 .. n - 1]) [0 .. n - 1]"
  have idx: "nat (z * n + x) = nat z * nat n + nat x"
    using assms by (simp add: nat_add_distrib nat_mult_distrib)
  have "concat ?xss ! (nat z * nat n + nat x) = ?xss ! nat z ! nat x"
    using assms by (intro nth_concat_uniform) auto
  also have "\<dots> = f z x"
    using assms by (simp add: nth_upto)
  finally show ?thesis unfolding idx .
qed

lemma grid3_nth:
  fixes f :: "int \<Rightarrow> int \<Rightarrow> 'a list"
  assumes "0 \<le> z" "z < n" "0 \<le> x" "x < n" "\<And>z x. length (f z x) = 3" "k < 3"
  shows "concat (map (\<lambda>z. concat (map (\<lambda>x. f z x) [0 .. n - 1])) [0 .. n - 1])
           ! (nat ((z * n + x) * 3) + k) = f z x ! k"
proof -
  let ?row = "\<lambda>z. concat (map (\<lambda>x. f z x) [0 .. n - 1])"
  have rowlen: "length (?row z') = nat n * 3" for z'
    using assms(5) by (subst length_concat_uniform [where m = 3]) auto
  have x3: "nat x * 3 + k < nat n * 3" using assms(3,4,6) by linarith
  have idx: "nat ((z * n + x) * 3) + k = nat z * (nat n * 3) + (nat x * 3 + k)"
    using assms(1-4) by (simp add: nat_add_distrib nat_mult_distrib algebra_simps)
  have "concat (map ?row [0 .. n - 1]) ! (nat z * (nat n * 3) + (nat x * 3 + k))
      = map ?row [0 .. n - 1] ! nat z ! (nat x * 3 + k)"
    using assms(1,2) x3 rowlen by (intro nth_concat_uniform) auto
  also have "\<dots> = ?row z ! (nat x * 3 + k)"
    using assms(1,2) by (simp add: nth_upto)
  also have "\<dots> = map (\<lambda>x. f z x) [0 .. n - 1] ! nat x ! k"
    using assms(3-6) by (intro nth_concat_uniform) auto
  also have "\<dots> = f z x ! k"
    using assms(3,4) by (simp add: nth_upto)
  finally show ?thesis unfolding idx .
qed

lemma hm_num_heightMapOf:
  assumes "- 2 \<le> z" "z \<le> meshResolution (wg_settings g) + 2"
    and "- 2 \<le> x" "x \<le> meshResolution (wg_settings g) + 2"
  shows "hm_num (heightMapOf g c) (z + 2) (x + 2) = sampleHeight g c z x"
  using assms by (simp add: hm_num_def heightMapOf_def Let_def nth_upto)

lemma generateChunk_Inr:
  assumes "generateChunk g c = Some (Inr td)"
  shows "meshResolution (wg_settings g) \<noteq> 0"
    "heights td = concat (map (\<lambda>z. map (\<lambda>x. hm_num (heightMapOf g c) (z + 2) (x + 2))
                                   [0 .. meshResolution (wg_settings g) + 1 - 1])
                           [0 .. meshResolution (wg_settings g) + 1 - 1])"
    "vertices td = concat (map (\<lambda>z. concat (map (\<lambda>x. vertexOf (wg_settings g) (heightMapOf g c) z x)
                                   [0 .. meshResolution (wg_settings g) + 1 - 1]))
                           [0 .. meshResolution (wg_settings g) + 1 - 1])"
proof -
  show mr: "meshResolution (wg_settings g) \<noteq> 0"
    using assms by (auto simp: generateChunk_def Let_def split: if_splits)
  from assms mr obtain cs bs where
    "generateObjects (wg_settings g) c (heightMapOf g c) = Inr (cs, bs)"
    by (cases "generateObjects (wg_settings g) c (heightMapOf g c)")
       (auto simp: generateChunk_def Let_def)
  with assms mr show "heights td = concat (map (\<lambda>z. map (\<lambda>x. hm_num (heightMapOf g c) (z + 2) (x + 2))
                                   [0 .. meshResolution (wg_settings g) + 1 - 1])
                           [0 .. meshResolution (wg_settings g) + 1 - 1])"
    and "vertices td = concat (map (\<lambda>z. concat (map (\<lambda>x. vertexOf (wg_settings g) (heightMapOf g c) z x)
                                   [0 .. meshResolution (wg_settings g) + 1 - 1]))
                           [0 .. meshResolution (wg_settings g) + 1 - 1])"
    by (auto simp: generateChunk_def Let_def)
qed

lemma heights_nth:
  assumes td: "generateChunk g c = Some (Inr td)"
    and "0 \<le> z" "z \<le> meshResolution (wg_settings g)" "0 \<le> x" "x \<le> meshResolution (wg_settings g)"
  shows "heights td ! nat (z * (meshResolution (wg_settings g) + 1) + x) = sampleHeight g c z x"
proof -
  let ?n = "meshResolution (wg_settings g) + 1"
  have "heights td ! nat (z * ?n + x) = hm_num (heightMapOf g c) (z + 2) (x + 2)"
    unfolding generateChunk_Inr(2) [OF td] using assms(2-5) by (intro grid_nth) auto
  then show ?thesis using assms(2-5) by (simp add: hm_num_heightMapOf)
qed

lemma vertices_nth_y:
  assumes td: "generateChunk g c = Some (Inr td)"
    and "0 \<le> z" "z \<le> meshResolution (wg_settings g)" "0 \<le> x" "x \<le> meshResolution (wg_settings g)"
  shows "vertices td ! (nat ((z * (meshResolution (wg_settings g) + 1) + x) * 3) + 1)
           = sampleHeight g c z x"
proof -
  let ?n = "meshResolution (wg_settings g) + 1"
  have "vertices td ! (nat ((z * ?n + x) * 3) + 1)
      = vertexOf (wg_settings g) (heightMapOf g c) z x ! 1"
    unfolding generateChunk_Inr(3) [OF td] using assms(2-5)
    by (intro grid3_nth) (auto simp: vertexOf_def)
  then show ?thesis using assms(2-5) by (simp add: vertexOf_def hm_num_heightMapOf)
qed


subsection \<open>Layers of constant noise\<close>

lemma fractal_loop_const:
  "(\<And>a b. noiseFunc a b = c) \<Longrightarrow>
   fractal_loop noiseFunc x z p l n v a s m
     = (v + c * (a * (\<Sum>i<n. p ^ i)), m + a * (\<Sum>i<n. p ^ i))"
proof (induction n arbitrary: v a s m)
  case 0
  then show ?case by simp
next
  case (Suc n)
  have "(\<Sum>i<Suc n. p ^ i) = 1 + p * (\<Sum>i<n. p ^ i)"
    by (subst sum.lessThan_Suc_shift) (simp add: sum_distrib_left)
  then show ?case using Suc by (simp add: algebra_simps)
qed

lemma geo_pos: "0 < p \<Longrightarrow> 0 < n \<Longrightarrow> 0 < (\<Sum>i<n. (p::real) ^ i)"
  by (cases n) (auto intro!: add_nonneg_pos sum_nonneg)

lemma fractal_const:
  assumes "\<And>a b. noiseFunc a b = c" "amp \<noteq> 0" "0 < p" "0 < n"
  shows "fractal x z noiseFunc n scale amp p l = Some c"
proof -
  have "amp * (\<Sum>i<n. p ^ i) \<noteq> 0" using assms(2) geo_pos [OF assms(3,4)] by simp
  then show ?thesis
    unfolding fractal_def fractal_loop_const [of noiseFunc c, OF assms(1)] by simp
qed

lemma ridged_const:
  assumes "\<And>a b. noiseFunc a b = 0" "s \<noteq> 0"
  shows "ridged x z noiseFunc scale amp s = Some amp"
  using assms by (simp add: ridged_def js_pow_def)

lemma billow_const:
  assumes "\<And>a b. noiseFunc a b = 0"
  shows "billow x z noiseFunc scale amp = 0"
  using assms by (simp add: billow_def)

lemma fractal_silent:
  "amp \<noteq> 0 \<Longrightarrow> 0 < p \<Longrightarrow> 0 < n \<Longrightarrow> fractal x z (\<lambda>a b. c) n scale amp p l = Some c"
  by (rule fractal_const) simp_all

lemma ridged_silent:
  "s \<noteq> 0 \<Longrightarrow> ridged x z (\<lambda>a b. 0) scale amp s = Some amp"
  by (rule ridged_const) simp_all

lemma billow_silent: "billow x z (\<lambda>a b. 0) scale amp = 0"
  by (rule billow_const) simp

lemma settings_scn_all:
  "seed settings_scn = ''test''" "chunkSize settings_scn = 128" "meshResolution settings_scn = 4"
  "waterLevel settings_scn = 10" "continentScale settings_scn = 0.002"
  "continentAmplitude settings_scn = 40" "mountainScale settings_scn = 0.02"
  "mountainAmplitude settings_scn = 32" "detailScale settings_scn = 0.07"
  "detailAmplitude settings_scn = 8" "warpScale settings_scn = 0.06"
  "warpStrength settings_scn = 30"
  by (simp_all add: settings_scn_def defaultSettings_def)

lemma g_scn_noise:
  "wg_settings g_scn = settings_scn"
  "continentNoise g_scn = (\<lambda>a b. 0)" "mountainNoise g_scn = (\<lambda>a b. 0)"
  "hillNoise g_scn = (\<lambda>a b. 0)" "detailNoise g_scn = (\<lambda>a b. 0)"
  "warpNoiseX g_scn = (\<lambda>a b. 0)" "warpNoiseZ g_scn = (\<lambda>a b. 0)"
  "ridgeNoise g_scn = (\<lambda>a b. 0)" "valleyNoise g_scn = (\<lambda>a b. 0)"
  "erosionNoise g_scn = (\<lambda>a b. 0)" "underwaterNoise g_scn = (\<lambda>a b. 0)"
  "plainsNoise g_scn = (\<lambda>a b. 0)" "gentleNoise g_scn = (\<lambda>a b. 0)"
  by (simp_all add: g_scn_def new_WorldGenerator_def mk_silent_def)

lemma getHeightAt_silent:
  "getHeightAt g_scn (Some x) (Some z) = Some (20583 / 2401)"
  unfolding getHeightAt_def warp_def g_scn_noise settings_scn_all Let_def
  by (simp add: fractal_silent ridged_silent billow_silent smootherstep_def)


lemma g_continent_noise:
  "wg_settings g_continent = settings_scn"
  "continentNoise g_continent = (\<lambda>a b. 1)" "mountainNoise g_continent = (\<lambda>a b. 0)"
  "hillNoise g_continent = (\<lambda>a b. 0)" "detailNoise g_continent = (\<lambda>a b. 0)"
  "warpNoiseX g_continent = (\<lambda>a b. 0)" "warpNoiseZ g_continent = (\<lambda>a b. 0)"
  "ridgeNoise g_continent = (\<lambda>a b. 0)" "valleyNoise g_continent = (\<lambda>a b. 0)"
  "erosionNoise g_continent = (\<lambda>a b. 0)" "underwaterNoise g_continent = (\<lambda>a b. 0)"
  "plainsNoise g_continent = (\<lambda>a b. 0)" "gentleNoise g_continent = (\<lambda>a b. 0)"
  by (simp_all add: g_continent_def new_WorldGenerator_def mk_continent_def settings_scn_all)

lemma getHeightAt_continent:
  "getHeightAt g_continent (Some x) (Some z) = Some 204"
  unfolding getHeightAt_def warp_def g_continent_noise settings_scn_all Let_def
  by (simp add: fractal_silent ridged_silent billow_silent smootherstep_def)

lemma settings_647_all:
  "seed settings_647 = ''test''" "chunkSize settings_647 = 4552857748294861 / 70368744177664"
  "meshResolution settings_647 = 4"
  "waterLevel settings_647 = 10" "continentScale settings_647 = 0.002"
  "continentAmplitude settings_647 = 40" "mountainScale settings_647 = 1"
  "mountainAmplitude settings_647 = 32" "detailScale settings_647 = 0.07"
  "detailAmplitude settings_647 = 8" "warpScale settings_647 = 0.06"
  "warpStrength settings_647 = 30"
  by (simp_all add: settings_647_def settings_scn_def defaultSettings_def)

lemma g_647_noise:
  "wg_settings g_647 = settings_647"
  "continentNoise g_647 = (\<lambda>a b. 0)" "mountainNoise g_647 = cliff"
  "hillNoise g_647 = (\<lambda>a b. 0)" "detailNoise g_647 = (\<lambda>a b. 0)"
  "warpNoiseX g_647 = (\<lambda>a b. 0)" "warpNoiseZ g_647 = (\<lambda>a b. 0)"
  "ridgeNoise g_647 = (\<lambda>a b. 0)" "valleyNoise g_647 = (\<lambda>a b. 0)"
  "erosionNoise g_647 = (\<lambda>a b. 0)" "underwaterNoise g_647 = (\<lambda>a b. 0)"
  "plainsNoise g_647 = (\<lambda>a b. 0)" "gentleNoise g_647 = (\<lambda>a b. 0)"
  by (simp_all add: g_647_def new_WorldGenerator_def mk_cliff_def settings_647_all)

lemma getHeightAt_647:
  "getHeightAt g_647 (Some (6829286622442291 / 17592186044416)) (Some 0) = Some (20583 / 2401)"
  "getHeightAt g_647 (Some (6829286622442292 / 17592186044416)) (Some 0) = Some (106545 / 16807)"
  unfolding getHeightAt_def warp_def g_647_noise settings_647_all Let_def
  by (simp_all add: fractal_silent ridged_silent billow_silent smootherstep_def
      ridged_def js_pow_def cliff_def scaled_def shifted_def)

lemma ramp_linear: "\<bar>v\<bar> \<le> 1000 \<Longrightarrow> ramp (Some v) b = v / 1000"
  by (simp add: ramp_def)

lemma fractal_ramp:
  assumes "\<bar>x\<bar> \<le> 10000"
  shows "fractal (Some x) z ramp 4 (1 / 250) 8 (3 / 5) 2 = Some (671 / 68000000 * x)"
  unfolding fractal_def using assms
  by (simp add: eval_nat_numeral scaled_def ramp_linear)

lemma g_plains_noise:
  "wg_settings g_plains = settings_scn"
  "continentNoise g_plains = (\<lambda>a b. 0)" "mountainNoise g_plains = (\<lambda>a b. 0)"
  "hillNoise g_plains = (\<lambda>a b. 0)" "detailNoise g_plains = (\<lambda>a b. 0)"
  "warpNoiseX g_plains = (\<lambda>a b. 0)" "warpNoiseZ g_plains = (\<lambda>a b. 0)"
  "ridgeNoise g_plains = (\<lambda>a b. 0)" "valleyNoise g_plains = (\<lambda>a b. 0)"
  "erosionNoise g_plains = (\<lambda>a b. 0)" "underwaterNoise g_plains = (\<lambda>a b. 0)"
  "plainsNoise g_plains = ramp" "gentleNoise g_plains = (\<lambda>a b. 0)"
  by (simp_all add: g_plains_def new_WorldGenerator_def mk_plains_def settings_scn_all)

lemma getHeightAt_plains:
  assumes "\<bar>x\<bar> \<le> 10000"
  shows "getHeightAt g_plains (Some x) (Some z) = Some (20583 / 2401 + 9 / 10 * (671 / 68000000 * x))"
  unfolding getHeightAt_def warp_def g_plains_noise settings_scn_all Let_def
  using assms
  by (simp add: fractal_silent ridged_silent billow_silent smootherstep_def fractal_ramp)


subsection \<open>Rounding\<close>

lemma rne_int [simp]: "rne (real_of_int n) = n"
  by (simp add: rne_def)

lemma fl_0 [simp]: "fl 0 = 0" by (simp add: fl_def)

lemma pow2_powr: "pow2 e = 2 powr (real_of_int e)"
  by (simp add: pow2_def powr_real_of_int inverse_eq_divide)

lemma pow2_pos: "0 < pow2 e" by (simp add: pow2_powr)

lemma pow2_add: "pow2 (a + b) = pow2 a * pow2 b"
  by (simp add: pow2_powr powr_add)

lemma pow2_0 [simp]: "pow2 0 = 1" by (simp add: pow2_def)

lemma pow2_mono: "a \<le> b \<Longrightarrow> pow2 a \<le> pow2 b"
  by (simp add: pow2_powr)

lemma pow2_le_iff: "pow2 a \<le> pow2 b \<longleftrightarrow> a \<le> b"
  by (simp add: pow2_powr)

lemma fl_exp_eq:
  assumes "pow2 e \<le> \<bar>x\<bar>" "\<bar>x\<bar> < pow2 (e + 1)"
  shows "fl_exp x = e"
proof -
  have pos: "0 < \<bar>x\<bar>" using assms(1) pow2_pos [of e] by linarith
  have "2 powr (real_of_int e) \<le> \<bar>x\<bar>" "\<bar>x\<bar> < 2 powr (real_of_int (e + 1))"
    using assms unfolding pow2_powr by simp_all
  then have "real_of_int e \<le> log 2 \<bar>x\<bar>" "log 2 \<bar>x\<bar> < real_of_int (e + 1)"
    using pos by (simp_all add: le_log_iff log_less_iff)
  then show ?thesis unfolding fl_exp_def by linarith
qed

lemma fl_eval:
  assumes "pow2 e \<le> \<bar>x\<bar>" "\<bar>x\<bar> < pow2 (e + 1)"
  shows "fl x = real_of_int (rne (x * pow2 (52 - e))) * pow2 (e - 52)"
proof -
  have "x \<noteq> 0" using assms(1) pow2_pos [of e] by linarith
  then show ?thesis by (simp add: fl_def fl_exp_eq [OF assms])
qed

lemma fl_exp_bounds:
  assumes "x \<noteq> 0"
  shows "pow2 (fl_exp x) \<le> \<bar>x\<bar>" "\<bar>x\<bar> < pow2 (fl_exp x + 1)"
proof -
  have pos: "0 < \<bar>x\<bar>" using assms by simp
  have a: "real_of_int (fl_exp x) \<le> log 2 \<bar>x\<bar>" "log 2 \<bar>x\<bar> < real_of_int (fl_exp x + 1)"
    unfolding fl_exp_def by linarith+
  have "2 powr (real_of_int (fl_exp x)) \<le> \<bar>x\<bar>"
    using a(1) pos by (simp add: le_log_iff)
  then show "pow2 (fl_exp x) \<le> \<bar>x\<bar>" by (simp add: pow2_powr)
  have "\<bar>x\<bar> < 2 powr (real_of_int (fl_exp x + 1))"
    using a(2) pos by (subst (asm) log_less_iff) simp_all
  then show "\<bar>x\<bar> < pow2 (fl_exp x + 1)" unfolding pow2_powr .
qed

lemma fl_int:
  assumes "\<bar>n\<bar> \<le> 2 ^ 53"
  shows "fl (real_of_int n) = real_of_int n"
proof (cases "n = 0")
  case True then show ?thesis by simp
next
  case False
  define e where "e = fl_exp (real_of_int n)"
  have nz: "real_of_int n \<noteq> 0" using False by simp
  have lo: "pow2 e \<le> \<bar>real_of_int n\<bar>" and hi: "\<bar>real_of_int n\<bar> < pow2 (e + 1)"
    unfolding e_def using fl_exp_bounds [OF nz] by simp_all
  have n53: "\<bar>real_of_int n\<bar> \<le> 2 ^ 53"
  proof -
    have "real_of_int \<bar>n\<bar> \<le> real_of_int (2 ^ 53)" using assms by (simp only: of_int_le_iff)
    then show ?thesis by simp
  qed
  have p53: "pow2 53 = 2 ^ 53" by (simp add: pow2_def)
  have "pow2 e \<le> pow2 53" using lo n53 unfolding p53 by linarith
  then have e53: "e \<le> 53" by (simp add: pow2_le_iff)
  have e0: "0 \<le> e"
  proof (rule ccontr)
    assume "\<not> 0 \<le> e"
    then have "e + 1 \<le> 0" by simp
    then have "pow2 (e + 1) \<le> pow2 0" by (rule pow2_mono)
    with hi have "\<bar>real_of_int n\<bar> < 1" by simp
    then show False using False by linarith
  qed
  have fl_unf: "fl (real_of_int n)
      = real_of_int (rne (real_of_int n * pow2 (52 - e))) * pow2 (e - 52)"
    using nz unfolding fl_def e_def by simp
  show ?thesis
  proof (cases "e \<le> 52")
    case True
    then have p: "pow2 (52 - e) = real_of_int (2 ^ nat (52 - e))"
      by (simp add: pow2_def)
    have "real_of_int n * pow2 (52 - e) = real_of_int (n * 2 ^ nat (52 - e))"
      unfolding p by simp
    then have r: "rne (real_of_int n * pow2 (52 - e)) = n * 2 ^ nat (52 - e)"
      by (simp only: rne_int)
    have "pow2 (52 - e) * pow2 (e - 52) = 1"
      by (simp add: pow2_add [symmetric])
    then have "real_of_int (n * 2 ^ nat (52 - e)) * pow2 (e - 52) = real_of_int n"
      unfolding p by (simp add: mult.assoc)
    then show ?thesis unfolding fl_unf r .
  next
    case False
    with e53 have e: "e = 53" by simp
    have "2 ^ 53 \<le> \<bar>real_of_int n\<bar>" using lo unfolding e p53 .
    with n53 have "\<bar>real_of_int n\<bar> = 2 ^ 53" by linarith
    then have "real_of_int \<bar>n\<bar> = real_of_int (2 ^ 53)" by simp
    then have "\<bar>n\<bar> = 2 ^ 53" by (simp only: of_int_eq_iff)
    then have "n = 9007199254740992 \<or> n = - 9007199254740992" by simp linarith
    then have n: "n = 2 * (n div 2)" by auto
    have "real_of_int n * pow2 (52 - 53) = real_of_int (n div 2)"
      by (subst n) (simp add: pow2_def)
    then have r: "rne (real_of_int n * pow2 (52 - 53)) = n div 2"
      by (simp only: rne_int)
    have "real_of_int (n div 2) * pow2 (53 - 52) = real_of_int n"
      by (subst (2) n) (simp add: pow2_def)
    then show ?thesis unfolding fl_unf e r .
  qed
qed


lemma fl_one: "fl 1 = 1"
  using fl_int [of 1] by simp

lemma abs_factor_le:
  fixes c k :: int
  assumes "\<bar>c * k\<bar> \<le> n" "\<bar>(c + 1) * k\<bar> \<le> n"
  shows "\<bar>k\<bar> \<le> n"
proof (cases "c = 0")
  case True
  with assms(2) show ?thesis by simp
next
  case False
  then have "1 \<le> \<bar>c\<bar>" by simp
  then have "1 * \<bar>k\<bar> \<le> \<bar>c\<bar> * \<bar>k\<bar>" by (intro mult_right_mono) simp_all
  with assms(1) show ?thesis by (simp add: abs_mult)
qed

subsection \<open>The shared edge\<close>

lemma chunkOrigin_int:
  assumes "chunkSize st = real_of_int k" "\<bar>c * k\<bar> \<le> 2 ^ 53"
  shows "chunkOrigin st c = real_of_int (c * k)"
  using fl_int [OF assms(2)] by (simp add: chunkOrigin_def assms(1))

lemma localCoord_0: "meshResolution st \<noteq> 0 \<Longrightarrow> localCoord st 0 = Some 0"
  by (simp add: localCoord_def fl_div_def)

lemma localCoord_last:
  assumes "meshResolution st \<noteq> 0" "chunkSize st = real_of_int k" "\<bar>k\<bar> \<le> 2 ^ 53"
  shows "localCoord st (meshResolution st) = Some (real_of_int k)"
  using assms(1) fl_int [OF assms(3)] by (simp add: localCoord_def fl_div_def fl_one assms(2))

lemma gridCoord_seam:
  assumes mr: "meshResolution st \<noteq> 0" and cs: "chunkSize st = real_of_int k"
    and r: "\<bar>c * k\<bar> \<le> 2 ^ 53" "\<bar>(c + 1) * k\<bar> \<le> 2 ^ 53"
  shows "gridCoord st (chunkOrigin st c) (meshResolution st) = Some (real_of_int ((c + 1) * k))"
    and "gridCoord st (chunkOrigin st (c + 1)) 0 = Some (real_of_int ((c + 1) * k))"
proof -
  have k: "\<bar>k\<bar> \<le> 2 ^ 53" using r by (rule abs_factor_le)
  have "real_of_int (c * k) + real_of_int k = real_of_int ((c + 1) * k)"
    by (simp add: algebra_simps)
  then show "gridCoord st (chunkOrigin st c) (meshResolution st) = Some (real_of_int ((c + 1) * k))"
    unfolding gridCoord_def localCoord_last [OF mr cs k] chunkOrigin_int [OF cs r(1)]
    using fl_int [OF r(2)] by simp
  show "gridCoord st (chunkOrigin st (c + 1)) 0 = Some (real_of_int ((c + 1) * k))"
    unfolding gridCoord_def localCoord_0 [OF mr] chunkOrigin_int [OF cs r(2)]
    using fl_int [OF r(2)] by simp
qed

lemma sampleHeight_seam_x:
  assumes "meshResolution (wg_settings g) \<noteq> 0" "chunkSize (wg_settings g) = real_of_int k"
    and "coord_x b = coord_x a + 1" "coord_z b = coord_z a"
    and "\<bar>coord_x a * k\<bar> \<le> 2 ^ 53" "\<bar>coord_x b * k\<bar> \<le> 2 ^ 53"
  shows "gridCoord (wg_settings g) (chunkOrigin (wg_settings g) (coord_x a))
             (meshResolution (wg_settings g))
           = gridCoord (wg_settings g) (chunkOrigin (wg_settings g) (coord_x b)) 0"
    and "sampleHeight g a z (meshResolution (wg_settings g)) = sampleHeight g b z 0"
proof -
  have r: "\<bar>(coord_x a + 1) * k\<bar> \<le> 2 ^ 53" using assms(3,6) by simp
  show e: "gridCoord (wg_settings g) (chunkOrigin (wg_settings g) (coord_x a))
             (meshResolution (wg_settings g))
           = gridCoord (wg_settings g) (chunkOrigin (wg_settings g) (coord_x b)) 0"
    unfolding assms(3) gridCoord_seam [OF assms(1,2,5) r] ..
  show "sampleHeight g a z (meshResolution (wg_settings g)) = sampleHeight g b z 0"
    unfolding sampleHeight_def Let_def e assms(4) ..
qed

lemma sampleHeight_seam_z:
  assumes "meshResolution (wg_settings g) \<noteq> 0" "chunkSize (wg_settings g) = real_of_int k"
    and "coord_x b = coord_x a" "coord_z b = coord_z a + 1"
    and "\<bar>coord_z a * k\<bar> \<le> 2 ^ 53" "\<bar>coord_z b * k\<bar> \<le> 2 ^ 53"
  shows "gridCoord (wg_settings g) (chunkOrigin (wg_settings g) (coord_z a))
             (meshResolution (wg_settings g))
           = gridCoord (wg_settings g) (chunkOrigin (wg_settings g) (coord_z b)) 0"
    and "sampleHeight g a (meshResolution (wg_settings g)) x = sampleHeight g b 0 x"
proof -
  have r: "\<bar>(coord_z a + 1) * k\<bar> \<le> 2 ^ 53" using assms(4,6) by simp
  show e: "gridCoord (wg_settings g) (chunkOrigin (wg_settings g) (coord_z a))
             (meshResolution (wg_settings g))
           = gridCoord (wg_settings g) (chunkOrigin (wg_settings g) (coord_z b)) 0"
    unfolding assms(4) gridCoord_seam [OF assms(1,2,5) r] ..
  show "sampleHeight g a (meshResolution (wg_settings g)) x = sampleHeight g b 0 x"
    unfolding sampleHeight_def Let_def e assms(3) ..
qed

subsection \<open>Chunks of the scenario\<close>

lemma generateChunk_plains:
  "generateChunk g_plains coord00 = Some (Inr td_plains00)"
  "generateChunk g_plains coord10 = Some (Inr td_plains10)"
proof -
  have cs: "10 < chunkSize (wg_settings g_plains)" and mr: "0 < meshResolution (wg_settings g_plains)"
    by (simp_all add: g_plains_noise settings_scn_all)
  from generateChunk_total [OF cs mr, of coord00]
  show "generateChunk g_plains coord00 = Some (Inr td_plains00)" by (auto simp: td_plains00_def)
  from generateChunk_total [OF cs mr, of coord10]
  show "generateChunk g_plains coord10 = Some (Inr td_plains10)" by (auto simp: td_plains10_def)
qed

lemma generateChunk_647:
  "generateChunk g_647 coord50 = Some (Inr td_647a)"
  "generateChunk g_647 coord60 = Some (Inr td_647b)"
proof -
  have cs: "10 < chunkSize (wg_settings g_647)" and mr: "0 < meshResolution (wg_settings g_647)"
    by (simp_all add: g_647_noise settings_647_all)
  from generateChunk_total [OF cs mr, of coord50]
  show "generateChunk g_647 coord50 = Some (Inr td_647a)" by (auto simp: td_647a_def)
  from generateChunk_total [OF cs mr, of coord60]
  show "generateChunk g_647 coord60 = Some (Inr td_647b)" by (auto simp: td_647b_def)
qed

text \<open>Grid coordinates of the scenario, chunk size 128 and mesh resolution 4.\<close>

lemma fl_quarters:
  "fl (1 / 4) = 1 / 4" "fl (1 / 2) = 1 / 2" "fl (3 / 4) = 3 / 4"
  by (subst fl_eval [where e = "- 2"], simp add: pow2_def, simp add: pow2_def,
      simp add: rne_def pow2_def,
      subst fl_eval [where e = "- 1"], simp add: pow2_def, simp add: pow2_def,
      simp add: rne_def pow2_def,
      subst fl_eval [where e = "- 1"], simp add: pow2_def, simp add: pow2_def,
      simp add: rne_def pow2_def)

lemma gridCoord_scn:
  "gridCoord settings_scn (chunkOrigin settings_scn 0) 0 = Some 0"
  "gridCoord settings_scn (chunkOrigin settings_scn 0) 2 = Some 64"
  "gridCoord settings_scn (chunkOrigin settings_scn 0) 3 = Some 96"
  "gridCoord settings_scn (chunkOrigin settings_scn 0) 4 = Some 128"
  using fl_int [of 64] fl_int [of 96] fl_int [of 128]
  by (simp_all add: gridCoord_def localCoord_def fl_div_def chunkOrigin_def settings_scn_all
      fl_quarters fl_one)

lemma sampleHeight_plains:
  "sampleHeight g_plains coord00 2 3 = Some (20583 / 2401 + 9 / 10 * (671 / 68000000 * 96))"
  "sampleHeight g_plains coord00 2 4 = Some (20583 / 2401 + 9 / 10 * (671 / 68000000 * 128))"
  unfolding sampleHeight_def Let_def g_plains_noise
  by (simp_all add: coord00_def gridCoord_scn getHeightAt_plains)

text \<open>Grid coordinates along the edge between the chunks \<open>(5, 0)\<close> and \<open>(6, 0)\<close> for the
  chunk size 64.7.\<close>

lemma gridCoord_647:
  "gridCoord settings_647 (chunkOrigin settings_647 0) 0 = Some 0"
  "gridCoord settings_647 (chunkOrigin settings_647 5) 4 = Some (6829286622442291 / 17592186044416)"
  "gridCoord settings_647 (chunkOrigin settings_647 6) 0 = Some (6829286622442292 / 17592186044416)"
proof -
  have o5: "chunkOrigin settings_647 5 = 647 / 2"
    unfolding chunkOrigin_def settings_647_all
    by (subst fl_eval [where e = 8]) (simp_all add: rne_def pow2_def)
  have o6: "chunkOrigin settings_647 6 = 6829286622442292 / 17592186044416"
    unfolding chunkOrigin_def settings_647_all
    by (subst fl_eval [where e = 8]) (simp_all add: rne_def pow2_def)
  have cs: "fl (4552857748294861 / 70368744177664) = 4552857748294861 / 70368744177664"
    by (subst fl_eval [where e = 6]) (simp_all add: rne_def pow2_def)
  have l4: "localCoord settings_647 4 = Some (4552857748294861 / 70368744177664)"
    by (simp add: localCoord_def fl_div_def settings_647_all fl_one cs)
  have l0: "localCoord settings_647 0 = Some 0"
    by (simp add: localCoord_0 settings_647_all)
  have pa: "fl (647 / 2 + 4552857748294861 / 70368744177664) = 6829286622442291 / 17592186044416"
    by (subst fl_eval [where e = 8]) (simp_all add: rne_def pow2_def)
  have pb: "fl (6829286622442292 / 17592186044416 + 0) = 6829286622442292 / 17592186044416"
    by (subst fl_eval [where e = 8]) (simp_all add: rne_def pow2_def)
  show "gridCoord settings_647 (chunkOrigin settings_647 0) 0 = Some 0"
    by (simp add: gridCoord_def l0 chunkOrigin_def)
  show "gridCoord settings_647 (chunkOrigin settings_647 5) 4 = Some (6829286622442291 / 17592186044416)"
    unfolding gridCoord_def o5 l4 option.map pa ..
  show "gridCoord settings_647 (chunkOrigin settings_647 6) 0 = Some (6829286622442292 / 17592186044416)"
    unfolding gridCoord_def o6 l0 option.map pb ..
qed

lemma sampleHeight_647:
  "sampleHeight g_647 coord50 0 4 = Some (20583 / 2401)"
  "sampleHeight g_647 coord60 0 0 = Some (106545 / 16807)"
proof -
  have c: "coord_x coord50 = 5" "coord_z coord50 = 0" "coord_x coord60 = 6" "coord_z coord60 = 0"
    by (simp_all add: coord50_def coord60_def)
  show "sampleHeight g_647 coord50 0 4 = Some (20583 / 2401)"
    unfolding sampleHeight_def Let_def g_647_noise c gridCoord_647 getHeightAt_647 ..
  show "sampleHeight g_647 coord60 0 0 = Some (106545 / 16807)"
    unfolding sampleHeight_def Let_def g_647_noise c gridCoord_647 getHeightAt_647 ..
qed




text \<open>The result does depend on the noise functions of the twelve seeds: with a silent
  library the first height of chunk \<open>(0, 0)\<close> is \<open>20583 / 2401\<close>, and it is 204 when the
  continent layer is the constant 1.\<close>

lemma generateChunk_depends_on_layers:
  "\<exists>tdA tdB. generateChunk (new_WorldGenerator mk_silent settings_scn) coord00 = Some (Inr tdA)
     \<and> generateChunk (new_WorldGenerator mk_continent settings_scn) coord00 = Some (Inr tdB)
     \<and> heights tdA ! 0 = Some (20583 / 2401) \<and> heights tdB ! 0 = Some 204"
proof -
  have cs: "10 < chunkSize (wg_settings g_scn)" and mr: "0 < meshResolution (wg_settings g_scn)"
    by (simp_all add: g_scn_noise settings_scn_all)
  from generateChunk_total [OF cs mr, of coord00]
  obtain tdA where a: "generateChunk g_scn coord00 = Some (Inr tdA)" by blast
  have cs': "10 < chunkSize (wg_settings g_continent)"
    and mr': "0 < meshResolution (wg_settings g_continent)"
    by (simp_all add: g_continent_noise settings_scn_all)
  from generateChunk_total [OF cs' mr', of coord00]
  obtain tdB where b: "generateChunk g_continent coord00 = Some (Inr tdB)" by blast
  have "heights tdA ! nat (0 * (meshResolution (wg_settings g_scn) + 1) + 0)
          = sampleHeight g_scn coord00 0 0"
    by (rule heights_nth [OF a]) (simp_all add: g_scn_noise settings_scn_all)
  then have ha: "heights tdA ! 0 = Some (20583 / 2401)"
    unfolding sampleHeight_def Let_def g_scn_noise
    by (simp add: coord00_def gridCoord_scn getHeightAt_silent)
  have "heights tdB ! nat (0 * (meshResolution (wg_settings g_continent) + 1) + 0)
          = sampleHeight g_continent coord00 0 0"
    by (rule heights_nth [OF b]) (simp_all add: g_continent_noise settings_scn_all)
  then have hb: "heights tdB ! 0 = Some 204"
    unfolding sampleHeight_def Let_def g_continent_noise
    by (simp add: coord00_def gridCoord_scn getHeightAt_continent)
  from a b ha hb show ?thesis unfolding g_scn_def g_continent_def by blast
qed


lemma plains_not_flat: "heights td_plains00 ! 13 \<noteq> heights td_plains00 ! 14"
proof -
  have mr: "meshResolution (wg_settings g_plains) = 4"
    by (simp add: g_plains_noise settings_scn_all)
  have "heights td_plains00 ! nat (2 * (meshResolution (wg_settings g_plains) + 1) + 3)
          = sampleHeight g_plains coord00 2 3"
    by (rule heights_nth [OF generateChunk_plains(1)]) (simp_all add: mr)
  moreover have "heights td_plains00 ! nat (2 * (meshResolution (wg_settings g_plains) + 1) + 4)
          = sampleHeight g_plains coord00 2 4"
    by (rule heights_nth [OF generateChunk_plains(1)]) (simp_all add: mr)
  ultimately show ?thesis by (simp add: mr sampleHeight_plains)
qed



text \<open>
  C2 (amended). The height sample of a grid position is taken at the world coordinate
  \<open>coordinate * chunkSize + (i / meshResolution) * chunkSize\<close>, each operation rounded to
  binary64. When \<open>chunkSize\<close> is an integer, as the controls produce it, and the origins
  of the two chunks are at most \<open>2^53\<close> in absolute value, no operation on the shared edge
  rounds: column \<open>meshResolution\<close> of the chunk at \<open>(c, z)\<close> and column 0 of the chunk at
  \<open>(c + 1, z)\<close> are sampled at the same world coordinate and hold equal heights in every
  row, in the heights array and in the Y components of the vertices array, and likewise
  rows for chunks adjacent along z. For a chunk size that is not an integer the two world
  coordinates can differ in the last bit, and the heights with them, as the example after
  the theorem shows.
\<close>

theorem seam_heights_equal:
  assumes a: "generateChunk g a = Some (Inr tdA)" and b: "generateChunk g b = Some (Inr tdB)"
    and j: "0 \<le> j" "j \<le> meshResolution (wg_settings g)"
    and cs: "chunkSize (wg_settings g) = real_of_int k"
  shows "(coord_x b = coord_x a + 1 \<and> coord_z b = coord_z a
            \<and> \<bar>coord_x a * k\<bar> \<le> 2 ^ 53 \<and> \<bar>coord_x b * k\<bar> \<le> 2 ^ 53 \<longrightarrow>
            gridCoord (wg_settings g) (chunkOrigin (wg_settings g) (coord_x a))
                (meshResolution (wg_settings g))
              = gridCoord (wg_settings g) (chunkOrigin (wg_settings g) (coord_x b)) 0
          \<and> sampleHeight g a j (meshResolution (wg_settings g)) = sampleHeight g b j 0
          \<and> heights tdA ! nat (j * (meshResolution (wg_settings g) + 1) + meshResolution (wg_settings g))
             = heights tdB ! nat (j * (meshResolution (wg_settings g) + 1) + 0)
          \<and> vertices tdA ! (nat ((j * (meshResolution (wg_settings g) + 1)
                                    + meshResolution (wg_settings g)) * 3) + 1)
             = vertices tdB ! (nat ((j * (meshResolution (wg_settings g) + 1) + 0) * 3) + 1))
       \<and> (coord_x b = coord_x a \<and> coord_z b = coord_z a + 1
            \<and> \<bar>coord_z a * k\<bar> \<le> 2 ^ 53 \<and> \<bar>coord_z b * k\<bar> \<le> 2 ^ 53 \<longrightarrow>
            gridCoord (wg_settings g) (chunkOrigin (wg_settings g) (coord_z a))
                (meshResolution (wg_settings g))
              = gridCoord (wg_settings g) (chunkOrigin (wg_settings g) (coord_z b)) 0
          \<and> sampleHeight g a (meshResolution (wg_settings g)) j = sampleHeight g b 0 j
          \<and> heights tdA ! nat (meshResolution (wg_settings g) * (meshResolution (wg_settings g) + 1) + j)
             = heights tdB ! nat (0 * (meshResolution (wg_settings g) + 1) + j)
          \<and> vertices tdA ! (nat ((meshResolution (wg_settings g) * (meshResolution (wg_settings g) + 1)
                                    + j) * 3) + 1)
             = vertices tdB ! (nat ((0 * (meshResolution (wg_settings g) + 1) + j) * 3) + 1))"
proof -
  let ?st = "wg_settings g"
  let ?mr = "meshResolution (wg_settings g)"
  have mr: "?mr \<noteq> 0" using a by (rule generateChunk_Inr(1))
  have mr0: "0 \<le> ?mr" using j by linarith
  have hA: "heights tdA ! nat (z * (?mr + 1) + x) = sampleHeight g a z x"
    if "0 \<le> z" "z \<le> ?mr" "0 \<le> x" "x \<le> ?mr" for z x
    using heights_nth [OF a that] .
  have hB: "heights tdB ! nat (z * (?mr + 1) + x) = sampleHeight g b z x"
    if "0 \<le> z" "z \<le> ?mr" "0 \<le> x" "x \<le> ?mr" for z x
    using heights_nth [OF b that] .
  have vA: "vertices tdA ! (nat ((z * (?mr + 1) + x) * 3) + 1) = sampleHeight g a z x"
    if "0 \<le> z" "z \<le> ?mr" "0 \<le> x" "x \<le> ?mr" for z x
    using vertices_nth_y [OF a that] .
  have vB: "vertices tdB ! (nat ((z * (?mr + 1) + x) * 3) + 1) = sampleHeight g b z x"
    if "0 \<le> z" "z \<le> ?mr" "0 \<le> x" "x \<le> ?mr" for z x
    using vertices_nth_y [OF b that] .
  have X: "gridCoord ?st (chunkOrigin ?st (coord_x a)) ?mr
              = gridCoord ?st (chunkOrigin ?st (coord_x b)) 0
          \<and> sampleHeight g a j ?mr = sampleHeight g b j 0
          \<and> heights tdA ! nat (j * (?mr + 1) + ?mr) = heights tdB ! nat (j * (?mr + 1) + 0)
          \<and> vertices tdA ! (nat ((j * (?mr + 1) + ?mr) * 3) + 1)
             = vertices tdB ! (nat ((j * (?mr + 1) + 0) * 3) + 1)"
    if adj: "coord_x b = coord_x a + 1 \<and> coord_z b = coord_z a
            \<and> \<bar>coord_x a * k\<bar> \<le> 2 ^ 53 \<and> \<bar>coord_x b * k\<bar> \<le> 2 ^ 53"
  proof -
    from adj have h: "coord_x b = coord_x a + 1" "coord_z b = coord_z a"
      "\<bar>coord_x a * k\<bar> \<le> 2 ^ 53" "\<bar>coord_x b * k\<bar> \<le> 2 ^ 53" by blast+
    note s = sampleHeight_seam_x [OF mr cs h]
    show ?thesis
      unfolding hA [OF j mr0 order_refl] hB [OF j order_refl mr0]
        vA [OF j mr0 order_refl] vB [OF j order_refl mr0]
      using s by simp
  qed
  have Z: "gridCoord ?st (chunkOrigin ?st (coord_z a)) ?mr
              = gridCoord ?st (chunkOrigin ?st (coord_z b)) 0
          \<and> sampleHeight g a ?mr j = sampleHeight g b 0 j
          \<and> heights tdA ! nat (?mr * (?mr + 1) + j) = heights tdB ! nat (0 * (?mr + 1) + j)
          \<and> vertices tdA ! (nat ((?mr * (?mr + 1) + j) * 3) + 1)
             = vertices tdB ! (nat ((0 * (?mr + 1) + j) * 3) + 1)"
    if adj: "coord_x b = coord_x a \<and> coord_z b = coord_z a + 1
            \<and> \<bar>coord_z a * k\<bar> \<le> 2 ^ 53 \<and> \<bar>coord_z b * k\<bar> \<le> 2 ^ 53"
  proof -
    from adj have h: "coord_x b = coord_x a" "coord_z b = coord_z a + 1"
      "\<bar>coord_z a * k\<bar> \<le> 2 ^ 53" "\<bar>coord_z b * k\<bar> \<le> 2 ^ 53" by blast+
    note s = sampleHeight_seam_z [OF mr cs h]
    show ?thesis
      unfolding hA [OF mr0 order_refl j] hB [OF order_refl mr0 j]
        vA [OF mr0 order_refl j] vB [OF order_refl mr0 j]
      using s by simp
  qed
  from X Z show ?thesis by blast
qed

theorem seam_heights_equal_witness:
  "generateChunk g_plains coord00 = Some (Inr td_plains00)
   \<and> generateChunk g_plains coord10 = Some (Inr td_plains10)
   \<and> chunkSize (wg_settings g_plains) = real_of_int 128
   \<and> coord_x coord10 = coord_x coord00 + 1 \<and> coord_z coord10 = coord_z coord00
   \<and> gridCoord (wg_settings g_plains) (chunkOrigin (wg_settings g_plains) (coord_x coord00)) 4
       = gridCoord (wg_settings g_plains) (chunkOrigin (wg_settings g_plains) (coord_x coord10)) 0
   \<and> sampleHeight g_plains coord00 2 4 = sampleHeight g_plains coord10 2 0
   \<and> heights td_plains00 ! 14 = heights td_plains10 ! 10
   \<and> vertices td_plains00 ! 43 = vertices td_plains10 ! 31
   \<and> heights td_plains00 ! 13 \<noteq> heights td_plains00 ! 14"
proof -
  have adj: "coord_x coord10 = coord_x coord00 + 1 \<and> coord_z coord10 = coord_z coord00
      \<and> \<bar>coord_x coord00 * 128\<bar> \<le> 2 ^ 53 \<and> \<bar>coord_x coord10 * 128\<bar> \<le> 2 ^ 53"
    by (simp add: coord10_def coord00_def)
  have mr: "meshResolution (wg_settings g_plains) = 4"
    by (simp add: g_plains_noise settings_scn_all)
  have cs: "chunkSize (wg_settings g_plains) = real_of_int 128"
    by (simp add: g_plains_noise settings_scn_all)
  have j: "(0::int) \<le> 2" "2 \<le> meshResolution (wg_settings g_plains)" by (simp_all add: mr)
  note inst = seam_heights_equal [OF generateChunk_plains j cs]
  from inst adj have "gridCoord (wg_settings g_plains)
         (chunkOrigin (wg_settings g_plains) (coord_x coord00)) 4
       = gridCoord (wg_settings g_plains) (chunkOrigin (wg_settings g_plains) (coord_x coord10)) 0
       \<and> sampleHeight g_plains coord00 2 4 = sampleHeight g_plains coord10 2 0
       \<and> heights td_plains00 ! nat (2 * (4 + 1) + 4) = heights td_plains10 ! nat (2 * (4 + 1) + 0)
       \<and> vertices td_plains00 ! (nat ((2 * (4 + 1) + 4) * 3) + 1)
          = vertices td_plains10 ! (nat ((2 * (4 + 1) + 0) * 3) + 1)"
    unfolding mr by blast
  then show ?thesis using generateChunk_plains adj cs plains_not_flat by simp
qed

text \<open>The chunk size 64.7 and the chunks \<open>(5, 0)\<close> and \<open>(6, 0)\<close>. From the left, the edge is
  at \<open>fl (fl (5 * 64.7) + 64.7) = 388.2\<close>; from the right, it is at
  \<open>fl (6 * 64.7) = 388.20000000000005\<close>, the next binary64 number. What the heights then
  are depends on the noise functions: with a mountain layer that has a cliff between the
  two coordinates, the chunks store the heights \<open>8.57\<close> and \<open>6.34\<close> for the same grid point of
  their common edge.\<close>

theorem seam_heights_differ_counterexample:
  "chunkSize (wg_settings g_647) = 4552857748294861 / 70368744177664
   \<and> coord_x coord60 = coord_x coord50 + 1 \<and> coord_z coord60 = coord_z coord50
   \<and> generateChunk g_647 coord50 = Some (Inr td_647a)
   \<and> generateChunk g_647 coord60 = Some (Inr td_647b)
   \<and> gridCoord (wg_settings g_647) (chunkOrigin (wg_settings g_647) (coord_x coord50))
         (meshResolution (wg_settings g_647))
       = Some (6829286622442291 / 17592186044416)
   \<and> gridCoord (wg_settings g_647) (chunkOrigin (wg_settings g_647) (coord_x coord60)) 0
       = Some (6829286622442292 / 17592186044416)
   \<and> sampleHeight g_647 coord50 0 (meshResolution (wg_settings g_647)) = Some (20583 / 2401)
   \<and> sampleHeight g_647 coord60 0 0 = Some (106545 / 16807)
   \<and> heights td_647a ! 4 = Some (20583 / 2401)
   \<and> heights td_647b ! 0 = Some (106545 / 16807)"
proof -
  have mr: "meshResolution (wg_settings g_647) = 4"
    by (simp add: g_647_noise settings_647_all)
  have cs: "chunkSize (wg_settings g_647) = 4552857748294861 / 70368744177664"
    by (simp add: g_647_noise settings_647_all)
  have adj: "coord_x coord60 = coord_x coord50 + 1 \<and> coord_z coord60 = coord_z coord50"
    by (simp add: coord50_def coord60_def)
  have ga: "gridCoord (wg_settings g_647) (chunkOrigin (wg_settings g_647) (coord_x coord50))
         (meshResolution (wg_settings g_647)) = Some (6829286622442291 / 17592186044416)"
    by (simp add: g_647_noise settings_647_all coord50_def gridCoord_647)
  have gb: "gridCoord (wg_settings g_647) (chunkOrigin (wg_settings g_647) (coord_x coord60)) 0
       = Some (6829286622442292 / 17592186044416)"
    by (simp add: g_647_noise coord60_def gridCoord_647)
  have "heights td_647a ! nat (0 * (meshResolution (wg_settings g_647) + 1) + 4)
          = sampleHeight g_647 coord50 0 4"
    by (rule heights_nth [OF generateChunk_647(1)]) (simp_all add: mr)
  then have ha: "heights td_647a ! 4 = Some (20583 / 2401)"
    by (simp add: mr sampleHeight_647)
  have "heights td_647b ! nat (0 * (meshResolution (wg_settings g_647) + 1) + 0)
          = sampleHeight g_647 coord60 0 0"
    by (rule heights_nth [OF generateChunk_647(2)]) (simp_all add: mr)
  then have hb: "heights td_647b ! 0 = Some (106545 / 16807)"
    by (simp add: mr sampleHeight_647)
  from cs adj generateChunk_647 ga gb sampleHeight_647 ha hb show ?thesis unfolding mr by blast
qed

section \<open>The range of the height function\<close>

















end
